theory Spec2Isabelle
  imports Main "HOL-Library.Sublist" "HOL-Library.AList"
begin

section \<open>Go strings\<close>

text \<open>
  Every string a handler sees is valid UTF-8: tool arguments are decoded from the JSON
  of the request, and the literals of the source are ASCII or valid UTF-8. A Go string
  is therefore represented by the sequence of runes (code points) that \<open>for range\<close>
  and \<open>strings.Map\<close> read from it; concatenation, equality, \<open>strings.Contains\<close> and
  \<open>strings.Join\<close> on the bytes agree with the same operations on the runes.
  A literal of the source is written \<open>S ''...''\<close>.
\<close>

type_synonym rune = nat
type_synonym gostring = "rune list"

definition S :: "string \<Rightarrow> gostring" where
  "S cs = map of_char cs"

definition tabs :: "nat \<Rightarrow> gostring" where
  "tabs n = replicate n 9"

definition MaxASCII :: rune where
  "MaxASCII = 0x7F"

definition RuneError :: rune where
  "RuneError = 0xFFFD"

text \<open>\<open>utf8.ValidRune\<close>: in range and not a surrogate half.\<close>

definition ValidRune :: "rune \<Rightarrow> bool" where
  "ValidRune r = (r < 0xD800 \<or> (0xDFFF < r \<and> r \<le> 0x10FFFF))"

subsection \<open>The library outside the repository\<close>

text \<open>
  The handlers call the Go standard library. Its ASCII behaviour is written out below as
  the library's source has it. What the library looks up in tables that are not part of
  this repository is a field of \<open>golib\<close>: the Unicode case mappings and character classes
  (\<open>unicode.To\<close>, \<open>unicode.IsLetter\<close>, \<open>unicode.IsDigit\<close>, \<open>unicode.IsSpace\<close>, which the
  code below consults for runes above \<open>MaxASCII\<close> only) and the message text of an
  \<open>encoding/json\<close> error.
\<close>

datatype json_error = SyntaxError | UnmarshalTypeError

record golib =
  To_TitleCase :: "rune \<Rightarrow> rune"
  To_LowerCase :: "rune \<Rightarrow> rune"
  IsLetter :: "rune \<Rightarrow> bool"
  IsDigit :: "rune \<Rightarrow> bool"
  IsSpace :: "rune \<Rightarrow> bool"
  json_Error :: "json_error \<Rightarrow> gostring"

text \<open>\<open>unicode.ToTitle\<close> and \<open>unicode.ToLower\<close>: an ASCII fast path, then the table.\<close>

definition unicode_ToTitle :: "golib \<Rightarrow> rune \<Rightarrow> rune" where
  "unicode_ToTitle L r =
     (if r \<le> MaxASCII then (if 0x61 \<le> r \<and> r \<le> 0x7A then r - 0x20 else r)
      else To_TitleCase L r)"

definition unicode_ToLower :: "golib \<Rightarrow> rune \<Rightarrow> rune" where
  "unicode_ToLower L r =
     (if r \<le> MaxASCII then (if 0x41 \<le> r \<and> r \<le> 0x5A then r + 0x20 else r)
      else To_LowerCase L r)"

text \<open>
  \<open>strings.isSeparator\<close>: ASCII alphanumerics and underscore are not separators, every
  other ASCII rune is; above ASCII, letters and digits are not, and otherwise only
  spaces are.
\<close>

definition isSeparator :: "golib \<Rightarrow> rune \<Rightarrow> bool" where
  "isSeparator L r =
     (if r \<le> 0x7F then
        (if 0x30 \<le> r \<and> r \<le> 0x39 then False
         else if 0x61 \<le> r \<and> r \<le> 0x7A then False
         else if 0x41 \<le> r \<and> r \<le> 0x5A then False
         else if r = 0x5F then False
         else True)
      else if IsLetter L r \<or> IsDigit L r then False
      else IsSpace L r)"

text \<open>
  \<open>strings.Map\<close> keeps a rune that the mapping leaves unchanged and otherwise writes
  the mapped rune with \<open>WriteRune\<close>, which replaces an invalid rune by \<open>RuneError\<close>.
  (A negative result, which \<open>Map\<close> would drop, is not a value of \<open>rune\<close> here; neither
  mapping used below produces one.)
\<close>

definition WriteMapped :: "rune \<Rightarrow> rune \<Rightarrow> rune" where
  "WriteMapped c r = (if r = c then c else if ValidRune r then r else RuneError)"

definition strings_Map :: "(rune \<Rightarrow> rune) \<Rightarrow> gostring \<Rightarrow> gostring" where
  "strings_Map mapping s = map (\<lambda>c. WriteMapped c (mapping c)) s"

text \<open>
  \<open>strings.Title\<close> is \<open>Map\<close> with a closure that remembers the previous rune, starting
  from a space: a rune after a separator is title-cased, any other rune is kept.
  \<open>Title_from\<close> is that traversal with the closure's variable \<open>prev\<close> as an argument.
\<close>

fun Title_from :: "golib \<Rightarrow> rune \<Rightarrow> gostring \<Rightarrow> gostring" where
  "Title_from L prev [] = []"
| "Title_from L prev (r # s) =
     WriteMapped r (if isSeparator L prev then unicode_ToTitle L r else r) # Title_from L r s"

definition strings_Title :: "golib \<Rightarrow> gostring \<Rightarrow> gostring" where
  "strings_Title L s = Title_from L 0x20 s"

text \<open>\<open>strings.ToLower\<close>: ASCII-only strings are handled bytewise, others by \<open>Map\<close>.\<close>

definition strings_ToLower :: "golib \<Rightarrow> gostring \<Rightarrow> gostring" where
  "strings_ToLower L s =
     (if list_all (\<lambda>c. c < 0x80) s then
        (if \<not> list_ex (\<lambda>c. 0x41 \<le> c \<and> c \<le> 0x5A) s then s
         else map (\<lambda>c. if 0x41 \<le> c \<and> c \<le> 0x5A then c + 0x20 else c) s)
      else strings_Map (unicode_ToLower L) s)"

text \<open>\<open>strings.Index\<close> (the first position of \<open>substr\<close> in \<open>s\<close>, or \<open>-1\<close>) and \<open>strings.Contains\<close>.\<close>

fun strings_Index :: "gostring \<Rightarrow> gostring \<Rightarrow> int" where
  "strings_Index [] substr = (if substr = [] then 0 else - 1)"
| "strings_Index (c # s) substr =
     (if prefix substr (c # s) then 0
      else (let i = strings_Index s substr in if i < 0 then - 1 else i + 1))"

definition strings_Contains :: "gostring \<Rightarrow> gostring \<Rightarrow> bool" where
  "strings_Contains s substr = (0 \<le> strings_Index s substr)"

text \<open>\<open>strings.Join\<close>.\<close>

fun strings_Join :: "gostring list \<Rightarrow> gostring \<Rightarrow> gostring" where
  "strings_Join [] sep = []"
| "strings_Join [e] sep = e"
| "strings_Join (e # e' # elems) sep = e @ sep @ strings_Join (e' # elems) sep"

section \<open>Requests and results of the tool protocol\<close>

text \<open>
  The arguments of a \<open>mcp.CallToolRequest\<close> are a \<open>map[string]any\<close> decoded from JSON:
  a value is any JSON value. (A number keeps its literal text.)
\<close>

datatype jvalue =
    JNull
  | JBool bool
  | JNumber gostring
  | JString gostring
  | JArray "jvalue list"
  | JObject "(gostring \<times> jvalue) list"

type_synonym CallToolRequest = "gostring \<rightharpoonup> jvalue"

text \<open>\<open>request.GetString(key, defaultValue)\<close>: the argument if present and a string.\<close>

definition GetString :: "CallToolRequest \<Rightarrow> gostring \<Rightarrow> gostring \<Rightarrow> gostring" where
  "GetString request key defaultValue =
     (case request key of Some (JString str) \<Rightarrow> str | _ \<Rightarrow> defaultValue)"

text \<open>
  \<open>request.RequireString(key)\<close> fails when the argument is missing and when it is not a
  string. The two errors and their messages (\<open>err.Error()\<close>) are those of the protocol
  library; \<open>%q\<close> puts the key, here always a plain identifier, between double quotes.
\<close>

datatype arg_error = ArgNotFound gostring | ArgNotString gostring

definition RequireString :: "CallToolRequest \<Rightarrow> gostring \<Rightarrow> arg_error + gostring" where
  "RequireString request key =
     (case request key of
        Some (JString str) \<Rightarrow> Inr str
      | Some _ \<Rightarrow> Inl (ArgNotString key)
      | None \<Rightarrow> Inl (ArgNotFound key))"

fun arg_Error :: "arg_error \<Rightarrow> gostring" where
  "arg_Error (ArgNotFound key) = S ''required argument '' @ [34] @ key @ [34] @ S '' not found''"
| "arg_Error (ArgNotString key) = S ''argument '' @ [34] @ key @ [34] @ S '' is not a string''"

text \<open>
  A \<open>mcp.CallToolResult\<close> carries one text content and the \<open>IsError\<close> flag. Every
  \<open>return\<close> of every handler returns a result and a \<open>nil\<close> Go error, so a handler is
  modelled by the result it returns.
\<close>

record CallToolResult =
  Text :: gostring
  IsError :: bool

definition NewToolResultText :: "gostring \<Rightarrow> CallToolResult" where
  "NewToolResultText text = \<lparr>Text = text, IsError = False\<rparr>"

definition NewToolResultError :: "gostring \<Rightarrow> CallToolResult" where
  "NewToolResultError text = \<lparr>Text = text, IsError = True\<rparr>"

text \<open>A tool definition: its name, description and declared string parameters.\<close>

record ToolParam =
  ParamName :: gostring
  Required :: bool
  ParamDescription :: gostring

record Tool =
  Name :: gostring
  Description :: gostring
  InputSchema :: "ToolParam list"

definition WithString :: "gostring \<Rightarrow> bool \<Rightarrow> gostring \<Rightarrow> ToolParam" where
  "WithString name required description =
     \<lparr>ParamName = name, Required = required, ParamDescription = description\<rparr>"

definition NewTool :: "gostring \<Rightarrow> gostring \<Rightarrow> ToolParam list \<Rightarrow> Tool" where
  "NewTool name description params =
     \<lparr>Name = name, Description = description, InputSchema = params\<rparr>"

text \<open>The parameters a tool declares, and those it marks with \<open>mcp.Required()\<close>.\<close>

definition DeclaredParams :: "Tool \<Rightarrow> gostring list" where
  "DeclaredParams tool = map ParamName (InputSchema tool)"

definition RequiredParams :: "Tool \<Rightarrow> gostring list" where
  "RequiredParams tool = map ParamName (filter Required (InputSchema tool))"

section \<open>The \<open>fix_app\<close> tool\<close>

text \<open>
  \<open>FixAppHandler\<close> writes its answer into a \<open>strings.Builder\<close>. The texts below are
  its \<open>WriteString\<close> arguments in the order of the source, grouped by the two
  conditionals between them.
\<close>

definition fix_intro :: gostring where
  \<open>fix_intro =
    S ''Here are some pointers to address common issues in your Echo web application:\<newline>'' @
    S ''\<newline>''\<close>

definition fix_for_application :: "gostring \<Rightarrow> gostring" where
  \<open>fix_for_application appName =
    S ''For application '' @ [39] @ appName @ [39] @ S '':\<newline>''\<close>

definition fix_pointers :: "gostring \<Rightarrow> gostring" where
  \<open>fix_pointers appName =
    S ''1.  **Go Module Paths**: Ensure your Go module is correctly initialized and that internal imports use the module name.\<newline>'' @
    S ''    If your module is named `'' @ appName @ S ''`, then imports for internal packages should look like:\<newline>'' @
    S ''    ```go\<newline>'' @
    S ''    import (\<newline>'' @
    S ''        "'' @ appName @ S ''/internal/models"\<newline>'' @
    S ''        "'' @ appName @ S ''/internal/repository"\<newline>'' @
    S ''        "'' @ appName @ S ''/internal/service"\<newline>'' @
    S ''        "'' @ appName @ S ''/internal/controllers"\<newline>'' @
    S ''    )\<newline>'' @
    S ''    ```\<newline>'' @
    S ''    Make sure to replace `'' @ appName @ S ''` with your actual module name.\<newline>'' @
    S ''\<newline>'' @
    S ''2.  **Missing Dependencies**: If you see errors like "no required module provides package...", run `go mod tidy` in your application's root directory ('' @
    S ''`cd '' @ appName @ S '' && go mod tidy`'' @
    S '') to fetch missing dependencies.\<newline>'' @
    S ''\<newline>'' @
    S ''3.  **Database Initialization**: Ensure your `main.go` (in `cmd/web/`) correctly initializes the GORM database connection and auto-migrates all your models. For example:\<newline>'' @
    S ''    ```go\<newline>'' @
    S ''    import (\<newline>'' @
    S ''        "gorm.io/driver/sqlite"\<newline>'' @
    S ''        "gorm.io/gorm"\<newline>'' @
    S ''        "'' @ appName @ S ''/internal/models"\<newline>'' @
    S ''    )\<newline>'' @
    S ''\<newline>'' @
    S ''    func main() {\<newline>'' @
    S ''        db, err := gorm.Open(sqlite.Open("gorm.db"), &gorm.Config{})\<newline>'' @
    S ''        if err != nil {\<newline>'' @
    S ''            // handle error\<newline>'' @
    S ''        }\<newline>'' @
    S ''        db.AutoMigrate(&models.Product{}, &models.Customer{}, &models.ProductCustomer{}) // Add all your models\<newline>'' @
    S ''    }\<newline>'' @
    S ''    ```\<newline>'' @
    S ''\<newline>'' @
    S ''4.  **Repository, Service, and Controller Initialization**: Verify that you are creating instances of your repositories, services, and controllers, and injecting dependencies correctly (repositories into services, services into controllers).\<newline>'' @
    S ''\<newline>'' @
    S ''5.  **Route Registration**: Ensure all your controller methods have corresponding routes registered in your `main.go` (in `cmd/web/`). For example:\<newline>'' @
    S ''    ```go\<newline>'' @
    S ''    e.POST("/products", productController.CreateProduct)\<newline>'' @
    S ''    e.GET("/products/:id", productController.GetProductByID)\<newline>'' @
    S ''    // ... and so on for all CRUD operations and models\<newline>'' @
    S ''    ```\<newline>''\<close>

definition fix_regarding :: "gostring \<Rightarrow> gostring" where
  \<open>fix_regarding errorMessage =
    S ''\<newline>'' @
    S ''\<newline>'' @
    S ''Regarding your specific error: "'' @ errorMessage @ S ''"\<newline>''\<close>

definition fix_std_hint :: gostring where
  \<open>fix_std_hint =
    S ''This error typically means Go cannot find your internal packages. Double-check your import paths to ensure they use your module name (e.g., `[appname]/internal/models`) and run `go mod tidy`.\<newline>''\<close>


definition FixAppHandler :: "CallToolRequest \<Rightarrow> CallToolResult" where
  "FixAppHandler request =
     (let appName = GetString request (S ''app_name'') [];
          errorMessage = GetString request (S ''error_message'') [];
          responseBuilder = fix_intro;
          responseBuilder =
            (if appName \<noteq> [] then responseBuilder @ fix_for_application appName
             else responseBuilder);
          responseBuilder = responseBuilder @ fix_pointers appName;
          responseBuilder =
            (if errorMessage \<noteq> [] then
               (let responseBuilder = responseBuilder @ fix_regarding errorMessage in
                if strings_Contains errorMessage (S ''is not in std'')
                then responseBuilder @ fix_std_hint
                else responseBuilder)
             else responseBuilder)
      in NewToolResultText responseBuilder)"

definition GetFixAppTool :: "Tool \<times> (CallToolRequest \<Rightarrow> CallToolResult)" where
  "GetFixAppTool =
     (NewTool (S ''fix_app'')
        (S ''Provides pointers on common issues and how to address them in an Echo web application.'')
        [WithString (S ''app_name'') False (S ''The name of the application to fix.''),
         WithString (S ''error_message'') False (S ''The specific error message encountered.'')],
      FixAppHandler)"

section \<open>Decoding the \<open>fields\<close> argument\<close>

text \<open>
  \<open>json.Unmarshal([]byte(fieldsJSON), &fields)\<close> with \<open>fields\<close> of type
  \<open>[]map[string]string\<close>. The decoder first checks that the whole input is one JSON
  value (a syntax error otherwise) and then stores it into the target, where a JSON
  value of the wrong kind is a type error and \<open>null\<close> leaves the zero value.

  Runes used below: \<open>0x22\<close> double quote, \<open>0x5C\<close> backslash, \<open>0x2F\<close> slash, \<open>0x2D\<close> minus,
  \<open>0x2B\<close> plus, \<open>0x2E\<close> dot, \<open>0x30\<close>..\<open>0x39\<close> digits, \<open>0x45\<close>/\<open>0x65\<close> E/e,
  \<open>0x5B\<close>/\<open>0x5D\<close> brackets, \<open>0x7B\<close>/\<open>0x7D\<close> braces, \<open>0x2C\<close> comma, \<open>0x3A\<close> colon,
  \<open>0x20\<close>, \<open>0x09\<close>, \<open>0x0D\<close>, \<open>0x0A\<close> the four white-space characters.
\<close>

subsection \<open>Tokens\<close>

text \<open>
  Inside a string literal a rune is either taken as it is or comes from a \<open>\u\<close> escape,
  which names a UTF-16 code unit.
\<close>

datatype sunit = Plain rune | Esc16 nat

datatype token =
    TLBrace | TRBrace | TLBrack | TRBrack | TComma | TColon
  | TString gostring
  | TNumber gostring
  | TTrue | TFalse | TNull

text \<open>
  \<open>unquote\<close>: a surrogate code unit followed by an escaped low surrogate is one rune;
  any other surrogate is replaced by \<open>RuneError\<close>.
\<close>

definition IsSurrogate :: "nat \<Rightarrow> bool" where
  "IsSurrogate r = (0xD800 \<le> r \<and> r < 0xE000)"

definition DecodeRune :: "nat \<Rightarrow> nat \<Rightarrow> rune" where
  "DecodeRune r1 r2 =
     (if 0xD800 \<le> r1 \<and> r1 < 0xDC00 \<and> 0xDC00 \<le> r2 \<and> r2 < 0xE000
      then (r1 - 0xD800) * 0x400 + (r2 - 0xDC00) + 0x10000
      else RuneError)"

fun unquote :: "sunit list \<Rightarrow> gostring" where
  "unquote [] = []"
| "unquote (Plain c # us) = c # unquote us"
| "unquote (Esc16 rr # Esc16 rr1 # us) =
     (if IsSurrogate rr then
        (if DecodeRune rr rr1 \<noteq> RuneError then DecodeRune rr rr1 # unquote us
         else RuneError # unquote (Esc16 rr1 # us))
      else rr # unquote (Esc16 rr1 # us))"
| "unquote (Esc16 rr # us) = (if IsSurrogate rr then RuneError else rr) # unquote us"

definition isSpace_json :: "rune \<Rightarrow> bool" where
  "isSpace_json c = (c = 0x20 \<or> c = 0x09 \<or> c = 0x0D \<or> c = 0x0A)"

definition isDigit_json :: "rune \<Rightarrow> bool" where
  "isDigit_json c = (0x30 \<le> c \<and> c \<le> 0x39)"

definition hexval :: "rune \<Rightarrow> nat option" where
  "hexval c =
     (if 0x30 \<le> c \<and> c \<le> 0x39 then Some (c - 0x30)
      else if 0x61 \<le> c \<and> c \<le> 0x66 then Some (c - 0x61 + 10)
      else if 0x41 \<le> c \<and> c \<le> 0x46 then Some (c - 0x41 + 10)
      else None)"

text \<open>The states of the scanner inside a number, and what the next rune does there.\<close>

datatype numstate = NNeg | NZero | NInt | NDot | NFrac | NE | NESign | NExp

datatype numres = NCont numstate | NEnd | NBad

fun num_step :: "numstate \<Rightarrow> rune \<Rightarrow> numres" where
  "num_step NNeg c =
     (if c = 0x30 then NCont NZero
      else if 0x31 \<le> c \<and> c \<le> 0x39 then NCont NInt else NBad)"
| "num_step NZero c =
     (if c = 0x2E then NCont NDot
      else if c = 0x65 \<or> c = 0x45 then NCont NE else NEnd)"
| "num_step NInt c =
     (if isDigit_json c then NCont NInt
      else if c = 0x2E then NCont NDot
      else if c = 0x65 \<or> c = 0x45 then NCont NE else NEnd)"
| "num_step NDot c = (if isDigit_json c then NCont NFrac else NBad)"
| "num_step NFrac c =
     (if isDigit_json c then NCont NFrac
      else if c = 0x65 \<or> c = 0x45 then NCont NE else NEnd)"
| "num_step NE c =
     (if c = 0x2B \<or> c = 0x2D then NCont NESign
      else if isDigit_json c then NCont NExp else NBad)"
| "num_step NESign c = (if isDigit_json c then NCont NExp else NBad)"
| "num_step NExp c = (if isDigit_json c then NCont NExp else NEnd)"

fun num_final :: "numstate \<Rightarrow> bool" where
  "num_final NZero = True"
| "num_final NInt = True"
| "num_final NFrac = True"
| "num_final NExp = True"
| "num_final _ = False"

text \<open>
  The scanner reads the input one rune at a time. Between tokens it is in \<open>LStart\<close>;
  the other modes are inside a string (with the units read so far, latest first), after
  a backslash, inside the four hexadecimal digits of \<open>\u\<close>, inside a number, and inside
  one of the literals \<open>true\<close>, \<open>false\<close>, \<open>null\<close> (with the runes still expected).
  The tokens read so far are kept latest first.
\<close>

datatype lexmode =
    LStart
  | LString "sunit list"
  | LEsc "sunit list"
  | LU "sunit list" "nat list"
  | LNum numstate gostring
  | LLit gostring token

definition begin_token :: "rune \<Rightarrow> token list \<Rightarrow> (lexmode \<times> token list) option" where
  "begin_token c acc =
     (if isSpace_json c then Some (LStart, acc)
      else if c = 0x7B then Some (LStart, TLBrace # acc)
      else if c = 0x7D then Some (LStart, TRBrace # acc)
      else if c = 0x5B then Some (LStart, TLBrack # acc)
      else if c = 0x5D then Some (LStart, TRBrack # acc)
      else if c = 0x2C then Some (LStart, TComma # acc)
      else if c = 0x3A then Some (LStart, TColon # acc)
      else if c = 0x22 then Some (LString [], acc)
      else if c = 0x2D then Some (LNum NNeg [c], acc)
      else if c = 0x30 then Some (LNum NZero [c], acc)
      else if 0x31 \<le> c \<and> c \<le> 0x39 then Some (LNum NInt [c], acc)
      else if c = 0x74 then Some (LLit (S ''rue'') TTrue, acc)
      else if c = 0x66 then Some (LLit (S ''alse'') TFalse, acc)
      else if c = 0x6E then Some (LLit (S ''ull'') TNull, acc)
      else None)"

fun lex_step :: "lexmode \<times> token list \<Rightarrow> rune \<Rightarrow> (lexmode \<times> token list) option" where
  "lex_step (LStart, acc) c = begin_token c acc"
| "lex_step (LString us, acc) c =
     (if c = 0x22 then Some (LStart, TString (unquote (rev us)) # acc)
      else if c = 0x5C then Some (LEsc us, acc)
      else if c < 0x20 then None
      else Some (LString (Plain c # us), acc))"
| "lex_step (LEsc us, acc) c =
     (if c = 0x62 then Some (LString (Plain 0x08 # us), acc)
      else if c = 0x66 then Some (LString (Plain 0x0C # us), acc)
      else if c = 0x6E then Some (LString (Plain 0x0A # us), acc)
      else if c = 0x72 then Some (LString (Plain 0x0D # us), acc)
      else if c = 0x74 then Some (LString (Plain 0x09 # us), acc)
      else if c = 0x5C \<or> c = 0x2F \<or> c = 0x22 then Some (LString (Plain c # us), acc)
      else if c = 0x75 then Some (LU us [], acc)
      else None)"
| "lex_step (LU us hs, acc) c =
     (case hexval c of
        None \<Rightarrow> None
      | Some h \<Rightarrow>
          (if length hs = 3
           then Some (LString (Esc16 (foldl (\<lambda>n d. 16 * n + d) 0 (hs @ [h])) # us), acc)
           else Some (LU us (hs @ [h]), acc)))"
| "lex_step (LNum st lit, acc) c =
     (case num_step st c of
        NCont st' \<Rightarrow> Some (LNum st' (lit @ [c]), acc)
      | NEnd \<Rightarrow> begin_token c (TNumber lit # acc)
      | NBad \<Rightarrow> None)"
| "lex_step (LLit expected tok, acc) c =
     (case expected of
        [] \<Rightarrow> None
      | e # es \<Rightarrow>
          (if c \<noteq> e then None
           else if es = [] then Some (LStart, tok # acc)
           else Some (LLit es tok, acc)))"

fun lex_end :: "lexmode \<times> token list \<Rightarrow> token list option" where
  "lex_end (LStart, acc) = Some (rev acc)"
| "lex_end (LNum st lit, acc) = (if num_final st then Some (rev (TNumber lit # acc)) else None)"
| "lex_end _ = None"

fun lex_run :: "lexmode \<times> token list \<Rightarrow> gostring \<Rightarrow> token list option" where
  "lex_run st [] = lex_end st"
| "lex_run st (c # cs) =
     (case lex_step st c of None \<Rightarrow> None | Some st' \<Rightarrow> lex_run st' cs)"

definition tokens :: "gostring \<Rightarrow> token list option" where
  "tokens data = lex_run (LStart, []) data"

subsection \<open>Values\<close>

text \<open>
  The scanner keeps a stack of the arrays and objects that are open: an array with its
  elements so far, an object with its members so far and the key that waits for its
  value (both latest first). More than \<open>maxNestingDepth\<close> open containers are a syntax
  error.
\<close>

datatype frame =
    FArray "jvalue list"
  | FObject "(gostring \<times> jvalue) list" "gostring option"

datatype pstate =
    BeginValue
  | BeginValueOrEmpty
  | BeginString
  | BeginStringOrEmpty
  | AfterKey
  | EndValue
  | EndTop jvalue

definition maxNestingDepth :: nat where
  "maxNestingDepth = 10000"

fun end_value :: "jvalue \<Rightarrow> frame list \<Rightarrow> (pstate \<times> frame list) option" where
  "end_value v [] = Some (EndTop v, [])"
| "end_value v (FArray es # stack) = Some (EndValue, FArray (v # es) # stack)"
| "end_value v (FObject ms (Some k) # stack) = Some (EndValue, FObject ((k, v) # ms) None # stack)"
| "end_value v (FObject ms None # stack) = None"

definition push_frame :: "pstate \<Rightarrow> frame \<Rightarrow> frame list \<Rightarrow> (pstate \<times> frame list) option" where
  "push_frame st f stack =
     (if length (f # stack) > maxNestingDepth then None else Some (st, f # stack))"

fun begin_value :: "token \<Rightarrow> frame list \<Rightarrow> (pstate \<times> frame list) option" where
  "begin_value TLBrack stack = push_frame BeginValueOrEmpty (FArray []) stack"
| "begin_value TLBrace stack = push_frame BeginStringOrEmpty (FObject [] None) stack"
| "begin_value (TString s) stack = end_value (JString s) stack"
| "begin_value (TNumber n) stack = end_value (JNumber n) stack"
| "begin_value TTrue stack = end_value (JBool True) stack"
| "begin_value TFalse stack = end_value (JBool False) stack"
| "begin_value TNull stack = end_value JNull stack"
| "begin_value _ stack = None"

fun parse_step :: "pstate \<times> frame list \<Rightarrow> token \<Rightarrow> (pstate \<times> frame list) option" where
  "parse_step (BeginValue, stack) t = begin_value t stack"
| "parse_step (BeginValueOrEmpty, FArray es # stack) TRBrack = end_value (JArray (rev es)) stack"
| "parse_step (BeginValueOrEmpty, stack) t = begin_value t stack"
| "parse_step (BeginStringOrEmpty, FObject ms None # stack) TRBrace =
     end_value (JObject (rev ms)) stack"
| "parse_step (BeginStringOrEmpty, FObject ms None # stack) (TString k) =
     Some (AfterKey, FObject ms (Some k) # stack)"
| "parse_step (BeginString, FObject ms None # stack) (TString k) =
     Some (AfterKey, FObject ms (Some k) # stack)"
| "parse_step (AfterKey, stack) TColon = Some (BeginValue, stack)"
| "parse_step (EndValue, FArray es # stack) TComma = Some (BeginValue, FArray es # stack)"
| "parse_step (EndValue, FArray es # stack) TRBrack = end_value (JArray (rev es)) stack"
| "parse_step (EndValue, FObject ms None # stack) TComma =
     Some (BeginString, FObject ms None # stack)"
| "parse_step (EndValue, FObject ms None # stack) TRBrace = end_value (JObject (rev ms)) stack"
| "parse_step _ t = None"

fun parse_run :: "pstate \<times> frame list \<Rightarrow> token list \<Rightarrow> jvalue option" where
  "parse_run (EndTop v, stack) [] = Some v"
| "parse_run st [] = None"
| "parse_run st (t # ts) =
     (case parse_step st t of None \<Rightarrow> None | Some st' \<Rightarrow> parse_run st' ts)"

definition json_parse :: "gostring \<Rightarrow> jvalue option" where
  "json_parse data =
     (case tokens data of None \<Rightarrow> None | Some ts \<Rightarrow> parse_run (BeginValue, []) ts)"

subsection \<open>Storing the value into \<open>[]map[string]string\<close>\<close>

text \<open>
  A Go \<open>map[string]string\<close> is the list of its bindings, one for each key.
  A member value must be a string or \<open>null\<close> (which stores the empty string), an
  element an object or \<open>null\<close> (which leaves the \<open>nil\<close> map), the whole an array or
  \<open>null\<close> (which leaves the \<open>nil\<close> slice). A later member with the same key replaces
  the earlier one. The decoder goes on after a type error and reports the first one at
  the end, so any type error makes the call fail.
\<close>

type_synonym field = "(gostring \<times> gostring) list"

fun store_members :: "(gostring \<times> jvalue) list \<Rightarrow> field \<Rightarrow> json_error + field" where
  "store_members [] m = Inr m"
| "store_members ((k, JString s) # ms) m = store_members ms (AList.update k s m)"
| "store_members ((k, JNull) # ms) m = store_members ms (AList.update k [] m)"
| "store_members ((k, v) # ms) m = Inl UnmarshalTypeError"

fun store_element :: "jvalue \<Rightarrow> json_error + field" where
  "store_element (JObject ms) = store_members ms []"
| "store_element JNull = Inr []"
| "store_element v = Inl UnmarshalTypeError"

fun store_elements :: "jvalue list \<Rightarrow> json_error + field list" where
  "store_elements [] = Inr []"
| "store_elements (v # vs) =
     (case store_element v of
        Inl e \<Rightarrow> Inl e
      | Inr m \<Rightarrow> (case store_elements vs of Inl e \<Rightarrow> Inl e | Inr ms \<Rightarrow> Inr (m # ms)))"

fun store_fields :: "jvalue \<Rightarrow> json_error + field list" where
  "store_fields (JArray vs) = store_elements vs"
| "store_fields JNull = Inr []"
| "store_fields v = Inl UnmarshalTypeError"

definition json_Unmarshal :: "gostring \<Rightarrow> json_error + field list" where
  "json_Unmarshal data =
     (case json_parse data of None \<Rightarrow> Inl SyntaxError | Some v \<Rightarrow> store_fields v)"

section \<open>The \<open>produce_model_boilerplate\<close> tool\<close>

text \<open>
  \<open>fmt.Sprintf\<close> with a format whose verbs are all \<open>%s\<close> or \<open>%[n]s\<close> on string arguments
  is the format with each verb replaced by its argument (and \<open>%%\<close> by a percent sign).
  A template is written as the list of its pieces, one line of the source on each line;
  a long template is cut into parts.

  The variable \<open>fields\<close> of the source is \<open>fields'\<close> here.
  \<open>field["name"]\<close> on a \<open>map[string]string\<close> is the empty string when the key is absent.
\<close>

definition field_index :: "field \<Rightarrow> gostring \<Rightarrow> gostring" where
  "field_index field key = (case map_of field key of None \<Rightarrow> [] | Some v \<Rightarrow> v)"

text \<open>The body of the loop over \<open>fields\<close>: the line appended to \<open>structFields\<close>.\<close>

definition struct_field :: "golib \<Rightarrow> field \<Rightarrow> gostring" where
  \<open>struct_field L field =
     (let name = field_index field (S ''name'');
          fieldType = field_index field (S ''type'')
      in tabs 1 @ strings_Title L name @ S '' '' @ fieldType @ S '' `json:"'' @ name @ S ''"`'')\<close>

fun range_fields :: "golib \<Rightarrow> field list \<Rightarrow> gostring list \<Rightarrow> gostring list" where
  "range_fields L [] structFields = structFields"
| "range_fields L (field # fields') structFields =
     range_fields L fields' (structFields @ [struct_field L field])"

definition model_content :: "golib \<Rightarrow> gostring \<Rightarrow> gostring list \<Rightarrow> gostring" where
  \<open>model_content L modelName structFields = concat [
    S ''package models\<newline>'',
    S ''\<newline>'',
    S ''import "gorm.io/gorm"\<newline>'',
    S ''\<newline>'',
    S ''type '', strings_Title L modelName, S '' struct {\<newline>'',
    tabs 1, S ''gorm.Model\<newline>'',
    strings_Join structFields (S ''\<newline>''), S ''\<newline>'',
    S ''}\<newline>'']\<close>

definition model_response_1 :: "gostring \<Rightarrow> gostring \<Rightarrow> gostring \<Rightarrow> gostring \<Rightarrow> gostring" where
  \<open>model_response_1 titleModelName lowerModelName modelContent appName = concat [
    S ''\<newline>'',
    S ''# Model and Repository Scaffold Instructions\<newline>'',
    S ''\<newline>'',
    S ''To scaffold the model '', [39], titleModelName, [39], S '' and its repository, please perform the following steps:\<newline>'',
    S ''\<newline>'',
    S ''Note: The model includes 'gorm.Model' which provides the following fields automatically:\<newline>'',
    S ''- ID (uint, primary key)\<newline>'',
    S ''- CreatedAt (time.Time)\<newline>'',
    S ''- UpdatedAt (time.Time)\<newline>'',
    S ''- DeletedAt (soft delete with index)\<newline>'',
    S ''\<newline>'',
    S ''These fields don't need to be added manually to your model.\<newline>'',
    S ''\<newline>'',
    S ''1. Create or update the file at `internal/models/'', lowerModelName, S ''.go` with the following content:\<newline>'',
    S ''```go\<newline>'',
    modelContent, S ''\<newline>'',
    S ''```\<newline>'',
    S ''\<newline>'',
    S ''2. Create the repository directory (or ensure it exists):\<newline>'',
    S ''   `mkdir -p internal/repository/'', lowerModelName, S ''`\<newline>'',
    S ''\<newline>'',
    S ''3. For each of the following, create or update the file in `internal/repository/'', lowerModelName, S ''/` as needed:\<newline>'',
    S ''\<newline>'',
    S ''   a. `repo.go` (constructor and interface for dependency injection):\<newline>'',
    S ''```go\<newline>'',
    S ''package repository\<newline>'',
    S ''\<newline>'',
    S ''import (\<newline>'',
    tabs 1, S ''"context"\<newline>'',
    tabs 1, S ''"gorm.io/gorm"\<newline>'',
    tabs 1, S ''"'', appName, S ''/internal/models"\<newline>'',
    S '')\<newline>'',
    S ''\<newline>'',
    S ''type '', titleModelName, S ''Repository interface {\<newline>'',
    tabs 1, S ''Create(ctx context.Context, '', lowerModelName, S '' *models.'', titleModelName, S '') error\<newline>'',
    tabs 1, S ''Update(ctx context.Context, '', lowerModelName, S '' *models.'', titleModelName, S '') error\<newline>'',
    tabs 1, S ''Delete(ctx context.Context, id uint) error\<newline>'',
    tabs 1, S ''Get(ctx context.Context, filters map[string]interface{}) ([]models.'', titleModelName, S '', error)\<newline>'',
    S ''}\<newline>'',
    S ''\<newline>'']\<close>

definition model_response_2 :: "gostring \<Rightarrow> gostring \<Rightarrow> gostring \<Rightarrow> gostring \<Rightarrow> gostring" where
  \<open>model_response_2 titleModelName lowerModelName modelContent appName = concat [
    S ''type '', titleModelName, S ''RepositoryImpl struct {\<newline>'',
    tabs 1, S ''db *gorm.DB\<newline>'',
    S ''}\<newline>'',
    S ''\<newline>'',
    S ''func New'', titleModelName, S ''Repository(db *gorm.DB) '', titleModelName, S ''Repository {\<newline>'',
    tabs 1, S ''return &'', titleModelName, S ''RepositoryImpl{db: db}\<newline>'',
    S ''}\<newline>'',
    S ''```\<newline>'',
    S ''\<newline>'',
    S ''   b. `create.go` (Create method):\<newline>'',
    S ''```go\<newline>'',
    S ''package repository\<newline>'',
    S ''\<newline>'',
    S ''import (\<newline>'',
    tabs 1, S ''"context"\<newline>'',
    tabs 1, S ''"'', appName, S ''/internal/models"\<newline>'',
    S '')\<newline>'',
    S ''\<newline>'',
    S ''func (r *'', titleModelName, S ''RepositoryImpl) Create(ctx context.Context, '', lowerModelName, S '' *models.'', titleModelName, S '') error {\<newline>'',
    tabs 1, S ''return r.db.WithContext(ctx).Create('', lowerModelName, S '').Error\<newline>'',
    S ''}\<newline>'',
    S ''```\<newline>'',
    S ''\<newline>'',
    S ''   c. `update.go` (Update method):\<newline>'',
    S ''```go\<newline>'',
    S ''package repository\<newline>'',
    S ''\<newline>'',
    S ''import (\<newline>'',
    tabs 1, S ''"context"\<newline>'',
    tabs 1, S ''"'', appName, S ''/internal/models"\<newline>'',
    S '')\<newline>'',
    S ''\<newline>'',
    S ''func (r *'', titleModelName, S ''RepositoryImpl) Update(ctx context.Context, '', lowerModelName, S '' *models.'', titleModelName, S '') error {\<newline>'',
    tabs 1, S ''return r.db.WithContext(ctx).Save('', lowerModelName, S '').Error\<newline>'',
    S ''}\<newline>'',
    S ''```\<newline>'',
    S ''\<newline>'',
    S ''   d. `delete.go` (Delete method):\<newline>'',
    S ''```go\<newline>'',
    S ''package repository\<newline>'']\<close>

definition model_response_3 :: "gostring \<Rightarrow> gostring \<Rightarrow> gostring \<Rightarrow> gostring \<Rightarrow> gostring" where
  \<open>model_response_3 titleModelName lowerModelName modelContent appName = concat [
    S ''\<newline>'',
    S ''import (\<newline>'',
    tabs 1, S ''"context"\<newline>'',
    tabs 1, S ''"'', appName, S ''/internal/models"\<newline>'',
    S '')\<newline>'',
    S ''\<newline>'',
    S ''func (r *'', titleModelName, S ''RepositoryImpl) Delete(ctx context.Context, id uint) error {\<newline>'',
    tabs 1, S ''return r.db.WithContext(ctx).Delete(&models.'', titleModelName, S ''{}, id).Error\<newline>'',
    S ''}\<newline>'',
    S ''```\<newline>'',
    S ''\<newline>'',
    S ''   e. `get.go` (Get method - many-to-many with filtering):\<newline>'',
    S ''```go\<newline>'',
    S ''package repository\<newline>'',
    S ''\<newline>'',
    S ''import (\<newline>'',
    tabs 1, S ''"context"\<newline>'',
    tabs 1, S ''"fmt"\<newline>'',
    tabs 1, S ''"'', appName, S ''/internal/models"\<newline>'',
    S '')\<newline>'',
    S ''\<newline>'',
    S ''func (r *'', titleModelName, S ''RepositoryImpl) Get(ctx context.Context, filters map[string]interface{}) ([]models.'', titleModelName, S '', error) {\<newline>'',
    tabs 1, S ''var '', lowerModelName, S '' []models.'', titleModelName, S ''\<newline>'',
    tabs 1, S ''query := r.db.WithContext(ctx)\<newline>'',
    tabs 1, S ''for key, value := range filters {\<newline>'',
    tabs 2, S ''query = query.Where(fmt.Sprintf("%s = ?", key), value)\<newline>'',
    tabs 1, S ''}\<newline>'',
    tabs 1, S ''err := query.Find(&'', lowerModelName, S '').Error\<newline>'',
    tabs 1, S ''return '', lowerModelName, S '', err\<newline>'',
    S ''}\<newline>'',
    S ''```\<newline>'',
    S ''\<newline>'',
    S ''4. Bootstrap dependencies in `cmd/web/main.go`:\<newline>'',
    S ''   After creating models, repositories, services, and controllers, you will need to create or update `cmd/web/main.go` to bootstrap these dependencies.\<newline>'',
    S ''   This typically involves:\<newline>'',
    S ''   - Importing `gorm.io/driver/sqlite` (or your chosen database driver) and `gorm.io/gorm`.\<newline>'',
    S ''   - Initializing the database connection (e.g., `db, err := gorm.Open(sqlite.Open("gorm.db"), &gorm.Config{})`).\<newline>'',
    S ''   - Auto-migrating your models (e.g., `db.AutoMigrate(&models.YourModel{})`).\<newline>'',
    S ''   - Creating instances of your repositories (e.g., `userRepo := repository.NewUserRepository(db)`).\<newline>'',
    S ''   - Creating instances of your services, injecting repositories (e.g., `userService := service.NewUserService(userRepo)`).\<newline>'']\<close>

definition model_response_4 :: "gostring \<Rightarrow> gostring \<Rightarrow> gostring \<Rightarrow> gostring \<Rightarrow> gostring" where
  \<open>model_response_4 titleModelName lowerModelName modelContent appName = concat [
    S ''   - Creating instances of your controllers, injecting services (e.g., `userController := controllers.NewUserController(userService)`).\<newline>'',
    S ''   - Registering routes for your controllers (e.g., `e.POST("/users", userController.CreateUser)`).\<newline>'',
    S ''\<newline>'',
    S ''   **Important Note**: It is recommended to use a service layer between your controllers and repositories. Controllers should not communicate directly with repositories. Instead, controllers should use services, and services should use repositories. This promotes better separation of concerns and makes your code more maintainable.\<newline>'',
    S ''\<newline>'',
    S ''   Here's an example of how `cmd/web/main.go` might look after adding a 'User' model with service layer:\<newline>'',
    S ''   ```go\<newline>'',
    S ''package main\<newline>'',
    S ''\<newline>'',
    S ''import (\<newline>'',
    tabs 1, S ''"net/http"\<newline>'',
    S ''\<newline>'',
    tabs 1, S ''"github.com/labstack/echo/v4"\<newline>'',
    tabs 1, S ''"github.com/labstack/echo/v4/middleware"\<newline>'',
    tabs 1, S ''"gorm.io/driver/sqlite"\<newline>'',
    tabs 1, S ''"gorm.io/gorm"\<newline>'',
    S ''\<newline>'',
    tabs 1, S ''"'', appName, S ''/internal/models"\<newline>'',
    tabs 1, S ''"'', appName, S ''/internal/repository"\<newline>'',
    tabs 1, S ''"'', appName, S ''/internal/service"\<newline>'',
    tabs 1, S ''"'', appName, S ''/internal/controllers"\<newline>'',
    S '')\<newline>'',
    S ''\<newline>'',
    S ''func main() {\<newline>'',
    tabs 1, S ''e := echo.New()\<newline>'',
    tabs 1, S ''e.Use(middleware.Logger())\<newline>'',
    tabs 1, S ''e.Use(middleware.Recover())\<newline>'',
    S ''\<newline>'',
    tabs 1, S ''// Database initialization\<newline>'',
    tabs 1, S ''db, err := gorm.Open(sqlite.Open("gorm.db"), &gorm.Config{})\<newline>'',
    tabs 1, S ''if err != nil {\<newline>'',
    tabs 2, S ''e.Logger.Fatal("failed to connect database", err)\<newline>'',
    tabs 1, S ''}\<newline>'',
    S ''\<newline>'',
    tabs 1, S ''// Auto-migrate models\<newline>'',
    tabs 1, S ''err = db.AutoMigrate(&models.User{}) // Add all your models here\<newline>'',
    tabs 1, S ''if err != nil {\<newline>'',
    tabs 2, S ''e.Logger.Fatal("failed to auto migrate models", err)\<newline>'',
    tabs 1, S ''}\<newline>'',
    S ''\<newline>'']\<close>

definition model_response_5 :: "gostring \<Rightarrow> gostring \<Rightarrow> gostring \<Rightarrow> gostring \<Rightarrow> gostring" where
  \<open>model_response_5 titleModelName lowerModelName modelContent appName = concat [
    tabs 1, S ''// Initialize repositories\<newline>'',
    tabs 1, S ''userRepo := repository.NewUserRepository(db)\<newline>'',
    S ''\<newline>'',
    tabs 1, S ''// Initialize services\<newline>'',
    tabs 1, S ''userService := service.NewUserService(userRepo)\<newline>'',
    S ''\<newline>'',
    tabs 1, S ''// Initialize controllers\<newline>'',
    tabs 1, S ''userController := controllers.NewUserController(userService)\<newline>'',
    S ''\<newline>'',
    tabs 1, S ''// Routes\<newline>'',
    tabs 1, S ''e.GET("/", hello)\<newline>'',
    tabs 1, S ''e.POST("/users", userController.CreateUser)\<newline>'',
    tabs 1, S ''e.GET("/users/:id", userController.GetUserByID) // Example for GetByID\<newline>'',
    tabs 1, S ''e.GET("/users", userController.ListUsers)       // Example for List\<newline>'',
    tabs 1, S ''e.PUT("/users/:id", userController.UpdateUser)\<newline>'',
    tabs 1, S ''e.DELETE("/users/:id", userController.DeleteUser)\<newline>'',
    S ''\<newline>'',
    tabs 1, S ''e.Logger.Fatal(e.Start(":1323"))\<newline>'',
    S ''}\<newline>'',
    S ''\<newline>'',
    S ''func hello(c echo.Context) error {\<newline>'',
    tabs 1, S ''return c.String(http.StatusOK, "Hello, World!")\<newline>'',
    S ''}\<newline>'',
    S ''```\<newline>'']\<close>

definition model_response :: "gostring \<Rightarrow> gostring \<Rightarrow> gostring \<Rightarrow> gostring \<Rightarrow> gostring" where
  "model_response titleModelName lowerModelName modelContent appName = concat [
    model_response_1 titleModelName lowerModelName modelContent appName,
    model_response_2 titleModelName lowerModelName modelContent appName,
    model_response_3 titleModelName lowerModelName modelContent appName,
    model_response_4 titleModelName lowerModelName modelContent appName,
    model_response_5 titleModelName lowerModelName modelContent appName]"

definition ProduceModelBoilerplateHandler :: "golib \<Rightarrow> CallToolRequest \<Rightarrow> CallToolResult" where
  \<open>ProduceModelBoilerplateHandler L request =
     (let appName = GetString request (S ''app_name'') [] in
      if appName = [] then NewToolResultError (S ''App name is required'')
      else
        (case RequireString request (S ''model_name'') of
           Inl err \<Rightarrow> NewToolResultError (S ''Error getting 'model_name': '' @ arg_Error err)
         | Inr modelName \<Rightarrow>
             (case RequireString request (S ''fields'') of
                Inl err \<Rightarrow> NewToolResultError (S ''Error getting 'fields': '' @ arg_Error err)
              | Inr fieldsJSON \<Rightarrow>
                  (case json_Unmarshal fieldsJSON of
                     Inl err \<Rightarrow> NewToolResultError (S ''Invalid 'fields' JSON format: '' @ json_Error L err)
                   | Inr fields' \<Rightarrow>
                       (let structFields = range_fields L fields' [];
                            modelContent = model_content L modelName structFields;
                            titleModelName = strings_Title L modelName;
                            lowerModelName = strings_ToLower L modelName;
                            response =
                              model_response titleModelName lowerModelName modelContent appName
                        in NewToolResultText response)))))\<close>

definition GetProduceModelBoilerplateTool :: "Tool \<times> (golib \<Rightarrow> CallToolRequest \<Rightarrow> CallToolResult)" where
  \<open>GetProduceModelBoilerplateTool =
     (NewTool (S ''produce_model_boilerplate'')
        (S ''Instructs the LLM to output an example boilerplate for a new GORM-compatible model and its repository files.'')
        [WithString (S ''app_name'') False
           (S ''The name of the application. This is used to output an example of correct import paths.''),
         WithString (S ''model_name'') True
           (S ''The name of the model (e.g., User, Product).''),
         WithString (S ''fields'') True
           (S ''A JSON array of objects, where each object has 'name' (string) and 'type' (string) for the model fields.'')],
      ProduceModelBoilerplateHandler)\<close>

section \<open>The \<open>produce_service_boilerplate\<close> tool\<close>

definition service_response_1 :: "gostring \<Rightarrow> gostring \<Rightarrow> gostring \<Rightarrow> gostring" where
  \<open>service_response_1 titleModelName lowerModelName appName = concat [
    S ''# Service Layer and DTOs Scaffold Instructions\<newline>'',
    S ''\<newline>'',
    S ''## Understanding DTOs (Data Transfer Objects)\<newline>'',
    S ''\<newline>'',
    S ''**What are DTOs?**\<newline>'',
    S ''DTOs (Data Transfer Objects) are objects that carry data between processes or layers in your application. In the context of a web API:\<newline>'',
    S ''- They define the structure of data sent to and received from your API endpoints\<newline>'',
    S ''- They separate your internal domain models from your external API contract\<newline>'',
    S ''- They allow you to control exactly what data is exposed to clients\<newline>'',
    S ''\<newline>'',
    S ''**When to use DTOs:**\<newline>'',
    S ''- When your internal model structure differs from what you want to expose in your API\<newline>'',
    S ''- When you need to validate or transform data before it reaches your domain model\<newline>'',
    S ''- When you want to version your API without changing your domain models\<newline>'',
    S ''- When you need to combine data from multiple models into a single response\<newline>'',
    S ''\<newline>'',
    S ''**Benefits of using DTOs:**\<newline>'',
    S ''- Decoupling: Changes to your domain models don't necessarily break your API contract\<newline>'',
    S ''- Security: You can exclude sensitive fields from responses\<newline>'',
    S ''- Flexibility: You can shape responses differently for different endpoints\<newline>'',
    S ''- Validation: You can add validation rules specific to API requests\<newline>'',
    S ''\<newline>'',
    S ''**Should you create a DTO package?**\<newline>'',
    S ''- **Yes, create a DTO package if:**\<newline>'',
    S ''  - Your API is public-facing or used by multiple clients\<newline>'',
    S ''  - Your models contain sensitive fields that shouldn't be exposed\<newline>'',
    S ''  - Your API request/response structure needs to differ from your database models\<newline>'',
    S ''  - You need to validate API inputs separately from model validation\<newline>'',
    S ''  - You're building a medium to large application where maintainability is important\<newline>'',
    S ''\<newline>'',
    S ''- **You might not need a DTO package if:**\<newline>'',
    S ''  - You're building a simple prototype or proof-of-concept\<newline>'',
    S ''  - Your application is very small with minimal API endpoints\<newline>'',
    S ''  - Your models map directly to your API with no sensitive fields\<newline>'',
    S ''  - You're the only consumer of your API and don't need a strict contract\<newline>'',
    S ''\<newline>'',
    S ''For this scaffolding, we'll create a dedicated 'dto' package to contain all your DTOs, organized by model/domain. This follows best practices for separation of concerns and maintainability in medium to large applications.\<newline>'',
    S ''\<newline>'',
    S ''To scaffold the service layer with DTOs for model '', [39], titleModelName, [39], S '', please perform the following steps:\<newline>'',
    S ''\<newline>'']\<close>

definition service_response_2 :: "gostring \<Rightarrow> gostring \<Rightarrow> gostring \<Rightarrow> gostring" where
  \<open>service_response_2 titleModelName lowerModelName appName = concat [
    S ''1. Create the DTOs directory (or ensure it exists):\<newline>'',
    S ''   mkdir -p internal/dto/'', lowerModelName, S ''\<newline>'',
    S ''\<newline>'',
    S ''2. Create or update the file at internal/dto/'', lowerModelName, S ''/dto.go with the following content:\<newline>'',
    S ''\<newline>'',
    S ''package dto\<newline>'',
    S ''\<newline>'',
    S ''import "time"\<newline>'',
    S ''\<newline>'',
    S ''// Create'', titleModelName, S ''Request represents the request payload for creating a '', lowerModelName, S ''\<newline>'',
    S ''type Create'', titleModelName, S ''Request struct {\<newline>'',
    tabs 1, S ''// Add your fields here based on your model\<newline>'',
    tabs 1, S ''// Example fields - replace with actual model fields:\<newline>'',
    tabs 1, S ''// Name        string `json:"name" validate:"required"`\<newline>'',
    tabs 1, S ''// Email       string `json:"email" validate:"required,email"`\<newline>'',
    tabs 1, S ''// Description string `json:"description"`\<newline>'',
    S ''}\<newline>'',
    S ''\<newline>'',
    S ''// Update'', titleModelName, S ''Request represents the request payload for updating a '', lowerModelName, S ''\<newline>'',
    S ''type Update'', titleModelName, S ''Request struct {\<newline>'',
    tabs 1, S ''ID uint `json:"id" validate:"required"`\<newline>'',
    tabs 1, S ''// Add your fields here based on your model\<newline>'',
    tabs 1, S ''// Example fields - replace with actual model fields:\<newline>'',
    tabs 1, S ''// Name        *string `json:"name,omitempty"`\<newline>'',
    tabs 1, S ''// Email       *string `json:"email,omitempty"`\<newline>'',
    tabs 1, S ''// Description *string `json:"description,omitempty"`\<newline>'',
    S ''}\<newline>'',
    S ''\<newline>'',
    S ''// '', titleModelName, S ''Response represents the response payload for '', lowerModelName, S '' operations\<newline>'',
    S ''type '', titleModelName, S ''Response struct {\<newline>'',
    tabs 1, S ''ID        uint      `json:"id"`\<newline>'',
    tabs 1, S ''CreatedAt time.Time `json:"created_at"`\<newline>'',
    tabs 1, S ''UpdatedAt time.Time `json:"updated_at"`\<newline>'',
    tabs 1, S ''// Add your fields here based on your model\<newline>'',
    tabs 1, S ''// Example fields - replace with actual model fields:\<newline>'',
    tabs 1, S ''// Name        string `json:"name"`\<newline>'',
    tabs 1, S ''// Email       string `json:"email"`\<newline>'',
    tabs 1, S ''// Description string `json:"description"`\<newline>'',
    S ''}\<newline>'',
    S ''\<newline>'']\<close>

definition service_response_3 :: "gostring \<Rightarrow> gostring \<Rightarrow> gostring \<Rightarrow> gostring" where
  \<open>service_response_3 titleModelName lowerModelName appName = concat [
    S ''// List'', titleModelName, S ''Response represents the response payload for listing '', lowerModelName, S ''\<newline>'',
    S ''type List'', titleModelName, S ''Response struct {\<newline>'',
    tabs 1, S ''Data  []'', titleModelName, S ''Response `json:"data"`\<newline>'',
    tabs 1, S ''Total int          `json:"total"`\<newline>'',
    tabs 1, S ''Page  int          `json:"page"`\<newline>'',
    tabs 1, S ''Limit int          `json:"limit"`\<newline>'',
    S ''}\<newline>'',
    S ''\<newline>'',
    S ''3. Create the service directory (or ensure it exists):\<newline>'',
    S ''   mkdir -p internal/service/'', lowerModelName, S ''\<newline>'',
    S ''\<newline>'',
    S ''4. Create the service files:\<newline>'',
    S ''\<newline>'',
    S ''   a. internal/service/'', lowerModelName, S ''/service.go (interface and constructor):\<newline>'',
    S ''\<newline>'',
    S ''package service\<newline>'',
    S ''\<newline>'',
    S ''import (\<newline>'',
    tabs 1, S ''"context"\<newline>'',
    tabs 1, S ''"'', appName, S ''/internal/dto"\<newline>'',
    tabs 1, S ''"'', appName, S ''/internal/models"\<newline>'',
    tabs 1, S ''"'', appName, S ''/internal/repository"\<newline>'',
    S '')\<newline>'',
    S ''\<newline>'',
    S ''type '', titleModelName, S ''Service interface {\<newline>'',
    tabs 1, S ''Create(ctx context.Context, req *dto.Create'', titleModelName, S ''Request) (*dto.'', titleModelName, S ''Response, error)\<newline>'',
    tabs 1, S ''Update(ctx context.Context, req *dto.Update'', titleModelName, S ''Request) (*dto.'', titleModelName, S ''Response, error)\<newline>'',
    tabs 1, S ''Delete(ctx context.Context, id uint) error\<newline>'',
    tabs 1, S ''GetByID(ctx context.Context, id uint) (*dto.'', titleModelName, S ''Response, error)\<newline>'',
    tabs 1, S ''List(ctx context.Context, page, limit int, filters map[string]interface{}) (*dto.List'', titleModelName, S ''Response, error)\<newline>'',
    S ''}\<newline>'',
    S ''\<newline>'',
    S ''type '', titleModelName, S ''ServiceImpl struct {\<newline>'',
    tabs 1, lowerModelName, S ''Repo repository.'', titleModelName, S ''Repository\<newline>'',
    S ''}\<newline>'',
    S ''\<newline>'',
    S ''func New'', titleModelName, S ''Service('', lowerModelName, S ''Repo repository.'', titleModelName, S ''Repository) '', titleModelName, S ''Service {\<newline>'',
    tabs 1, S ''return &'', titleModelName, S ''ServiceImpl{'', lowerModelName, S ''Repo: '', lowerModelName, S ''Repo}\<newline>'',
    S ''}\<newline>'',
    S ''\<newline>'']\<close>

definition service_response_4 :: "gostring \<Rightarrow> gostring \<Rightarrow> gostring \<Rightarrow> gostring" where
  \<open>service_response_4 titleModelName lowerModelName appName = concat [
    S ''// Helper function to convert model to DTO\<newline>'',
    S ''func (s *'', titleModelName, S ''ServiceImpl) modelToDTO(model *models.'', titleModelName, S '') *dto.'', titleModelName, S ''Response {\<newline>'',
    tabs 1, S ''return &dto.'', titleModelName, S ''Response{\<newline>'',
    tabs 2, S ''ID:        model.ID,\<newline>'',
    tabs 2, S ''CreatedAt: model.CreatedAt,\<newline>'',
    tabs 2, S ''UpdatedAt: model.UpdatedAt,\<newline>'',
    tabs 2, S ''// Map your model fields to DTO fields here\<newline>'',
    tabs 2, S ''// Example:\<newline>'',
    tabs 2, S ''// Name:        model.Name,\<newline>'',
    tabs 2, S ''// Email:       model.Email,\<newline>'',
    tabs 2, S ''// Description: model.Description,\<newline>'',
    tabs 1, S ''}\<newline>'',
    S ''}\<newline>'',
    S ''\<newline>'',
    S ''// Helper function to convert create DTO to model\<newline>'',
    S ''func (s *'', titleModelName, S ''ServiceImpl) createDTOToModel(req *dto.Create'', titleModelName, S ''Request) *models.'', titleModelName, S '' {\<newline>'',
    tabs 1, S ''return &models.'', titleModelName, S ''{\<newline>'',
    tabs 2, S ''// Map your DTO fields to model fields here\<newline>'',
    tabs 2, S ''// Example:\<newline>'',
    tabs 2, S ''// Name:        req.Name,\<newline>'',
    tabs 2, S ''// Email:       req.Email,\<newline>'',
    tabs 2, S ''// Description: req.Description,\<newline>'',
    tabs 1, S ''}\<newline>'',
    S ''}\<newline>'',
    S ''\<newline>'',
    S ''   b. internal/service/'', lowerModelName, S ''/create.go (Create method):\<newline>'',
    S ''\<newline>'',
    S ''package service\<newline>'',
    S ''\<newline>'',
    S ''import (\<newline>'',
    tabs 1, S ''"context"\<newline>'',
    tabs 1, S ''"'', appName, S ''/internal/dto"\<newline>'',
    S '')\<newline>'',
    S ''\<newline>'',
    S ''func (s *'', titleModelName, S ''ServiceImpl) Create(ctx context.Context, req *dto.Create'', titleModelName, S ''Request) (*dto.'', titleModelName, S ''Response, error) {\<newline>'',
    tabs 1, S ''// Convert DTO to model\<newline>'',
    tabs 1, S ''model := s.createDTOToModel(req)\<newline>'',
    S ''\<newline>'',
    tabs 1, S ''// Create in repository\<newline>'',
    tabs 1, S ''if err := s.'', lowerModelName, S ''Repo.Create(ctx, model); err != nil {\<newline>'']\<close>

definition service_response_5 :: "gostring \<Rightarrow> gostring \<Rightarrow> gostring \<Rightarrow> gostring" where
  \<open>service_response_5 titleModelName lowerModelName appName = concat [
    tabs 2, S ''return nil, err\<newline>'',
    tabs 1, S ''}\<newline>'',
    S ''\<newline>'',
    tabs 1, S ''// Convert model back to DTO and return\<newline>'',
    tabs 1, S ''return s.modelToDTO(model), nil\<newline>'',
    S ''}\<newline>'',
    S ''\<newline>'',
    S ''   c. internal/service/'', lowerModelName, S ''/update.go (Update method):\<newline>'',
    S ''\<newline>'',
    S ''package service\<newline>'',
    S ''\<newline>'',
    S ''import (\<newline>'',
    tabs 1, S ''"context"\<newline>'',
    tabs 1, S ''"errors"\<newline>'',
    tabs 1, S ''"'', appName, S ''/internal/dto"\<newline>'',
    S '')\<newline>'',
    S ''\<newline>'',
    S ''func (s *'', titleModelName, S ''ServiceImpl) Update(ctx context.Context, req *dto.Update'', titleModelName, S ''Request) (*dto.'', titleModelName, S ''Response, error) {\<newline>'',
    tabs 1, S ''// First, get the existing record\<newline>'',
    tabs 1, S ''filters := map[string]interface{}{"id": req.ID}\<newline>'',
    tabs 1, S ''existing, err := s.'', lowerModelName, S ''Repo.Get(ctx, filters)\<newline>'',
    tabs 1, S ''if err != nil {\<newline>'',
    tabs 2, S ''return nil, err\<newline>'',
    tabs 1, S ''}\<newline>'',
    tabs 1, S ''if len(existing) == 0 {\<newline>'',
    tabs 2, S ''return nil, errors.New("'', lowerModelName, S '' not found")\<newline>'',
    tabs 1, S ''}\<newline>'',
    S ''\<newline>'',
    tabs 1, S ''model := &existing[0]\<newline>'',
    tabs 1, S ''// Update only the fields that are provided (not nil)\<newline>'',
    tabs 1, S ''// Example:\<newline>'',
    tabs 1, S ''// if req.Name != nil {\<newline>'',
    tabs 1, S ''//     model.Name = *req.Name\<newline>'',
    tabs 1, S ''// }\<newline>'',
    tabs 1, S ''// if req.Email != nil {\<newline>'',
    tabs 1, S ''//     model.Email = *req.Email\<newline>'',
    tabs 1, S ''// }\<newline>'',
    tabs 1, S ''// if req.Description != nil {\<newline>'',
    tabs 1, S ''//     model.Description = *req.Description\<newline>'',
    tabs 1, S ''// }\<newline>'']\<close>

definition service_response_6 :: "gostring \<Rightarrow> gostring \<Rightarrow> gostring \<Rightarrow> gostring" where
  \<open>service_response_6 titleModelName lowerModelName appName = concat [
    S ''\<newline>'',
    tabs 1, S ''// Update in repository\<newline>'',
    tabs 1, S ''if err := s.'', lowerModelName, S ''Repo.Update(ctx, model); err != nil {\<newline>'',
    tabs 2, S ''return nil, err\<newline>'',
    tabs 1, S ''}\<newline>'',
    S ''\<newline>'',
    tabs 1, S ''// Convert model back to DTO and return\<newline>'',
    tabs 1, S ''return s.modelToDTO(model), nil\<newline>'',
    S ''}\<newline>'',
    S ''\<newline>'',
    S ''   d. internal/service/'', lowerModelName, S ''/delete.go (Delete method):\<newline>'',
    S ''\<newline>'',
    S ''package service\<newline>'',
    S ''\<newline>'',
    S ''import "context"\<newline>'',
    S ''\<newline>'',
    S ''func (s *'', titleModelName, S ''ServiceImpl) Delete(ctx context.Context, id uint) error {\<newline>'',
    tabs 1, S ''return s.'', lowerModelName, S ''Repo.Delete(ctx, id)\<newline>'',
    S ''}\<newline>'',
    S ''\<newline>'',
    S ''   e. internal/service/'', lowerModelName, S ''/get_by_id.go (GetByID method):\<newline>'',
    S ''\<newline>'',
    S ''package service\<newline>'',
    S ''\<newline>'',
    S ''import (\<newline>'',
    tabs 1, S ''"context"\<newline>'',
    tabs 1, S ''"errors"\<newline>'',
    tabs 1, S ''"'', appName, S ''/internal/dto"\<newline>'',
    S '')\<newline>'',
    S ''\<newline>'',
    S ''func (s *'', titleModelName, S ''ServiceImpl) GetByID(ctx context.Context, id uint) (*dto.'', titleModelName, S ''Response, error) {\<newline>'',
    tabs 1, S ''filters := map[string]interface{}{"id": id}\<newline>'',
    tabs 1, S ''results, err := s.'', lowerModelName, S ''Repo.Get(ctx, filters)\<newline>'',
    tabs 1, S ''if err != nil {\<newline>'',
    tabs 2, S ''return nil, err\<newline>'',
    tabs 1, S ''}\<newline>'',
    tabs 1, S ''if len(results) == 0 {\<newline>'',
    tabs 2, S ''return nil, errors.New("'', lowerModelName, S '' not found")\<newline>'',
    tabs 1, S ''}\<newline>'',
    S ''\<newline>'']\<close>

definition service_response_7 :: "gostring \<Rightarrow> gostring \<Rightarrow> gostring \<Rightarrow> gostring" where
  \<open>service_response_7 titleModelName lowerModelName appName = concat [
    tabs 1, S ''return s.modelToDTO(&results[0]), nil\<newline>'',
    S ''}\<newline>'',
    S ''\<newline>'',
    S ''   f. internal/service/'', lowerModelName, S ''/list.go (List method):\<newline>'',
    S ''\<newline>'',
    S ''package service\<newline>'',
    S ''\<newline>'',
    S ''import (\<newline>'',
    tabs 1, S ''"context"\<newline>'',
    tabs 1, S ''"'', appName, S ''/internal/dto"\<newline>'',
    S '')\<newline>'',
    S ''\<newline>'',
    S ''func (s *'', titleModelName, S ''ServiceImpl) List(ctx context.Context, page, limit int, filters map[string]interface{}) (*dto.List'', titleModelName, S ''Response, error) {\<newline>'',
    tabs 1, S ''// Get data from repository\<newline>'',
    tabs 1, S ''results, err := s.'', lowerModelName, S ''Repo.Get(ctx, filters)\<newline>'',
    tabs 1, S ''if err != nil {\<newline>'',
    tabs 2, S ''return nil, err\<newline>'',
    tabs 1, S ''}\<newline>'',
    S ''\<newline>'',
    tabs 1, S ''// Convert models to DTOs\<newline>'',
    tabs 1, S ''dtoResults := make([]dto.'', titleModelName, S ''Response, len(results))\<newline>'',
    tabs 1, S ''for i, model := range results {\<newline>'',
    tabs 2, S ''dtoResults[i] = *s.modelToDTO(&model)\<newline>'',
    tabs 1, S ''}\<newline>'',
    S ''\<newline>'',
    tabs 1, S ''// TODO: Implement proper pagination in repository layer\<newline>'',
    tabs 1, S ''// For now, return all results\<newline>'',
    tabs 1, S ''return &dto.List'', titleModelName, S ''Response{\<newline>'',
    tabs 2, S ''Data:  dtoResults,\<newline>'',
    tabs 2, S ''Total: len(dtoResults),\<newline>'',
    tabs 2, S ''Page:  page,\<newline>'',
    tabs 2, S ''Limit: limit,\<newline>'',
    tabs 1, S ''}, nil\<newline>'',
    S ''}\<newline>'',
    S ''\<newline>'',
    S ''5. Update your controller to use the service layer instead of repository directly.\<newline>'',
    S ''   The controller should now inject the service and use DTOs for request/response.\<newline>'',
    S ''\<newline>'',
    S ''6. Bootstrap dependencies in cmd/web/main.go:\<newline>'',
    S ''   After creating services, you will need to update cmd/web/main.go to bootstrap the service layer.\<newline>'']\<close>

definition service_response_8 :: "gostring \<Rightarrow> gostring \<Rightarrow> gostring \<Rightarrow> gostring" where
  \<open>service_response_8 titleModelName lowerModelName appName = concat [
    S ''   This typically involves:\<newline>'',
    S ''   - Creating instances of your repositories (e.g., userRepo := repository.NewUserRepository(db)).\<newline>'',
    S ''   - Creating instances of your services, injecting repositories (e.g., userService := service.NewUserService(userRepo)).\<newline>'',
    S ''   - Creating instances of your controllers, injecting services (e.g., userController := controllers.NewUserController(userService)).\<newline>'',
    S ''\<newline>'',
    S ''   Here's an example of how cmd/web/main.go might look with the service layer:\<newline>'',
    S ''\<newline>'',
    S ''package main\<newline>'',
    S ''\<newline>'',
    S ''import (\<newline>'',
    tabs 1, S ''"net/http"\<newline>'',
    S ''\<newline>'',
    tabs 1, S ''"github.com/labstack/echo/v4"\<newline>'',
    tabs 1, S ''"github.com/labstack/echo/v4/middleware"\<newline>'',
    tabs 1, S ''"gorm.io/driver/sqlite"\<newline>'',
    tabs 1, S ''"gorm.io/gorm"\<newline>'',
    S ''\<newline>'',
    tabs 1, S ''"'', appName, S ''/internal/models"\<newline>'',
    tabs 1, S ''"'', appName, S ''/internal/repository"\<newline>'',
    tabs 1, S ''"'', appName, S ''/internal/service"\<newline>'',
    tabs 1, S ''"'', appName, S ''/internal/controllers"\<newline>'',
    S '')\<newline>'',
    S ''\<newline>'',
    S ''func main() {\<newline>'',
    tabs 1, S ''e := echo.New()\<newline>'',
    tabs 1, S ''e.Use(middleware.Logger())\<newline>'',
    tabs 1, S ''e.Use(middleware.Recover())\<newline>'',
    S ''\<newline>'',
    tabs 1, S ''// Database initialization\<newline>'',
    tabs 1, S ''db, err := gorm.Open(sqlite.Open("gorm.db"), &gorm.Config{})\<newline>'',
    tabs 1, S ''if err != nil {\<newline>'',
    tabs 2, S ''e.Logger.Fatal("failed to connect database", err)\<newline>'',
    tabs 1, S ''}\<newline>'',
    S ''\<newline>'',
    tabs 1, S ''// Auto-migrate models\<newline>'',
    tabs 1, S ''err = db.AutoMigrate(&models.'', titleModelName, S ''{}) // Add all your models here\<newline>'',
    tabs 1, S ''if err != nil {\<newline>'',
    tabs 2, S ''e.Logger.Fatal("failed to auto migrate models", err)\<newline>'',
    tabs 1, S ''}\<newline>'',
    S ''\<newline>'']\<close>

definition service_response_9 :: "gostring \<Rightarrow> gostring \<Rightarrow> gostring \<Rightarrow> gostring" where
  \<open>service_response_9 titleModelName lowerModelName appName = concat [
    tabs 1, S ''// Initialize repositories\<newline>'',
    tabs 1, lowerModelName, S ''Repo := repository.New'', titleModelName, S ''Repository(db)\<newline>'',
    S ''\<newline>'',
    tabs 1, S ''// Initialize services\<newline>'',
    tabs 1, lowerModelName, S ''Service := service.New'', titleModelName, S ''Service('', lowerModelName, S ''Repo)\<newline>'',
    S ''\<newline>'',
    tabs 1, S ''// Initialize controllers\<newline>'',
    tabs 1, lowerModelName, S ''Controller := controllers.New'', titleModelName, S ''Controller('', lowerModelName, S ''Service)\<newline>'',
    S ''\<newline>'',
    tabs 1, S ''// Routes\<newline>'',
    tabs 1, S ''e.GET("/", hello)\<newline>'',
    tabs 1, S ''e.POST("/'', lowerModelName, S ''s", '', lowerModelName, S ''Controller.Create'', titleModelName, S '')\<newline>'',
    tabs 1, S ''e.GET("/'', lowerModelName, S ''s/:id", '', lowerModelName, S ''Controller.Get'', titleModelName, S ''ByID)\<newline>'',
    tabs 1, S ''e.GET("/'', lowerModelName, S ''s", '', lowerModelName, S ''Controller.List'', titleModelName, S '')\<newline>'',
    tabs 1, S ''e.PUT("/'', lowerModelName, S ''s/:id", '', lowerModelName, S ''Controller.Update'', titleModelName, S '')\<newline>'',
    tabs 1, S ''e.DELETE("/'', lowerModelName, S ''s/:id", '', lowerModelName, S ''Controller.Delete'', titleModelName, S '')\<newline>'',
    S ''\<newline>'',
    tabs 1, S ''e.Logger.Fatal(e.Start(":1323"))\<newline>'',
    S ''}\<newline>'',
    S ''\<newline>'',
    S ''func hello(c echo.Context) error {\<newline>'',
    tabs 1, S ''return c.String(http.StatusOK, "Hello, World!")\<newline>'',
    S ''}\<newline>'']\<close>

definition service_response :: "gostring \<Rightarrow> gostring \<Rightarrow> gostring \<Rightarrow> gostring" where
  "service_response titleModelName lowerModelName appName = concat [
    service_response_1 titleModelName lowerModelName appName,
    service_response_2 titleModelName lowerModelName appName,
    service_response_3 titleModelName lowerModelName appName,
    service_response_4 titleModelName lowerModelName appName,
    service_response_5 titleModelName lowerModelName appName,
    service_response_6 titleModelName lowerModelName appName,
    service_response_7 titleModelName lowerModelName appName,
    service_response_8 titleModelName lowerModelName appName,
    service_response_9 titleModelName lowerModelName appName]"

definition ProduceServiceBoilerplateHandler :: "golib \<Rightarrow> CallToolRequest \<Rightarrow> CallToolResult" where
  \<open>ProduceServiceBoilerplateHandler L request =
     (let appName = GetString request (S ''app_name'') [] in
      if appName = [] then NewToolResultError (S ''App name is required'')
      else
        (case RequireString request (S ''model_name'') of
           Inl err \<Rightarrow> NewToolResultError (S ''Error getting 'model_name': '' @ arg_Error err)
         | Inr modelName \<Rightarrow>
             (let titleModelName = strings_Title L modelName;
                  lowerModelName = strings_ToLower L modelName;
                  response = service_response titleModelName lowerModelName appName
              in NewToolResultText response)))\<close>

definition GetProduceServiceBoilerplateTool :: "Tool \<times> (golib \<Rightarrow> CallToolRequest \<Rightarrow> CallToolResult)" where
  \<open>GetProduceServiceBoilerplateTool =
     (NewTool (S ''produce_service_boilerplate'')
        (S ''Instructs the LLM to output an example boilerplate for a new service layer with DTOs for a given model.'')
        [WithString (S ''app_name'') False
           (S ''The name of the application. This is used to output an example of correct import paths.''),
         WithString (S ''model_name'') True
           (S ''The name of the model for which to output an example a service (e.g., User, Product).'')],
      ProduceServiceBoilerplateHandler)\<close>

section \<open>The \<open>produce_api_controller_boilerplate\<close> tool\<close>

definition api_controller_response_1 :: "gostring \<Rightarrow> gostring \<Rightarrow> gostring \<Rightarrow> gostring" where
  \<open>api_controller_response_1 titleModelName lowerModelName appName = concat [
    S ''\<newline>'',
    S ''# API Controller Scaffold Instructions\<newline>'',
    S ''\<newline>'',
    S ''To scaffold the API controller for model '', [39], titleModelName, [39], S '', please perform the following steps:\<newline>'',
    S ''\<newline>'',
    S ''1. Create the controller directory (or ensure it exists):\<newline>'',
    S ''   `mkdir -p internal/controllers/'', lowerModelName, S ''`\<newline>'',
    S ''\<newline>'',
    S ''2. For each of the following, create or update the file in `internal/controllers/'', lowerModelName, S ''/` as needed:\<newline>'',
    S ''\<newline>'',
    S ''   a. `controller.go` (interface and constructor):\<newline>'',
    S ''```go\<newline>'',
    S ''package controllers\<newline>'',
    S ''\<newline>'',
    S ''import (\<newline>'',
    tabs 1, S ''"github.com/labstack/echo/v4"\<newline>'',
    tabs 1, S ''"'', appName, S ''/internal/service"\<newline>'',
    tabs 1, S ''"'', appName, S ''/internal/dto"\<newline>'',
    S '')\<newline>'',
    S ''\<newline>'',
    S ''type '', titleModelName, S ''Controller interface {\<newline>'',
    tabs 1, S ''Create'', titleModelName, S ''(c echo.Context) error\<newline>'',
    tabs 1, S ''Update'', titleModelName, S ''(c echo.Context) error\<newline>'',
    tabs 1, S ''Delete'', titleModelName, S ''(c echo.Context) error\<newline>'',
    tabs 1, S ''List'', titleModelName, S ''(c echo.Context) error // New: List method\<newline>'',
    tabs 1, S ''Get'', titleModelName, S ''ByID(c echo.Context) error // New: GetByID method\<newline>'',
    S ''}\<newline>'',
    S ''\<newline>'',
    S ''type '', titleModelName, S ''ControllerImpl struct {\<newline>'',
    tabs 1, lowerModelName, S ''Service service.'', titleModelName, S ''Service\<newline>'',
    S ''}\<newline>'',
    S ''\<newline>'',
    S ''func New'', titleModelName, S ''Controller('', lowerModelName, S ''Service service.'', titleModelName, S ''Service) '', titleModelName, S ''Controller {\<newline>'',
    tabs 1, S ''return &'', titleModelName, S ''ControllerImpl{'', lowerModelName, S ''Service: '', lowerModelName, S ''Service}\<newline>'',
    S ''}\<newline>'',
    S ''```\<newline>'',
    S ''\<newline>'',
    S ''   b. `create.go` (Create method - JSON request & response):\<newline>'',
    S ''```go\<newline>'',
    S ''package controllers\<newline>'']\<close>

definition api_controller_response_2 :: "gostring \<Rightarrow> gostring \<Rightarrow> gostring \<Rightarrow> gostring" where
  \<open>api_controller_response_2 titleModelName lowerModelName appName = concat [
    S ''\<newline>'',
    S ''import (\<newline>'',
    tabs 1, S ''"net/http"\<newline>'',
    S ''\<newline>'',
    tabs 1, S ''"github.com/labstack/echo/v4"\<newline>'',
    tabs 1, S ''"'', appName, S ''/internal/dto"\<newline>'',
    S '')\<newline>'',
    S ''\<newline>'',
    S ''func (ctrl *'', titleModelName, S ''ControllerImpl) Create'', titleModelName, S ''(c echo.Context) error {\<newline>'',
    tabs 1, S ''req := new(dto.Create'', titleModelName, S ''Request)\<newline>'',
    tabs 1, S ''if err := c.Bind(req); err != nil {\<newline>'',
    tabs 2, S ''return echo.NewHTTPError(http.StatusBadRequest, err.Error())\<newline>'',
    tabs 1, S ''}\<newline>'',
    tabs 1, S ''// Add validation here if needed\<newline>'',
    tabs 1, S ''result, err := ctrl.'', lowerModelName, S ''Service.Create(c.Request().Context(), req)\<newline>'',
    tabs 1, S ''if err != nil {\<newline>'',
    tabs 2, S ''return echo.NewHTTPError(http.StatusInternalServerError, err.Error())\<newline>'',
    tabs 1, S ''}\<newline>'',
    tabs 1, S ''return c.JSON(http.StatusCreated, result)\<newline>'',
    S ''}\<newline>'',
    S ''```\<newline>'',
    S ''\<newline>'',
    S ''   c. `update.go` (Update method - JSON request & response):\<newline>'',
    S ''```go\<newline>'',
    S ''package controllers\<newline>'',
    S ''\<newline>'',
    S ''import (\<newline>'',
    tabs 1, S ''"net/http"\<newline>'',
    tabs 1, S ''"strconv"\<newline>'',
    S ''\<newline>'',
    tabs 1, S ''"github.com/labstack/echo/v4"\<newline>'',
    tabs 1, S ''"'', appName, S ''/internal/dto"\<newline>'',
    S '')\<newline>'',
    S ''\<newline>'',
    S ''func (ctrl *'', titleModelName, S ''ControllerImpl) Update'', titleModelName, S ''(c echo.Context) error {\<newline>'',
    tabs 1, S ''id, err := strconv.ParseUint(c.Param("id"), 10, 64)\<newline>'',
    tabs 1, S ''if err != nil {\<newline>'',
    tabs 2, S ''return echo.NewHTTPError(http.StatusBadRequest, "Invalid ID")\<newline>'',
    tabs 1, S ''}\<newline>'',
    S ''\<newline>'']\<close>

definition api_controller_response_3 :: "gostring \<Rightarrow> gostring \<Rightarrow> gostring \<Rightarrow> gostring" where
  \<open>api_controller_response_3 titleModelName lowerModelName appName = concat [
    tabs 1, S ''req := new(dto.Update'', titleModelName, S ''Request)\<newline>'',
    tabs 1, S ''if err := c.Bind(req); err != nil {\<newline>'',
    tabs 2, S ''return echo.NewHTTPError(http.StatusBadRequest, err.Error())\<newline>'',
    tabs 1, S ''}\<newline>'',
    tabs 1, S ''req.ID = uint(id)\<newline>'',
    S ''\<newline>'',
    tabs 1, S ''// Add validation here if needed\<newline>'',
    tabs 1, S ''result, err := ctrl.'', lowerModelName, S ''Service.Update(c.Request().Context(), req)\<newline>'',
    tabs 1, S ''if err != nil {\<newline>'',
    tabs 2, S ''return echo.NewHTTPError(http.StatusInternalServerError, err.Error())\<newline>'',
    tabs 1, S ''}\<newline>'',
    tabs 1, S ''return c.JSON(http.StatusOK, result)\<newline>'',
    S ''}\<newline>'',
    S ''```\<newline>'',
    S ''\<newline>'',
    S ''   d. `delete.go` (Delete method - JSON request & response):\<newline>'',
    S ''```go\<newline>'',
    S ''package controllers\<newline>'',
    S ''\<newline>'',
    S ''import (\<newline>'',
    tabs 1, S ''"net/http"\<newline>'',
    tabs 1, S ''"strconv"\<newline>'',
    S ''\<newline>'',
    tabs 1, S ''"github.com/labstack/echo/v4"\<newline>'',
    S '')\<newline>'',
    S ''\<newline>'',
    S ''func (ctrl *'', titleModelName, S ''ControllerImpl) Delete'', titleModelName, S ''(c echo.Context) error {\<newline>'',
    tabs 1, S ''id, err := strconv.ParseUint(c.Param("id"), 10, 64)\<newline>'',
    tabs 1, S ''if err != nil {\<newline>'',
    tabs 2, S ''return echo.NewHTTPError(http.StatusBadRequest, "Invalid ID")\<newline>'',
    tabs 1, S ''}\<newline>'',
    tabs 1, S ''if err := ctrl.'', lowerModelName, S ''Service.Delete(c.Request().Context(), uint(id)); err != nil {\<newline>'',
    tabs 2, S ''return echo.NewHTTPError(http.StatusInternalServerError, err.Error())\<newline>'',
    tabs 1, S ''}\<newline>'',
    tabs 1, S ''return c.NoContent(http.StatusNoContent)\<newline>'',
    S ''}\<newline>'',
    S ''```\<newline>'',
    S ''\<newline>'',
    S ''   e. `list.go` (List method - JSON request & response):\<newline>'',
    S ''```go\<newline>'']\<close>

definition api_controller_response_4 :: "gostring \<Rightarrow> gostring \<Rightarrow> gostring \<Rightarrow> gostring" where
  \<open>api_controller_response_4 titleModelName lowerModelName appName = concat [
    S ''package controllers\<newline>'',
    S ''\<newline>'',
    S ''import (\<newline>'',
    tabs 1, S ''"net/http"\<newline>'',
    tabs 1, S ''"strconv"\<newline>'',
    S ''\<newline>'',
    tabs 1, S ''"github.com/labstack/echo/v4"\<newline>'',
    S '')\<newline>'',
    S ''\<newline>'',
    S ''func (ctrl *'', titleModelName, S ''ControllerImpl) List'', titleModelName, S ''(c echo.Context) error {\<newline>'',
    tabs 1, S ''// Parse pagination parameters\<newline>'',
    tabs 1, S ''page, _ := strconv.Atoi(c.QueryParam("page"))\<newline>'',
    tabs 1, S ''if page <= 0 {\<newline>'',
    tabs 2, S ''page = 1\<newline>'',
    tabs 1, S ''}\<newline>'',
    tabs 1, S ''limit, _ := strconv.Atoi(c.QueryParam("limit"))\<newline>'',
    tabs 1, S ''if limit <= 0 {\<newline>'',
    tabs 2, S ''limit = 10\<newline>'',
    tabs 1, S ''}\<newline>'',
    S ''\<newline>'',
    tabs 1, S ''// You might want to parse query parameters for filtering here\<newline>'',
    tabs 1, S ''filters := make(map[string]interface{}) \<newline>'',
    tabs 1, S ''// Example: filters["name"] = c.QueryParam("name")\<newline>'',
    S ''\<newline>'',
    tabs 1, S ''result, err := ctrl.'', lowerModelName, S ''Service.List(c.Request().Context(), page, limit, filters)\<newline>'',
    tabs 1, S ''if err != nil {\<newline>'',
    tabs 2, S ''return echo.NewHTTPError(http.StatusInternalServerError, err.Error())\<newline>'',
    tabs 1, S ''}\<newline>'',
    tabs 1, S ''return c.JSON(http.StatusOK, result)\<newline>'',
    S ''}\<newline>'',
    S ''```\<newline>'',
    S ''\<newline>'',
    S ''   f. `get_by_id.go` (GetByID method - JSON request & response):\<newline>'',
    S ''```go\<newline>'',
    S ''package controllers\<newline>'',
    S ''\<newline>'',
    S ''import (\<newline>'',
    tabs 1, S ''"net/http"\<newline>'',
    tabs 1, S ''"strconv"\<newline>'',
    S ''\<newline>'']\<close>

definition api_controller_response_5 :: "gostring \<Rightarrow> gostring \<Rightarrow> gostring \<Rightarrow> gostring" where
  \<open>api_controller_response_5 titleModelName lowerModelName appName = concat [
    tabs 1, S ''"github.com/labstack/echo/v4"\<newline>'',
    S '')\<newline>'',
    S ''\<newline>'',
    S ''func (ctrl *'', titleModelName, S ''ControllerImpl) Get'', titleModelName, S ''ByID(c echo.Context) error {\<newline>'',
    tabs 1, S ''id, err := strconv.ParseUint(c.Param("id"), 10, 64)\<newline>'',
    tabs 1, S ''if err != nil {\<newline>'',
    tabs 2, S ''return echo.NewHTTPError(http.StatusBadRequest, "Invalid ID")\<newline>'',
    tabs 1, S ''}\<newline>'',
    S ''\<newline>'',
    tabs 1, S ''result, err := ctrl.'', lowerModelName, S ''Service.GetByID(c.Request().Context(), uint(id))\<newline>'',
    tabs 1, S ''if err != nil {\<newline>'',
    tabs 2, S ''return echo.NewHTTPError(http.StatusInternalServerError, err.Error())\<newline>'',
    tabs 1, S ''}\<newline>'',
    tabs 1, S ''return c.JSON(http.StatusOK, result)\<newline>'',
    S ''}\<newline>'',
    S ''```\<newline>'']\<close>

definition api_controller_response :: "gostring \<Rightarrow> gostring \<Rightarrow> gostring \<Rightarrow> gostring" where
  "api_controller_response titleModelName lowerModelName appName = concat [
    api_controller_response_1 titleModelName lowerModelName appName,
    api_controller_response_2 titleModelName lowerModelName appName,
    api_controller_response_3 titleModelName lowerModelName appName,
    api_controller_response_4 titleModelName lowerModelName appName,
    api_controller_response_5 titleModelName lowerModelName appName]"

definition ProduceApiControllerBoilerplateHandler :: "golib \<Rightarrow> CallToolRequest \<Rightarrow> CallToolResult" where
  \<open>ProduceApiControllerBoilerplateHandler L request =
     (let appName = GetString request (S ''app_name'') [] in
      if appName = [] then NewToolResultError (S ''App name is required'')
      else
        (case RequireString request (S ''model_name'') of
           Inl err \<Rightarrow> NewToolResultError (S ''Error getting 'model_name': '' @ arg_Error err)
         | Inr modelName \<Rightarrow>
             (let titleModelName = strings_Title L modelName;
                  lowerModelName = strings_ToLower L modelName;
                  response = api_controller_response titleModelName lowerModelName appName
              in NewToolResultText response)))\<close>

definition GetProduceApiControllerBoilerplateTool :: "Tool \<times> (golib \<Rightarrow> CallToolRequest \<Rightarrow> CallToolResult)" where
  \<open>GetProduceApiControllerBoilerplateTool =
     (NewTool (S ''produce_api_controller_boilerplate'')
        (S ''Instructs the LLM to output an example boilerplate for a new API controller for a given model.'')
        [WithString (S ''app_name'') False
           (S ''The name of the application. This is used to output an example of correct import paths.''),
         WithString (S ''model_name'') True
           (S ''The name of the model for which to output an example a controller (e.g., User, Product).'')],
      ProduceApiControllerBoilerplateHandler)\<close>

section \<open>The \<open>produce_html_controller_boilerplate\<close> tool\<close>

text \<open>
  The format of this handler contains percent signs that are not meant as verbs.
  \<open>Sprintf\<close> reads them as verbs all the same:
  \<^item> in the style sheet, \<open>% 100%\<close> (and \<open>% 3.9%\<close>, \<open>% 95.9%\<close>, ...) is the verb \<open>%\<close> with a
    space flag, a width and a precision, which prints one percent sign, so that
    \<open>hsl(0 0% 100%)\<close> of the source comes out as \<open>hsl(0 0%)\<close>;
  \<^item> in \<open>/%[2]ss?page=%d&limit=%d\<close> the two \<open>%d\<close> take the arguments after the second one,
    which are strings, and print \<open>%!d(string=\<close>, the argument and \<open>)\<close>.
\<close>

definition html_controller_response_1 :: "gostring \<Rightarrow> gostring \<Rightarrow> gostring \<Rightarrow> gostring" where
  \<open>html_controller_response_1 titleModelName lowerModelName appName = concat [
    S ''\<newline>'',
    S ''# HTML Controller Scaffold Instructions using templUI\<newline>'',
    S ''\<newline>'',
    S ''To scaffold the HTML controller for model '', [39], titleModelName, [39], S '' using templUI, please perform the following steps:\<newline>'',
    S ''\<newline>'',
    S ''## Prerequisites\<newline>'',
    S ''\<newline>'',
    S ''1. Install the templUI CLI and templ:\<newline>'',
    S ''   `go install github.com/axzilla/templui/cmd/templui@latest`\<newline>'',
    S ''   `go install github.com/a-h/templ/cmd/templ@latest`\<newline>'',
    S ''\<newline>'',
    S ''2. Install Tailwind CSS (on Mac):\<newline>'',
    S ''   `brew install tailwindcss`\<newline>'',
    S ''\<newline>'',
    S ''## Base Configuration\<newline>'',
    S ''\<newline>'',
    S ''1. Create the CSS configuration file and base styles:\<newline>'',
    S ''   `mkdir -p assets/css`\<newline>'',
    S ''   Create `assets/css/input.css` with the following content:\<newline>'',
    S ''\<newline>'',
    S ''```css\<newline>'',
    S ''@import 'tailwindcss';\<newline>'',
    S ''\<newline>'',
    S ''@custom-variant dark (&:where(.dark, .dark *));\<newline>'',
    S ''\<newline>'',
    S ''@theme inline {\<newline>'',
    S ''  --color-border: var(--border);\<newline>'',
    S ''  --color-input: var(--input);\<newline>'',
    S ''  --color-background: var(--background);\<newline>'',
    S ''  --color-foreground: var(--foreground);\<newline>'',
    S ''  --color-primary: var(--primary);\<newline>'',
    S ''  --color-primary-foreground: var(--primary-foreground);\<newline>'',
    S ''  --color-secondary: var(--secondary);\<newline>'',
    S ''  --color-secondary-foreground: var(--secondary-foreground);\<newline>'',
    S ''  --color-destructive: var(--destructive);\<newline>'',
    S ''  --color-destructive-foreground: var(--destructive-foreground);\<newline>'',
    S ''  --color-muted: var(--muted);\<newline>'',
    S ''  --color-muted-foreground: var(--muted-foreground);\<newline>'',
    S ''  --color-accent: var(--accent);\<newline>'',
    S ''  --color-accent-foreground: var(---accent-foreground);\<newline>'']\<close>

definition html_controller_response_2 :: "gostring \<Rightarrow> gostring \<Rightarrow> gostring \<Rightarrow> gostring" where
  \<open>html_controller_response_2 titleModelName lowerModelName appName = concat [
    S ''  --color-popover: var(--popover);\<newline>'',
    S ''  --color-popover-foreground: var(--popover-foreground);\<newline>'',
    S ''  --color-card: var(--card);\<newline>'',
    S ''  --color-card-foreground: var(--card-foreground);\<newline>'',
    S ''  --color-ring: var(--ring);\<newline>'',
    S ''\<newline>'',
    S ''  --radius-sm: calc(var(--radius) - 4px);\<newline>'',
    S ''  --radius-md: calc(var(--radius) - 2px);\<newline>'',
    S ''  --radius-lg: var(--radius);\<newline>'',
    S ''\<newline>'',
    S ''  --container-2xl: 1400px;\<newline>'',
    S ''}\<newline>'',
    S ''\<newline>'',
    S '':root {\<newline>'',
    S ''  --background: hsl(0 0'', S ''%'', S '');\<newline>'',
    S ''  --foreground: hsl(240 10'', S ''%'', S '');\<newline>'',
    S ''  --muted: hsl(240 4.8'', S ''%'', S '');\<newline>'',
    S ''  --muted-foreground: hsl(240 3.8'', S ''%'', S '');\<newline>'',
    S ''  --popover: hsl(0 0'', S ''%'', S '');\<newline>'',
    S ''  --popover-foreground: hsl(240 10'', S ''%'', S '');\<newline>'',
    S ''  --card: hsl(0 0'', S ''%'', S '');\<newline>'',
    S ''  --card-foreground: hsl(240 10'', S ''%'', S '');\<newline>'',
    S ''  --border: hsl(240 5.9'', S ''%'', S '');\<newline>'',
    S ''  --input: hsl(240 5.9'', S ''%'', S '');\<newline>'',
    S ''  --primary: hsl(240 5.9'', S ''%'', S '');\<newline>'',
    S ''  --primary-foreground: hsl(0 0'', S ''%'', S '');\<newline>'',
    S ''  --secondary: hsl(240 4.8'', S ''%'', S '');\<newline>'',
    S ''  --secondary-foreground: hsl(240 5.9'', S ''%'', S '');\<newline>'',
    S ''  --accent: hsl(240 4.8'', S ''%'', S '');\<newline>'',
    S ''  --accent-foreground: hsl(240 5.9'', S ''%'', S '');\<newline>'',
    S ''  --destructive: hsl(0 84.2'', S ''%'', S '');\<newline>'',
    S ''  --destructive-foreground: hsl(0 0'', S ''%'', S '');\<newline>'',
    S ''  --ring: hsl(240 5.9'', S ''%'', S '');\<newline>'',
    S ''  --radius: 0.5rem;\<newline>'',
    S ''}\<newline>'',
    S ''\<newline>'',
    S ''.dark {\<newline>'',
    S ''  --background: hsl(240 10'', S ''%'', S '');\<newline>'',
    S ''  --foreground: hsl(0 0'', S ''%'', S '');\<newline>'',
    S ''  --muted: hsl(240 3.7'', S ''%'', S '');\<newline>'']\<close>

definition html_controller_response_3 :: "gostring \<Rightarrow> gostring \<Rightarrow> gostring \<Rightarrow> gostring" where
  \<open>html_controller_response_3 titleModelName lowerModelName appName = concat [
    S ''  --muted-foreground: hsl(240 5'', S ''%'', S '');\<newline>'',
    S ''  --popover: hsl(240 10'', S ''%'', S '');\<newline>'',
    S ''  --popover-foreground: hsl(0 0'', S ''%'', S '');\<newline>'',
    S ''  --card: hsl(240 10'', S ''%'', S '');\<newline>'',
    S ''  --card-foreground: hsl(0 0'', S ''%'', S '');\<newline>'',
    S ''  --border: hsl(240 3.7'', S ''%'', S '');\<newline>'',
    S ''  --input: hsl(240 3.7'', S ''%'', S '');\<newline>'',
    S ''  --primary: hsl(0 0'', S ''%'', S '');\<newline>'',
    S ''  --primary-foreground: hsl(240 5.9'', S ''%'', S '');\<newline>'',
    S ''  --secondary: hsl(240 3.7'', S ''%'', S '');\<newline>'',
    S ''  --secondary-foreground: hsl(0 0'', S ''%'', S '');\<newline>'',
    S ''  --accent: hsl(240 3.7'', S ''%'', S '');\<newline>'',
    S ''  --accent-foreground: hsl(0 0'', S ''%'', S '');\<newline>'',
    S ''  --destructive: hsl(0 62.8'', S ''%'', S '');\<newline>'',
    S ''  --destructive-foreground: hsl(0 0'', S ''%'', S '');\<newline>'',
    S ''  --ring: hsl(240 4.9'', S ''%'', S '');\<newline>'',
    S ''  --radius: 0.5rem;\<newline>'',
    S ''}\<newline>'',
    S ''\<newline>'',
    S ''@layer base {\<newline>'',
    S ''  * {\<newline>'',
    S ''    @apply border-border;\<newline>'',
    S ''  }\<newline>'',
    S ''\<newline>'',
    S ''  body {\<newline>'',
    S ''    @apply bg-background text-foreground;\<newline>'',
    S ''    font-feature-settings:\<newline>'',
    S ''      "rlig" 1,\<newline>'',
    S ''      "calt" 1;\<newline>'',
    S ''  }\<newline>'',
    S ''}\<newline>'',
    S ''```\<newline>'',
    S ''\<newline>'',
    S ''2. Create a Makefile for development tools:\<newline>'',
    S ''   Create `Makefile` in your project root with the following content:\<newline>'',
    S ''\<newline>'',
    S ''```makefile\<newline>'',
    S ''# Run templ generation in watch mode\<newline>'',
    S ''templ:\<newline>'',
    S ''    templ generate --watch --proxy="http://localhost:8090" --open-browser=false\<newline>'']\<close>

definition html_controller_response_4 :: "gostring \<Rightarrow> gostring \<Rightarrow> gostring \<Rightarrow> gostring" where
  \<open>html_controller_response_4 titleModelName lowerModelName appName = concat [
    S ''\<newline>'',
    S ''# Run air for Go hot reload\<newline>'',
    S ''server:\<newline>'',
    S ''    air '', [92], S ''\<newline>'',
    S ''    --build.cmd "go build -o tmp/bin/main ./cmd/web/main.go" '', [92], S ''\<newline>'',
    S ''    --build.bin "tmp/bin/main" '', [92], S ''\<newline>'',
    S ''    --build.delay "100" '', [92], S ''\<newline>'',
    S ''    --build.exclude_dir "node_modules" '', [92], S ''\<newline>'',
    S ''    --build.include_ext "go" '', [92], S ''\<newline>'',
    S ''    --build.stop_on_error "false" '', [92], S ''\<newline>'',
    S ''    --misc.clean_on_exit true\<newline>'',
    S ''\<newline>'',
    S ''# Watch Tailwind CSS changes\<newline>'',
    S ''tailwind:\<newline>'',
    S ''    tailwindcss -i ./assets/css/input.css -o ./assets/css/output.css --watch\<newline>'',
    S ''\<newline>'',
    S ''# Start development server with all watchers\<newline>'',
    S ''dev:\<newline>'',
    S ''    make -j3 tailwind templ server\<newline>'',
    S ''```\<newline>'',
    S ''\<newline>'',
    S ''3. Initialize templUI in your project:\<newline>'',
    S ''   `templui init`\<newline>'',
    S ''\<newline>'',
    S ''4. Add required components:\<newline>'',
    S ''   `templui add button card alert checkbox input`\<newline>'',
    S ''\<newline>'',
    S ''## Create HTML Controller Structure\<newline>'',
    S ''\<newline>'',
    S ''1. Create the directory structure:\<newline>'',
    S ''   `mkdir -p ui/layouts ui/modules ui/pages/'', lowerModelName, S ''`\<newline>'',
    S ''\<newline>'',
    S ''2. Create the base layout:\<newline>'',
    S ''   Create `ui/layouts/base.templ` with the following content:\<newline>'',
    S ''\<newline>'',
    S ''```go\<newline>'',
    S ''package layouts\<newline>'',
    S ''\<newline>'',
    S ''import (\<newline>'',
    tabs 1, S ''"'', appName, S ''/modules"\<newline>'']\<close>

definition html_controller_response_5 :: "gostring \<Rightarrow> gostring \<Rightarrow> gostring \<Rightarrow> gostring" where
  \<open>html_controller_response_5 titleModelName lowerModelName appName = concat [
    S '')\<newline>'',
    S ''\<newline>'',
    S ''templ ThemeSwitcherScript() {\<newline>'',
    tabs 1, S ''{{ handle := templ.NewOnceHandle() }}\<newline>'',
    tabs 1, S ''@handle.Once() {\<newline>'',
    tabs 2, S ''<script nonce={ templ.GetNonce(ctx) }>\<newline>'',
    tabs 3, S ''// Initial theme setup\<newline>'',
    tabs 3, S ''document.documentElement.classList.toggle('dark', localStorage.getItem('appTheme') === 'dark');\<newline>'',
    S ''\<newline>'',
    tabs 3, S ''document.addEventListener('alpine:init', () => {\<newline>'',
    tabs 4, S ''Alpine.data('themeHandler', () => ({\<newline>'',
    tabs 5, S ''isDark: localStorage.getItem('appTheme') === 'dark',\<newline>'',
    tabs 5, S ''themeClasses() {\<newline>'',
    tabs 6, S ''return this.isDark ? 'text-white' : 'bg-white text-black'', [39], S ''\<newline>'',
    tabs 5, S ''},\<newline>'',
    tabs 5, S ''toggleTheme() {\<newline>'',
    tabs 6, S ''this.isDark = !this.isDark;\<newline>'',
    tabs 6, S ''localStorage.setItem('appTheme', this.isDark ? 'dark' : 'light');\<newline>'',
    tabs 6, S ''document.documentElement.classList.toggle('dark', this.isDark);\<newline>'',
    tabs 5, S ''}\<newline>'',
    tabs 4, S ''}))\<newline>'',
    tabs 3, S ''})\<newline>'',
    tabs 2, S ''</script>\<newline>'',
    tabs 1, S ''}\<newline>'',
    S ''}\<newline>'',
    S ''\<newline>'',
    S ''templ BaseLayout() {\<newline>'',
    tabs 1, S ''<!DOCTYPE html>\<newline>'',
    tabs 1, S ''<html lang="en" class="h-full dark">\<newline>'',
    tabs 2, S ''<head>\<newline>'',
    tabs 3, S ''<meta charset="UTF-8"/>\<newline>'',
    tabs 3, S ''<meta name="viewport" content="width=device-width, initial-scale=1.0"/>\<newline>'',
    tabs 3, S ''<!-- Tailwind CSS (output) -->\<newline>'',
    tabs 3, S ''<link href="/assets/css/output.css" rel="stylesheet"/>\<newline>'',
    tabs 3, S ''<!-- Alpine.js -->\<newline>'',
    tabs 3, S ''<script defer src="https://cdn.jsdelivr.net/npm/alpinejs@3.x.x/dist/cdn.min.js"></script>\<newline>'',
    tabs 3, S ''<!-- Theme switcher script -->\<newline>'',
    tabs 3, S ''@ThemeSwitcherScript()\<newline>'',
    tabs 2, S ''</head>\<newline>'',
    tabs 2, S ''<body\<newline>'']\<close>

definition html_controller_response_6 :: "gostring \<Rightarrow> gostring \<Rightarrow> gostring \<Rightarrow> gostring" where
  \<open>html_controller_response_6 titleModelName lowerModelName appName = concat [
    tabs 3, S ''x-data="themeHandler"\<newline>'',
    tabs 3, S ''x-bind:class="themeClasses"\<newline>'',
    tabs 2, S ''>\<newline>'',
    tabs 3, S ''@modules.Navbar()\<newline>'',
    tabs 3, S ''{ children... }\<newline>'',
    tabs 2, S ''</body>\<newline>'',
    tabs 1, S ''</html>\<newline>'',
    S ''}\<newline>'',
    S ''```\<newline>'',
    S ''\<newline>'',
    S ''3. Create the navbar module:\<newline>'',
    S ''   Create `ui/modules/navbar.templ` with the following content:\<newline>'',
    S ''\<newline>'',
    S ''```go\<newline>'',
    S ''package modules\<newline>'',
    S ''\<newline>'',
    S ''templ Navbar() {\<newline>'',
    tabs 1, S ''<nav class="border-b py-3">\<newline>'',
    tabs 2, S ''<div class="container mx-auto px-4 flex justify-between items-center">\<newline>'',
    tabs 3, S ''<a href="/" class="text-xl font-bold">'', appName, S ''</a>\<newline>'',
    tabs 3, S ''<div class="flex items-center gap-4">\<newline>'',
    tabs 4, S ''<a href="/'', lowerModelName, S ''s" class="hover:underline">'', titleModelName, S ''s</a>\<newline>'',
    tabs 4, S ''@ThemeSwitcher()\<newline>'',
    tabs 3, S ''</div>\<newline>'',
    tabs 2, S ''</div>\<newline>'',
    tabs 1, S ''</nav>\<newline>'',
    S ''}\<newline>'',
    S ''```\<newline>'',
    S ''\<newline>'',
    S ''4. Create the theme switcher module:\<newline>'',
    S ''   Create `ui/modules/theme_switcher.templ` with the following content:\<newline>'',
    S ''\<newline>'',
    S ''```go\<newline>'',
    S ''package modules\<newline>'',
    S ''\<newline>'',
    S ''import "'', appName, S ''/components/button"\<newline>'',
    S ''import "'', appName, S ''/components/icon"\<newline>'',
    S ''\<newline>'',
    S ''templ themeSwitcherHandler() {\<newline>'',
    tabs 1, S ''{{ handle := templ.NewOnceHandle() }}\<newline>'']\<close>

definition html_controller_response_7 :: "gostring \<Rightarrow> gostring \<Rightarrow> gostring \<Rightarrow> gostring" where
  \<open>html_controller_response_7 titleModelName lowerModelName appName = concat [
    tabs 1, S ''@handle.Once() {\<newline>'',
    tabs 2, S ''<script nonce={ templ.GetNonce(ctx) }>\<newline>'',
    tabs 3, S ''document.addEventListener('alpine:init', () => {\<newline>'',
    tabs 4, S ''Alpine.data('themeSwitcherHandler', () => ({\<newline>'',
    tabs 5, S ''isDarkMode() {\<newline>'',
    tabs 6, S ''return this.isDark\<newline>'',
    tabs 5, S ''},\<newline>'',
    tabs 5, S ''isLightMode() {\<newline>'',
    tabs 6, S ''return !this.isDark\<newline>'',
    tabs 5, S ''}\<newline>'',
    tabs 4, S ''}))\<newline>'',
    tabs 3, S ''}) \<newline>'',
    tabs 2, S ''</script>\<newline>'',
    tabs 1, S ''}\<newline>'',
    S ''}\<newline>'',
    S ''\<newline>'',
    S ''type ThemeSwitcherProps struct {\<newline>'',
    tabs 1, S ''Class string\<newline>'',
    S ''}\<newline>'',
    S ''\<newline>'',
    S ''templ ThemeSwitcher(props ...ThemeSwitcherProps) {\<newline>'',
    tabs 1, S ''{{ var p ThemeSwitcherProps }}\<newline>'',
    tabs 1, S ''if len(props) > 0 {\<newline>'',
    tabs 2, S ''{{ p = props[0] }}\<newline>'',
    tabs 1, S ''}\<newline>'',
    tabs 1, S ''@themeSwitcherHandler()\<newline>'',
    tabs 1, S ''@button.Button(button.Props{\<newline>'',
    tabs 2, S ''Size:    button.SizeIcon,\<newline>'',
    tabs 2, S ''Variant: button.VariantGhost,\<newline>'',
    tabs 2, S ''Class:   p.Class,\<newline>'',
    tabs 2, S ''Attributes: templ.Attributes{\<newline>'',
    tabs 3, S ''"@click": "toggleTheme",\<newline>'',
    tabs 2, S ''},\<newline>'',
    tabs 1, S ''}) {\<newline>'',
    tabs 2, S ''@DynamicThemeIcon()\<newline>'',
    tabs 1, S ''}\<newline>'',
    S ''}\<newline>'',
    S ''\<newline>'',
    S ''templ DynamicThemeIcon() {\<newline>'',
    tabs 1, S ''<div x-data="themeSwitcherHandler">\<newline>'']\<close>

definition html_controller_response_8 :: "gostring \<Rightarrow> gostring \<Rightarrow> gostring \<Rightarrow> gostring" where
  \<open>html_controller_response_8 titleModelName lowerModelName appName = concat [
    tabs 2, S ''<span x-show="isDarkMode" class="block">\<newline>'',
    tabs 3, S ''@LightIcon()\<newline>'',
    tabs 2, S ''</span>\<newline>'',
    tabs 2, S ''<span x-show="isLightMode" class="block">\<newline>'',
    tabs 3, S ''@DarkIcon()\<newline>'',
    tabs 2, S ''</span>\<newline>'',
    tabs 1, S ''</div>\<newline>'',
    S ''}\<newline>'',
    S ''\<newline>'',
    S ''templ DarkIcon() {\<newline>'',
    tabs 1, S ''@icon.Moon()\<newline>'',
    S ''}\<newline>'',
    S ''\<newline>'',
    S ''templ LightIcon() {\<newline>'',
    tabs 1, S ''@icon.SunMedium()\<newline>'',
    S ''}\<newline>'',
    S ''```\<newline>'',
    S ''\<newline>'',
    S ''5. Create the '', titleModelName, S '' pages:\<newline>'',
    S ''\<newline>'',
    S ''   a. Create `ui/pages/'', lowerModelName, S ''/index.templ` (List page):\<newline>'',
    S ''\<newline>'',
    S ''```go\<newline>'',
    S ''package '', lowerModelName, S ''pages\<newline>'',
    S ''\<newline>'',
    S ''import (\<newline>'',
    tabs 1, S ''"'', appName, S ''/layouts"\<newline>'',
    tabs 1, S ''"'', appName, S ''/components/button"\<newline>'',
    tabs 1, S ''"'', appName, S ''/components/alert"\<newline>'',
    tabs 1, S ''"'', appName, S ''/components/icon"\<newline>'',
    tabs 1, S ''"'', appName, S ''/internal/dto"\<newline>'',
    S '')\<newline>'',
    S ''\<newline>'',
    S ''templ Index(items []dto.'', titleModelName, S ''Response, page int, limit int, total int) {\<newline>'',
    tabs 1, S ''@layouts.BaseLayout() {\<newline>'',
    tabs 2, S ''<div class="container mx-auto px-4 py-8">\<newline>'',
    tabs 3, S ''<div class="flex justify-between items-center mb-6">\<newline>'',
    tabs 4, S ''<h1 class="text-2xl font-bold">'', titleModelName, S ''s</h1>\<newline>'',
    tabs 4, S ''<a href="/'', lowerModelName, S ''s/new">\<newline>'',
    tabs 5, S ''@button.Button(button.Props{}) {\<newline>'']\<close>

definition html_controller_response_9 :: "gostring \<Rightarrow> gostring \<Rightarrow> gostring \<Rightarrow> gostring" where
  \<open>html_controller_response_9 titleModelName lowerModelName appName = concat [
    tabs 6, S ''Create '', titleModelName, S ''\<newline>'',
    tabs 5, S ''}\<newline>'',
    tabs 4, S ''</a>\<newline>'',
    tabs 3, S ''</div>\<newline>'',
    S ''\<newline>'',
    tabs 3, S ''<!-- Example of using Alert component -->\<newline>'',
    tabs 3, S ''<div class="mb-6">\<newline>'',
    tabs 4, S ''@alert.Alert() {\<newline>'',
    tabs 5, S ''@icon.Rocket(icon.Props{Size: 16})\<newline>'',
    tabs 5, S ''@alert.Title() {\<newline>'',
    tabs 6, titleModelName, S '' Management\<newline>'',
    tabs 5, S ''}\<newline>'',
    tabs 5, S ''@alert.Description() {\<newline>'',
    tabs 6, S ''This page allows you to manage your '', titleModelName, S ''s. You can create, view, edit, and delete '', titleModelName, S ''s.\<newline>'',
    tabs 5, S ''}\<newline>'',
    tabs 4, S ''}\<newline>'',
    tabs 3, S ''</div>\<newline>'',
    S ''\<newline>'',
    tabs 3, S ''<div class="bg-card rounded-lg shadow overflow-hidden">\<newline>'',
    tabs 4, S ''<table class="min-w-full divide-y divide-border">\<newline>'',
    tabs 5, S ''<thead class="bg-muted">\<newline>'',
    tabs 6, S ''<tr>\<newline>'',
    tabs 7, S ''<th scope="col" class="px-6 py-3 text-left text-xs font-medium text-muted-foreground uppercase tracking-wider">ID</th>\<newline>'',
    tabs 7, S ''<!-- Add your model fields here -->\<newline>'',
    tabs 7, S ''<th scope="col" class="px-6 py-3 text-left text-xs font-medium text-muted-foreground uppercase tracking-wider">Name</th>\<newline>'',
    tabs 7, S ''<th scope="col" class="px-6 py-3 text-left text-xs font-medium text-muted-foreground uppercase tracking-wider">Active</th>\<newline>'',
    tabs 7, S ''<th scope="col" class="px-6 py-3 text-left text-xs font-medium text-muted-foreground uppercase tracking-wider">Actions</th>\<newline>'',
    tabs 6, S ''</tr>\<newline>'',
    tabs 5, S ''</thead>\<newline>'',
    tabs 5, S ''<tbody class="bg-card divide-y divide-border">\<newline>'',
    tabs 6, S ''for _, item := range items {\<newline>'',
    tabs 7, S ''<tr class="hover:bg-muted/50">\<newline>'',
    tabs 8, S ''<td class="px-6 py-4 whitespace-nowrap text-sm">{ item.ID.String() }</td>\<newline>'',
    tabs 8, S ''<!-- Add your model fields here -->\<newline>'',
    tabs 8, S ''<td class="px-6 py-4 whitespace-nowrap text-sm">{ item.Name }</td>\<newline>'',
    tabs 8, S ''<td class="px-6 py-4 whitespace-nowrap text-sm">\<newline>'',
    tabs 9, S ''{ if item.Active { "Yes" } else { "No" } }\<newline>'',
    tabs 8, S ''</td>\<newline>'',
    tabs 8, S ''<td class="px-6 py-4 whitespace-nowrap text-sm flex gap-2">\<newline>'',
    tabs 9, S ''<a href={ templ.SafeURL("/'', lowerModelName, S ''s/" + item.ID.String()) }>\<newline>'']\<close>

definition html_controller_response_10 :: "gostring \<Rightarrow> gostring \<Rightarrow> gostring \<Rightarrow> gostring" where
  \<open>html_controller_response_10 titleModelName lowerModelName appName = concat [
    tabs 10, S ''@button.Button(button.Props{\<newline>'',
    tabs 11, S ''Variant: button.VariantOutline,\<newline>'',
    tabs 11, S ''Size: button.SizeSmall,\<newline>'',
    tabs 10, S ''}) {\<newline>'',
    tabs 11, S ''View\<newline>'',
    tabs 10, S ''}\<newline>'',
    tabs 9, S ''</a>\<newline>'',
    tabs 9, S ''<a href={ templ.SafeURL("/'', lowerModelName, S ''s/" + item.ID.String() + "/edit") }>\<newline>'',
    tabs 10, S ''@button.Button(button.Props{\<newline>'',
    tabs 11, S ''Variant: button.VariantOutline,\<newline>'',
    tabs 11, S ''Size: button.SizeSmall,\<newline>'',
    tabs 10, S ''}) {\<newline>'',
    tabs 11, S ''Edit\<newline>'',
    tabs 10, S ''}\<newline>'',
    tabs 9, S ''</a>\<newline>'',
    tabs 9, S ''<form method="POST" action={ "/'', lowerModelName, S ''s/" + item.ID.String() + "/delete" } onsubmit="return confirm('Are you sure you want to delete this '', lowerModelName, S ''?')">\<newline>'',
    tabs 10, S ''@button.Button(button.Props{\<newline>'',
    tabs 11, S ''Variant: button.VariantDestructive,\<newline>'',
    tabs 11, S ''Size: button.SizeSmall,\<newline>'',
    tabs 11, S ''Type: "submit",\<newline>'',
    tabs 10, S ''}) {\<newline>'',
    tabs 11, S ''Delete\<newline>'',
    tabs 10, S ''}\<newline>'',
    tabs 9, S ''</form>\<newline>'',
    tabs 8, S ''</td>\<newline>'',
    tabs 7, S ''</tr>\<newline>'',
    tabs 6, S ''}\<newline>'',
    tabs 5, S ''</tbody>\<newline>'',
    tabs 4, S ''</table>\<newline>'',
    tabs 3, S ''</div>\<newline>'',
    S ''\<newline>'',
    tabs 3, S ''<!-- Pagination -->\<newline>'',
    tabs 3, S ''if total > 0 {\<newline>'',
    tabs 4, S ''<div class="mt-4 flex justify-between items-center">\<newline>'',
    tabs 5, S ''<div class="text-sm text-muted-foreground">\<newline>'',
    tabs 6, S ''Showing { (page-1)*limit + 1 } to { min((page)*limit, total) } of { total } entries\<newline>'',
    tabs 5, S ''</div>\<newline>'',
    tabs 5, S ''<div class="flex gap-2">\<newline>'',
    tabs 6, S ''if page > 1 {\<newline>'',
    tabs 7, S ''<a href={ templ.SafeURL(fmt.Sprintf("/'', lowerModelName, S ''s?page='', S ''%!d(string='', titleModelName, S '')'', S ''&limit='', S ''%!d(string='', lowerModelName, S '')'', S ''", page-1, limit)) }>\<newline>'']\<close>

definition html_controller_response_11 :: "gostring \<Rightarrow> gostring \<Rightarrow> gostring \<Rightarrow> gostring" where
  \<open>html_controller_response_11 titleModelName lowerModelName appName = concat [
    tabs 8, S ''@button.Button(button.Props{\<newline>'',
    tabs 9, S ''Variant: button.VariantOutline,\<newline>'',
    tabs 9, S ''Size: button.SizeSmall,\<newline>'',
    tabs 8, S ''}) {\<newline>'',
    tabs 9, S ''Previous\<newline>'',
    tabs 8, S ''}\<newline>'',
    tabs 7, S ''</a>\<newline>'',
    tabs 6, S ''}\<newline>'',
    tabs 6, S ''if page*limit < total {\<newline>'',
    tabs 7, S ''<a href={ templ.SafeURL(fmt.Sprintf("/'', lowerModelName, S ''s?page='', S ''%!d(string='', titleModelName, S '')'', S ''&limit='', S ''%!d(string='', lowerModelName, S '')'', S ''", page+1, limit)) }>\<newline>'',
    tabs 8, S ''@button.Button(button.Props{\<newline>'',
    tabs 9, S ''Variant: button.VariantOutline,\<newline>'',
    tabs 9, S ''Size: button.SizeSmall,\<newline>'',
    tabs 8, S ''}) {\<newline>'',
    tabs 9, S ''Next\<newline>'',
    tabs 8, S ''}\<newline>'',
    tabs 7, S ''</a>\<newline>'',
    tabs 6, S ''}\<newline>'',
    tabs 5, S ''</div>\<newline>'',
    tabs 4, S ''</div>\<newline>'',
    tabs 3, S ''}\<newline>'',
    tabs 2, S ''</div>\<newline>'',
    tabs 1, S ''}\<newline>'',
    S ''}\<newline>'',
    S ''\<newline>'',
    S ''func min(a, b int) int {\<newline>'',
    tabs 1, S ''if a < b {\<newline>'',
    tabs 2, S ''return a\<newline>'',
    tabs 1, S ''}\<newline>'',
    tabs 1, S ''return b\<newline>'',
    S ''}\<newline>'',
    S ''```\<newline>'',
    S ''\<newline>'',
    S ''   b. Create `ui/pages/'', lowerModelName, S ''/show.templ` (Detail page):\<newline>'',
    S ''\<newline>'',
    S ''```go\<newline>'',
    S ''package '', lowerModelName, S ''pages\<newline>'',
    S ''\<newline>'',
    S ''import (\<newline>'',
    tabs 1, S ''"'', appName, S ''/layouts"\<newline>'']\<close>

definition html_controller_response_12 :: "gostring \<Rightarrow> gostring \<Rightarrow> gostring \<Rightarrow> gostring" where
  \<open>html_controller_response_12 titleModelName lowerModelName appName = concat [
    tabs 1, S ''"'', appName, S ''/components/button"\<newline>'',
    tabs 1, S ''"'', appName, S ''/components/alert"\<newline>'',
    tabs 1, S ''"'', appName, S ''/components/icon"\<newline>'',
    tabs 1, S ''"'', appName, S ''/internal/dto"\<newline>'',
    S '')\<newline>'',
    S ''\<newline>'',
    S ''templ Show(item dto.'', titleModelName, S ''Response) {\<newline>'',
    tabs 1, S ''@layouts.BaseLayout() {\<newline>'',
    tabs 2, S ''<div class="container mx-auto px-4 py-8">\<newline>'',
    tabs 3, S ''<div class="mb-6">\<newline>'',
    tabs 4, S ''<a href="/'', lowerModelName, S ''s">\<newline>'',
    tabs 5, S ''@button.Button(button.Props{\<newline>'',
    tabs 6, S ''Variant: button.VariantOutline,\<newline>'',
    tabs 5, S ''}) {\<newline>'',
    tabs 6, [8592], S '' Back to '', titleModelName, S ''s\<newline>'',
    tabs 5, S ''}\<newline>'',
    tabs 4, S ''</a>\<newline>'',
    tabs 3, S ''</div>\<newline>'',
    S ''\<newline>'',
    tabs 3, S ''<!-- Example of using Alert component -->\<newline>'',
    tabs 3, S ''<div class="mb-6">\<newline>'',
    tabs 4, S ''@alert.Alert(alert.Props{\<newline>'',
    tabs 5, S ''Variant: alert.VariantInfo,\<newline>'',
    tabs 4, S ''}) {\<newline>'',
    tabs 5, S ''@icon.Info(icon.Props{Size: 16})\<newline>'',
    tabs 5, S ''@alert.Title() {\<newline>'',
    tabs 6, titleModelName, S '' Details\<newline>'',
    tabs 5, S ''}\<newline>'',
    tabs 5, S ''@alert.Description() {\<newline>'',
    tabs 6, S ''You are viewing the details of a '', titleModelName, S ''. You can edit or delete this '', titleModelName, S '' using the buttons above.\<newline>'',
    tabs 5, S ''}\<newline>'',
    tabs 4, S ''}\<newline>'',
    tabs 3, S ''</div>\<newline>'',
    S ''\<newline>'',
    tabs 3, S ''<div class="bg-card rounded-lg shadow overflow-hidden p-6">\<newline>'',
    tabs 4, S ''<div class="flex justify-between items-center mb-6">\<newline>'',
    tabs 5, S ''<h1 class="text-2xl font-bold">'', titleModelName, S '' Details</h1>\<newline>'',
    tabs 5, S ''<div class="flex gap-2">\<newline>'',
    tabs 6, S ''<a href={ templ.SafeURL("/'', lowerModelName, S ''s/" + item.ID.String() + "/edit") }>\<newline>'',
    tabs 7, S ''@button.Button(button.Props{}) {\<newline>'']\<close>

definition html_controller_response_13 :: "gostring \<Rightarrow> gostring \<Rightarrow> gostring \<Rightarrow> gostring" where
  \<open>html_controller_response_13 titleModelName lowerModelName appName = concat [
    tabs 8, S ''Edit\<newline>'',
    tabs 7, S ''}\<newline>'',
    tabs 6, S ''</a>\<newline>'',
    tabs 6, S ''<form method="POST" action={ "/'', lowerModelName, S ''s/" + item.ID.String() + "/delete" } onsubmit="return confirm('Are you sure you want to delete this '', lowerModelName, S ''?')">\<newline>'',
    tabs 7, S ''@button.Button(button.Props{\<newline>'',
    tabs 8, S ''Variant: button.VariantDestructive,\<newline>'',
    tabs 8, S ''Type: "submit",\<newline>'',
    tabs 7, S ''}) {\<newline>'',
    tabs 8, S ''Delete\<newline>'',
    tabs 7, S ''}\<newline>'',
    tabs 6, S ''</form>\<newline>'',
    tabs 5, S ''</div>\<newline>'',
    tabs 4, S ''</div>\<newline>'',
    S ''\<newline>'',
    tabs 4, S ''<div class="grid grid-cols-1 md:grid-cols-2 gap-4">\<newline>'',
    tabs 5, S ''<div class="space-y-2">\<newline>'',
    tabs 6, S ''<p class="text-sm font-medium text-muted-foreground">ID</p>\<newline>'',
    tabs 6, S ''<p>{ item.ID.String() }</p>\<newline>'',
    tabs 5, S ''</div>\<newline>'',
    tabs 5, S ''<!-- Add your model fields here -->\<newline>'',
    tabs 5, S ''<div class="space-y-2">\<newline>'',
    tabs 6, S ''<p class="text-sm font-medium text-muted-foreground">Name</p>\<newline>'',
    tabs 6, S ''<p>{ item.Name }</p>\<newline>'',
    tabs 5, S ''</div>\<newline>'',
    tabs 5, S ''<div class="space-y-2">\<newline>'',
    tabs 6, S ''<p class="text-sm font-medium text-muted-foreground">Active</p>\<newline>'',
    tabs 6, S ''<p>{ if item.Active { "Yes" } else { "No" } }</p>\<newline>'',
    tabs 5, S ''</div>\<newline>'',
    tabs 5, S ''<!-- Add more fields as needed -->\<newline>'',
    tabs 4, S ''</div>\<newline>'',
    tabs 3, S ''</div>\<newline>'',
    tabs 2, S ''</div>\<newline>'',
    tabs 1, S ''}\<newline>'',
    S ''}\<newline>'',
    S ''```\<newline>'',
    S ''\<newline>'',
    S ''   c. Create `ui/pages/'', lowerModelName, S ''/form.templ` (Create/Edit form):\<newline>'',
    S ''\<newline>'',
    S ''```go\<newline>'',
    S ''package '', lowerModelName, S ''pages\<newline>'']\<close>

definition html_controller_response_14 :: "gostring \<Rightarrow> gostring \<Rightarrow> gostring \<Rightarrow> gostring" where
  \<open>html_controller_response_14 titleModelName lowerModelName appName = concat [
    S ''\<newline>'',
    S ''import (\<newline>'',
    tabs 1, S ''"'', appName, S ''/layouts"\<newline>'',
    tabs 1, S ''"'', appName, S ''/components/button"\<newline>'',
    tabs 1, S ''"'', appName, S ''/components/input"\<newline>'',
    tabs 1, S ''"'', appName, S ''/components/checkbox"\<newline>'',
    tabs 1, S ''"'', appName, S ''/components/alert"\<newline>'',
    tabs 1, S ''"'', appName, S ''/internal/dto"\<newline>'',
    S '')\<newline>'',
    S ''\<newline>'',
    S ''type FormMode string\<newline>'',
    S ''\<newline>'',
    S ''const (\<newline>'',
    tabs 1, S ''FormModeCreate FormMode = "create"\<newline>'',
    tabs 1, S ''FormModeEdit   FormMode = "edit"\<newline>'',
    S '')\<newline>'',
    S ''\<newline>'',
    S ''templ Form(mode FormMode, item *dto.'', titleModelName, S ''Response, errors map[string]string) {\<newline>'',
    tabs 1, S ''@layouts.BaseLayout() {\<newline>'',
    tabs 2, S ''<div class="container mx-auto px-4 py-8">\<newline>'',
    tabs 3, S ''<div class="mb-6">\<newline>'',
    tabs 4, S ''<a href="/'', lowerModelName, S ''s">\<newline>'',
    tabs 5, S ''@button.Button(button.Props{\<newline>'',
    tabs 6, S ''Variant: button.VariantOutline,\<newline>'',
    tabs 5, S ''}) {\<newline>'',
    tabs 6, [8592], S '' Back to '', titleModelName, S ''s\<newline>'',
    tabs 5, S ''}\<newline>'',
    tabs 4, S ''</a>\<newline>'',
    tabs 3, S ''</div>\<newline>'',
    S ''\<newline>'',
    tabs 3, S ''<div class="bg-card rounded-lg shadow overflow-hidden p-6">\<newline>'',
    tabs 4, S ''<h1 class="text-2xl font-bold mb-6">\<newline>'',
    tabs 5, S ''if mode == FormModeCreate {\<newline>'',
    tabs 6, S ''Create New '', titleModelName, S ''\<newline>'',
    tabs 5, S ''} else {\<newline>'',
    tabs 6, S ''Edit '', titleModelName, S ''\<newline>'',
    tabs 5, S ''}\<newline>'',
    tabs 4, S ''</h1>\<newline>'',
    S ''\<newline>'',
    tabs 4, S ''<form method="POST" class="space-y-6">\<newline>'']\<close>

definition html_controller_response_15 :: "gostring \<Rightarrow> gostring \<Rightarrow> gostring \<Rightarrow> gostring" where
  \<open>html_controller_response_15 titleModelName lowerModelName appName = concat [
    tabs 5, S ''<!-- Example of using Alert component for form errors -->\<newline>'',
    tabs 5, S ''if errorMsg, ok := errors["general"]; ok {\<newline>'',
    tabs 6, S ''<div class="mb-6">\<newline>'',
    tabs 7, S ''@alert.Alert(alert.Props{\<newline>'',
    tabs 8, S ''Variant: alert.VariantDestructive,\<newline>'',
    tabs 7, S ''}) {\<newline>'',
    tabs 8, S ''@icon.AlertTriangle(icon.Props{Size: 16})\<newline>'',
    tabs 8, S ''@alert.Title() {\<newline>'',
    tabs 9, S ''Error\<newline>'',
    tabs 8, S ''}\<newline>'',
    tabs 8, S ''@alert.Description() {\<newline>'',
    tabs 9, S ''{ errorMsg }\<newline>'',
    tabs 8, S ''}\<newline>'',
    tabs 7, S ''}\<newline>'',
    tabs 6, S ''</div>\<newline>'',
    tabs 5, S ''}\<newline>'',
    S ''\<newline>'',
    tabs 5, S ''<!-- Example of using Input component -->\<newline>'',
    tabs 5, S ''<div class="space-y-2">\<newline>'',
    tabs 6, S ''<label for="name" class="block text-sm font-medium">Name</label>\<newline>'',
    tabs 6, S ''@input.Input(input.Props{\<newline>'',
    tabs 7, S ''Type: input.TypeText,\<newline>'',
    tabs 7, S ''Id: "name",\<newline>'',
    tabs 7, S ''Name: "name",\<newline>'',
    tabs 7, S ''Value: item.Name,\<newline>'',
    tabs 7, S ''Placeholder: "Enter name",\<newline>'',
    tabs 7, S ''Required: true,\<newline>'',
    tabs 6, S ''})\<newline>'',
    tabs 6, S ''if errorMsg, ok := errors["name"]; ok {\<newline>'',
    tabs 7, S ''<p class="text-destructive text-sm mt-1">{ errorMsg }</p>\<newline>'',
    tabs 6, S ''}\<newline>'',
    tabs 5, S ''</div>\<newline>'',
    S ''\<newline>'',
    tabs 5, S ''<!-- Example of using Checkbox component -->\<newline>'',
    tabs 5, S ''<div class="space-y-2">\<newline>'',
    tabs 6, S ''<div class="flex items-center gap-2">\<newline>'',
    tabs 7, S ''@checkbox.Checkbox(checkbox.Props{\<newline>'',
    tabs 8, S ''Id: "active",\<newline>'',
    tabs 8, S ''Name: "active",\<newline>'',
    tabs 8, S ''Checked: item.Active,\<newline>'']\<close>

definition html_controller_response_16 :: "gostring \<Rightarrow> gostring \<Rightarrow> gostring \<Rightarrow> gostring" where
  \<open>html_controller_response_16 titleModelName lowerModelName appName = concat [
    tabs 7, S ''})\<newline>'',
    tabs 7, S ''<label for="active" class="text-sm font-medium">\<newline>'',
    tabs 8, S ''Active\<newline>'',
    tabs 7, S ''</label>\<newline>'',
    tabs 6, S ''</div>\<newline>'',
    tabs 6, S ''if errorMsg, ok := errors["active"]; ok {\<newline>'',
    tabs 7, S ''<p class="text-destructive text-sm mt-1">{ errorMsg }</p>\<newline>'',
    tabs 6, S ''}\<newline>'',
    tabs 5, S ''</div>\<newline>'',
    S ''\<newline>'',
    tabs 5, S ''<!-- Add more form fields as needed -->\<newline>'',
    S ''\<newline>'',
    tabs 5, S ''<div class="flex justify-end">\<newline>'',
    tabs 6, S ''<a href="/'', lowerModelName, S ''s" class="mr-2">\<newline>'',
    tabs 7, S ''@button.Button(button.Props{\<newline>'',
    tabs 8, S ''Variant: button.VariantOutline,\<newline>'',
    tabs 7, S ''}) {\<newline>'',
    tabs 8, S ''Cancel\<newline>'',
    tabs 7, S ''}\<newline>'',
    tabs 6, S ''</a>\<newline>'',
    tabs 6, S ''@button.Button(button.Props{\<newline>'',
    tabs 7, S ''Type: "submit",\<newline>'',
    tabs 6, S ''}) {\<newline>'',
    tabs 7, S ''if mode == FormModeCreate {\<newline>'',
    tabs 8, S ''Create '', titleModelName, S ''\<newline>'',
    tabs 7, S ''} else {\<newline>'',
    tabs 8, S ''Update '', titleModelName, S ''\<newline>'',
    tabs 7, S ''}\<newline>'',
    tabs 6, S ''}\<newline>'',
    tabs 5, S ''</div>\<newline>'',
    tabs 4, S ''</form>\<newline>'',
    tabs 3, S ''</div>\<newline>'',
    tabs 2, S ''</div>\<newline>'',
    tabs 1, S ''}\<newline>'',
    S ''}\<newline>'',
    S ''```\<newline>'',
    S ''\<newline>'',
    S ''6. Create the HTML controller:\<newline>'',
    S ''   Create `internal/controllers/'', lowerModelName, S ''/html_controller.go` with the following content:\<newline>'',
    S ''\<newline>'']\<close>

definition html_controller_response_17 :: "gostring \<Rightarrow> gostring \<Rightarrow> gostring \<Rightarrow> gostring" where
  \<open>html_controller_response_17 titleModelName lowerModelName appName = concat [
    S ''```go\<newline>'',
    S ''package controllers\<newline>'',
    S ''\<newline>'',
    S ''import (\<newline>'',
    tabs 1, S ''"net/http"\<newline>'',
    tabs 1, S ''"strconv"\<newline>'',
    S ''\<newline>'',
    tabs 1, S ''"github.com/labstack/echo/v4"\<newline>'',
    tabs 1, S ''"'', appName, S ''/internal/service"\<newline>'',
    tabs 1, S ''"'', appName, S ''/internal/dto"\<newline>'',
    tabs 1, S ''"'', appName, S ''/pages/'', lowerModelName, S ''"\<newline>'',
    S '')\<newline>'',
    S ''\<newline>'',
    S ''type '', titleModelName, S ''HtmlController interface {\<newline>'',
    tabs 1, S ''Index(c echo.Context) error\<newline>'',
    tabs 1, S ''Show(c echo.Context) error\<newline>'',
    tabs 1, S ''New(c echo.Context) error\<newline>'',
    tabs 1, S ''Create(c echo.Context) error\<newline>'',
    tabs 1, S ''Edit(c echo.Context) error\<newline>'',
    tabs 1, S ''Update(c echo.Context) error\<newline>'',
    tabs 1, S ''Delete(c echo.Context) error\<newline>'',
    S ''}\<newline>'',
    S ''\<newline>'',
    S ''type '', titleModelName, S ''HtmlControllerImpl struct {\<newline>'',
    tabs 1, lowerModelName, S ''Service service.'', titleModelName, S ''Service\<newline>'',
    S ''}\<newline>'',
    S ''\<newline>'',
    S ''func New'', titleModelName, S ''HtmlController('', lowerModelName, S ''Service service.'', titleModelName, S ''Service) '', titleModelName, S ''HtmlController {\<newline>'',
    tabs 1, S ''return &'', titleModelName, S ''HtmlControllerImpl{'', lowerModelName, S ''Service: '', lowerModelName, S ''Service}\<newline>'',
    S ''}\<newline>'',
    S ''\<newline>'',
    S ''// Index renders the list page\<newline>'',
    S ''func (ctrl *'', titleModelName, S ''HtmlControllerImpl) Index(c echo.Context) error {\<newline>'',
    tabs 1, S ''// Parse pagination parameters\<newline>'',
    tabs 1, S ''page, _ := strconv.Atoi(c.QueryParam("page"))\<newline>'',
    tabs 1, S ''if page <= 0 {\<newline>'',
    tabs 2, S ''page = 1\<newline>'',
    tabs 1, S ''}\<newline>'',
    tabs 1, S ''limit, _ := strconv.Atoi(c.QueryParam("limit"))\<newline>'',
    tabs 1, S ''if limit <= 0 {\<newline>'']\<close>

definition html_controller_response_18 :: "gostring \<Rightarrow> gostring \<Rightarrow> gostring \<Rightarrow> gostring" where
  \<open>html_controller_response_18 titleModelName lowerModelName appName = concat [
    tabs 2, S ''limit = 10\<newline>'',
    tabs 1, S ''}\<newline>'',
    S ''\<newline>'',
    tabs 1, S ''// You might want to parse query parameters for filtering here\<newline>'',
    tabs 1, S ''filters := make(map[string]interface{})\<newline>'',
    tabs 1, S ''// Example: filters["name"] = c.QueryParam("name")\<newline>'',
    S ''\<newline>'',
    tabs 1, S ''result, err := ctrl.'', lowerModelName, S ''Service.List(c.Request().Context(), page, limit, filters)\<newline>'',
    tabs 1, S ''if err != nil {\<newline>'',
    tabs 2, S ''return echo.NewHTTPError(http.StatusInternalServerError, err.Error())\<newline>'',
    tabs 1, S ''}\<newline>'',
    S ''\<newline>'',
    tabs 1, S ''return '', lowerModelName, S ''pages.Index(result.Items, page, limit, result.Total).Render(c.Request().Context(), c.Response().Writer)\<newline>'',
    S ''}\<newline>'',
    S ''\<newline>'',
    S ''// Show renders the detail page\<newline>'',
    S ''func (ctrl *'', titleModelName, S ''HtmlControllerImpl) Show(c echo.Context) error {\<newline>'',
    tabs 1, S ''id, err := strconv.ParseUint(c.Param("id"), 10, 64)\<newline>'',
    tabs 1, S ''if err != nil {\<newline>'',
    tabs 2, S ''return echo.NewHTTPError(http.StatusBadRequest, "Invalid ID")\<newline>'',
    tabs 1, S ''}\<newline>'',
    S ''\<newline>'',
    tabs 1, S ''result, err := ctrl.'', lowerModelName, S ''Service.GetByID(c.Request().Context(), uint(id))\<newline>'',
    tabs 1, S ''if err != nil {\<newline>'',
    tabs 2, S ''return echo.NewHTTPError(http.StatusInternalServerError, err.Error())\<newline>'',
    tabs 1, S ''}\<newline>'',
    S ''\<newline>'',
    tabs 1, S ''return '', lowerModelName, S ''pages.Show(*result).Render(c.Request().Context(), c.Response().Writer)\<newline>'',
    S ''}\<newline>'',
    S ''\<newline>'',
    S ''// New renders the create form\<newline>'',
    S ''func (ctrl *'', titleModelName, S ''HtmlControllerImpl) New(c echo.Context) error {\<newline>'',
    tabs 1, S ''// Create an empty item for the form\<newline>'',
    tabs 1, S ''item := &dto.'', titleModelName, S ''Response{}\<newline>'',
    tabs 1, S ''return '', lowerModelName, S ''pages.Form('', lowerModelName, S ''pages.FormModeCreate, item, nil).Render(c.Request().Context(), c.Response().Writer)\<newline>'',
    S ''}\<newline>'',
    S ''\<newline>'',
    S ''// Create handles the form submission for creating a new item\<newline>'',
    S ''func (ctrl *'', titleModelName, S ''HtmlControllerImpl) Create(c echo.Context) error {\<newline>'',
    tabs 1, S ''req := new(dto.Create'', titleModelName, S ''Request)\<newline>'']\<close>

definition html_controller_response_19 :: "gostring \<Rightarrow> gostring \<Rightarrow> gostring \<Rightarrow> gostring" where
  \<open>html_controller_response_19 titleModelName lowerModelName appName = concat [
    tabs 1, S ''if err := c.Bind(req); err != nil {\<newline>'',
    tabs 2, S ''// Create an empty item for the form\<newline>'',
    tabs 2, S ''item := &dto.'', titleModelName, S ''Response{}\<newline>'',
    tabs 2, S ''errors := map[string]string{"general": err.Error()}\<newline>'',
    tabs 2, S ''return '', lowerModelName, S ''pages.Form('', lowerModelName, S ''pages.FormModeCreate, item, errors).Render(c.Request().Context(), c.Response().Writer)\<newline>'',
    tabs 1, S ''}\<newline>'',
    S ''\<newline>'',
    tabs 1, S ''// Add validation here if needed\<newline>'',
    tabs 1, S ''result, err := ctrl.'', lowerModelName, S ''Service.Create(c.Request().Context(), req)\<newline>'',
    tabs 1, S ''if err != nil {\<newline>'',
    tabs 2, S ''// Return to form with errors\<newline>'',
    tabs 2, S ''item := &dto.'', titleModelName, S ''Response{\<newline>'',
    tabs 3, S ''// Map request fields to response fields\<newline>'',
    tabs 3, S ''// Example: Name: req.Name,\<newline>'',
    tabs 3, S ''// Example: Active: req.Active,\<newline>'',
    tabs 2, S ''}\<newline>'',
    tabs 2, S ''errors := map[string]string{"general": err.Error()}\<newline>'',
    tabs 2, S ''return '', lowerModelName, S ''pages.Form('', lowerModelName, S ''pages.FormModeCreate, item, errors).Render(c.Request().Context(), c.Response().Writer)\<newline>'',
    tabs 1, S ''}\<newline>'',
    S ''\<newline>'',
    tabs 1, S ''// Redirect to the detail page\<newline>'',
    tabs 1, S ''return c.Redirect(http.StatusSeeOther, "/'', lowerModelName, S ''s/"+strconv.FormatUint(uint64(result.ID), 10))\<newline>'',
    S ''}\<newline>'',
    S ''\<newline>'',
    S ''// Edit renders the edit form\<newline>'',
    S ''func (ctrl *'', titleModelName, S ''HtmlControllerImpl) Edit(c echo.Context) error {\<newline>'',
    tabs 1, S ''id, err := strconv.ParseUint(c.Param("id"), 10, 64)\<newline>'',
    tabs 1, S ''if err != nil {\<newline>'',
    tabs 2, S ''return echo.NewHTTPError(http.StatusBadRequest, "Invalid ID")\<newline>'',
    tabs 1, S ''}\<newline>'',
    S ''\<newline>'',
    tabs 1, S ''result, err := ctrl.'', lowerModelName, S ''Service.GetByID(c.Request().Context(), uint(id))\<newline>'',
    tabs 1, S ''if err != nil {\<newline>'',
    tabs 2, S ''return echo.NewHTTPError(http.StatusInternalServerError, err.Error())\<newline>'',
    tabs 1, S ''}\<newline>'',
    S ''\<newline>'',
    tabs 1, S ''return '', lowerModelName, S ''pages.Form('', lowerModelName, S ''pages.FormModeEdit, result, nil).Render(c.Request().Context(), c.Response().Writer)\<newline>'',
    S ''}\<newline>'',
    S ''\<newline>'',
    S ''// Update handles the form submission for updating an item\<newline>'']\<close>

definition html_controller_response_20 :: "gostring \<Rightarrow> gostring \<Rightarrow> gostring \<Rightarrow> gostring" where
  \<open>html_controller_response_20 titleModelName lowerModelName appName = concat [
    S ''func (ctrl *'', titleModelName, S ''HtmlControllerImpl) Update(c echo.Context) error {\<newline>'',
    tabs 1, S ''id, err := strconv.ParseUint(c.Param("id"), 10, 64)\<newline>'',
    tabs 1, S ''if err != nil {\<newline>'',
    tabs 2, S ''return echo.NewHTTPError(http.StatusBadRequest, "Invalid ID")\<newline>'',
    tabs 1, S ''}\<newline>'',
    S ''\<newline>'',
    tabs 1, S ''req := new(dto.Update'', titleModelName, S ''Request)\<newline>'',
    tabs 1, S ''if err := c.Bind(req); err != nil {\<newline>'',
    tabs 2, S ''// Get the current item for the form\<newline>'',
    tabs 2, S ''result, _ := ctrl.'', lowerModelName, S ''Service.GetByID(c.Request().Context(), uint(id))\<newline>'',
    tabs 2, S ''errors := map[string]string{"general": err.Error()}\<newline>'',
    tabs 2, S ''return '', lowerModelName, S ''pages.Form('', lowerModelName, S ''pages.FormModeEdit, result, errors).Render(c.Request().Context(), c.Response().Writer)\<newline>'',
    tabs 1, S ''}\<newline>'',
    tabs 1, S ''req.ID = uint(id)\<newline>'',
    S ''\<newline>'',
    tabs 1, S ''// Add validation here if needed\<newline>'',
    tabs 1, S ''result, err := ctrl.'', lowerModelName, S ''Service.Update(c.Request().Context(), req)\<newline>'',
    tabs 1, S ''if err != nil {\<newline>'',
    tabs 2, S ''// Return to form with errors\<newline>'',
    tabs 2, S ''item, _ := ctrl.'', lowerModelName, S ''Service.GetByID(c.Request().Context(), uint(id))\<newline>'',
    tabs 2, S ''errors := map[string]string{"general": err.Error()}\<newline>'',
    tabs 2, S ''return '', lowerModelName, S ''pages.Form('', lowerModelName, S ''pages.FormModeEdit, item, errors).Render(c.Request().Context(), c.Response().Writer)\<newline>'',
    tabs 1, S ''}\<newline>'',
    S ''\<newline>'',
    tabs 1, S ''// Redirect to the detail page\<newline>'',
    tabs 1, S ''return c.Redirect(http.StatusSeeOther, "/'', lowerModelName, S ''s/"+strconv.FormatUint(uint64(result.ID), 10))\<newline>'',
    S ''}\<newline>'',
    S ''\<newline>'',
    S ''// Delete handles the deletion of an item\<newline>'',
    S ''func (ctrl *'', titleModelName, S ''HtmlControllerImpl) Delete(c echo.Context) error {\<newline>'',
    tabs 1, S ''id, err := strconv.ParseUint(c.Param("id"), 10, 64)\<newline>'',
    tabs 1, S ''if err != nil {\<newline>'',
    tabs 2, S ''return echo.NewHTTPError(http.StatusBadRequest, "Invalid ID")\<newline>'',
    tabs 1, S ''}\<newline>'',
    S ''\<newline>'',
    tabs 1, S ''if err := ctrl.'', lowerModelName, S ''Service.Delete(c.Request().Context(), uint(id)); err != nil {\<newline>'',
    tabs 2, S ''return echo.NewHTTPError(http.StatusInternalServerError, err.Error())\<newline>'',
    tabs 1, S ''}\<newline>'',
    S ''\<newline>'',
    tabs 1, S ''// Redirect to the list page\<newline>'']\<close>

definition html_controller_response_21 :: "gostring \<Rightarrow> gostring \<Rightarrow> gostring \<Rightarrow> gostring" where
  \<open>html_controller_response_21 titleModelName lowerModelName appName = concat [
    tabs 1, S ''return c.Redirect(http.StatusSeeOther, "/'', lowerModelName, S ''s")\<newline>'',
    S ''}\<newline>'',
    S ''```\<newline>'',
    S ''\<newline>'',
    S ''7. Update your main.go to register the HTML routes:\<newline>'',
    S ''   Add the following to your main.go file:\<newline>'',
    S ''\<newline>'',
    S ''```go\<newline>'',
    S ''// Initialize HTML controllers\<newline>'',
    lowerModelName, S ''HtmlController := controllers.New'', titleModelName, S ''HtmlController('', lowerModelName, S ''Service)\<newline>'',
    S ''\<newline>'',
    S ''// HTML Routes\<newline>'',
    S ''e.GET("/'', lowerModelName, S ''s", '', lowerModelName, S ''HtmlController.Index)\<newline>'',
    S ''e.GET("/'', lowerModelName, S ''s/new", '', lowerModelName, S ''HtmlController.New)\<newline>'',
    S ''e.POST("/'', lowerModelName, S ''s", '', lowerModelName, S ''HtmlController.Create)\<newline>'',
    S ''e.GET("/'', lowerModelName, S ''s/:id", '', lowerModelName, S ''HtmlController.Show)\<newline>'',
    S ''e.GET("/'', lowerModelName, S ''s/:id/edit", '', lowerModelName, S ''HtmlController.Edit)\<newline>'',
    S ''e.POST("/'', lowerModelName, S ''s/:id", '', lowerModelName, S ''HtmlController.Update)\<newline>'',
    S ''e.POST("/'', lowerModelName, S ''s/:id/delete", '', lowerModelName, S ''HtmlController.Delete)\<newline>'',
    S ''\<newline>'',
    S ''// Serve static files\<newline>'',
    S ''e.Static("/assets", "assets")\<newline>'',
    S ''```\<newline>'',
    S ''\<newline>'',
    S ''8. Start the development server:\<newline>'',
    S ''   `make dev`\<newline>'',
    S ''\<newline>'',
    S ''This will:\<newline>'',
    S ''- Watch and compile templ files\<newline>'',
    S ''- Start the Go server with hot reload\<newline>'',
    S ''- Watch and compile Tailwind CSS changes\<newline>'']\<close>

definition html_controller_response :: "gostring \<Rightarrow> gostring \<Rightarrow> gostring \<Rightarrow> gostring" where
  "html_controller_response titleModelName lowerModelName appName = concat [
    html_controller_response_1 titleModelName lowerModelName appName,
    html_controller_response_2 titleModelName lowerModelName appName,
    html_controller_response_3 titleModelName lowerModelName appName,
    html_controller_response_4 titleModelName lowerModelName appName,
    html_controller_response_5 titleModelName lowerModelName appName,
    html_controller_response_6 titleModelName lowerModelName appName,
    html_controller_response_7 titleModelName lowerModelName appName,
    html_controller_response_8 titleModelName lowerModelName appName,
    html_controller_response_9 titleModelName lowerModelName appName,
    html_controller_response_10 titleModelName lowerModelName appName,
    html_controller_response_11 titleModelName lowerModelName appName,
    html_controller_response_12 titleModelName lowerModelName appName,
    html_controller_response_13 titleModelName lowerModelName appName,
    html_controller_response_14 titleModelName lowerModelName appName,
    html_controller_response_15 titleModelName lowerModelName appName,
    html_controller_response_16 titleModelName lowerModelName appName,
    html_controller_response_17 titleModelName lowerModelName appName,
    html_controller_response_18 titleModelName lowerModelName appName,
    html_controller_response_19 titleModelName lowerModelName appName,
    html_controller_response_20 titleModelName lowerModelName appName,
    html_controller_response_21 titleModelName lowerModelName appName]"

definition ProduceHtmlControllerBoilerplateHandler :: "golib \<Rightarrow> CallToolRequest \<Rightarrow> CallToolResult" where
  \<open>ProduceHtmlControllerBoilerplateHandler L request =
     (let appName = GetString request (S ''app_name'') [] in
      if appName = [] then NewToolResultError (S ''App name is required'')
      else
        (case RequireString request (S ''model_name'') of
           Inl err \<Rightarrow> NewToolResultError (S ''Error getting 'model_name': '' @ arg_Error err)
         | Inr modelName \<Rightarrow>
             (let titleModelName = strings_Title L modelName;
                  lowerModelName = strings_ToLower L modelName;
                  response = html_controller_response titleModelName lowerModelName appName
              in NewToolResultText response)))\<close>

definition GetProduceHtmlControllerBoilerplateTool :: "Tool \<times> (golib \<Rightarrow> CallToolRequest \<Rightarrow> CallToolResult)" where
  \<open>GetProduceHtmlControllerBoilerplateTool =
     (NewTool (S ''produce_html_controller_boilerplate'')
        (S ''Instructs the LLM to output an example boilerplate for a new HTML controller using templUI for a given model.'')
        [WithString (S ''app_name'') False
           (S ''The name of the application. This is used to output an example of correct import paths.''),
         WithString (S ''model_name'') True
           (S ''The name of the model for which to output an example HTML controller (e.g., User, Product).'')],
      ProduceHtmlControllerBoilerplateHandler)\<close>

section \<open>The \<open>produce_app_boilerplate\<close> tool\<close>

definition app_response_1 :: "gostring \<Rightarrow> gostring" where
  \<open>app_response_1 appName = concat [
    S ''\<newline>'',
    S ''# Echo Web Application Scaffold Instructions\<newline>'',
    S ''\<newline>'',
    S ''To scaffold the Echo web application '', [39], appName, [39], S '', please perform the following steps:\<newline>'',
    S ''\<newline>'',
    S ''1. Create the directory structure (or ensure it exists):\<newline>'',
    S ''   `mkdir -p '', appName, S ''/cmd/web`\<newline>'',
    S ''\<newline>'',
    S ''2. Create or update the file at `'', appName, S ''/cmd/web/main.go` with the following content:\<newline>'',
    S ''```go\<newline>'',
    S ''package main\<newline>'',
    S ''\<newline>'',
    S ''import (\<newline>'',
    tabs 1, S ''"net/http"\<newline>'',
    S ''\<newline>'',
    tabs 1, S ''"github.com/labstack/echo/v4"\<newline>'',
    tabs 1, S ''"github.com/labstack/echo/v4/middleware"\<newline>'',
    S '')\<newline>'',
    S ''\<newline>'',
    S ''func main() {\<newline>'',
    tabs 1, S ''e := echo.New()\<newline>'',
    tabs 1, S ''e.Use(middleware.Logger())\<newline>'',
    tabs 1, S ''e.Use(middleware.Recover())\<newline>'',
    tabs 1, S ''e.GET("/", hello)\<newline>'',
    tabs 1, S ''e.Logger.Fatal(e.Start(":1323"))\<newline>'',
    S ''}\<newline>'',
    S ''\<newline>'',
    S ''func hello(c echo.Context) error {\<newline>'',
    tabs 1, S ''return c.String(http.StatusOK, "Hello, World!")\<newline>'',
    S ''}\<newline>'',
    S ''```\<newline>'',
    S ''\<newline>'',
    S ''3. Initialize the Go module and fetch dependencies:\<newline>'',
    S ''   `cd '', appName, S '' && go mod init '', appName, S '' && go get github.com/labstack/echo/v4 && go mod tidy`\<newline>'',
    S ''\<newline>'',
    S ''4. To run the server, navigate to the application directory and execute:\<newline>'',
    S ''   `cd '', appName, S '' && go run ./cmd/web`\<newline>'',
    S ''\<newline>'',
    S ''5. Bootstrap dependencies in `'', appName, S ''/cmd/web/main.go`:\<newline>'',
    S ''   After creating models, repositories, services, and controllers, you will need to create or update `'', appName, S ''/cmd/web/main.go` to bootstrap these dependencies.\<newline>'']\<close>

definition app_response_2 :: "gostring \<Rightarrow> gostring" where
  \<open>app_response_2 appName = concat [
    S ''   This typically involves:\<newline>'',
    S ''   - Importing `gorm.io/driver/sqlite` (or your chosen database driver) and `gorm.io/gorm`.\<newline>'',
    S ''   - Initializing the database connection (e.g., `db, err := gorm.Open(sqlite.Open("gorm.db"), &gorm.Config{})`).\<newline>'',
    S ''   - Auto-migrating your models (e.g., `db.AutoMigrate(&models.YourModel{})`).\<newline>'',
    S ''   - Creating instances of your repositories (e.g., `userRepo := repository.NewUserRepository(db)`).\<newline>'',
    S ''   - Creating instances of your services (e.g., `userService := service.NewUserService(userRepo)`).\<newline>'',
    S ''   - Creating instances of your controllers, injecting services (e.g., `userController := controllers.NewUserController(userService)`).\<newline>'',
    S ''   - Registering routes for your controllers (e.g., `e.POST("/users", userController.CreateUser)`).\<newline>'',
    S ''\<newline>'',
    S ''   Here's an example of how `'', appName, S ''/cmd/web/main.go` might look after adding a 'User' model with service layer:\<newline>'',
    S ''   ```go\<newline>'',
    S ''package main\<newline>'',
    S ''\<newline>'',
    S ''import (\<newline>'',
    tabs 1, S ''"net/http"\<newline>'',
    S ''\<newline>'',
    tabs 1, S ''"github.com/labstack/echo/v4"\<newline>'',
    tabs 1, S ''"github.com/labstack/echo/v4/middleware"\<newline>'',
    tabs 1, S ''"gorm.io/driver/sqlite"\<newline>'',
    tabs 1, S ''"gorm.io/gorm"\<newline>'',
    S ''\<newline>'',
    tabs 1, S ''"'', appName, S ''/internal/models"\<newline>'',
    tabs 1, S ''"'', appName, S ''/internal/repository"\<newline>'',
    tabs 1, S ''"'', appName, S ''/internal/service"\<newline>'',
    tabs 1, S ''"'', appName, S ''/internal/controllers"\<newline>'',
    S '')\<newline>'',
    S ''\<newline>'',
    S ''func main() {\<newline>'',
    tabs 1, S ''e := echo.New()\<newline>'',
    tabs 1, S ''e.Use(middleware.Logger())\<newline>'',
    tabs 1, S ''e.Use(middleware.Recover())\<newline>'',
    S ''\<newline>'',
    tabs 1, S ''// Database initialization\<newline>'',
    tabs 1, S ''db, err := gorm.Open(sqlite.Open("gorm.db"), &gorm.Config{})\<newline>'',
    tabs 1, S ''if err != nil {\<newline>'',
    tabs 2, S ''e.Logger.Fatal("failed to connect database", err)\<newline>'',
    tabs 1, S ''}\<newline>'',
    S ''\<newline>'',
    tabs 1, S ''// Auto-migrate models\<newline>'',
    tabs 1, S ''err = db.AutoMigrate(&models.User{}) // Add all your models here\<newline>'']\<close>

definition app_response_3 :: "gostring \<Rightarrow> gostring" where
  \<open>app_response_3 appName = concat [
    tabs 1, S ''if err != nil {\<newline>'',
    tabs 2, S ''e.Logger.Fatal("failed to auto migrate models", err)\<newline>'',
    tabs 1, S ''}\<newline>'',
    S ''\<newline>'',
    tabs 1, S ''// Initialize repositories\<newline>'',
    tabs 1, S ''userRepo := repository.NewUserRepository(db)\<newline>'',
    S ''\<newline>'',
    tabs 1, S ''// Initialize services\<newline>'',
    tabs 1, S ''userService := service.NewUserService(userRepo)\<newline>'',
    S ''\<newline>'',
    tabs 1, S ''// Initialize controllers\<newline>'',
    tabs 1, S ''userController := controllers.NewUserController(userService)\<newline>'',
    S ''\<newline>'',
    tabs 1, S ''// Routes\<newline>'',
    tabs 1, S ''e.GET("/", hello)\<newline>'',
    tabs 1, S ''e.POST("/users", userController.CreateUser)\<newline>'',
    tabs 1, S ''e.GET("/users/:id", userController.GetUserByID) // Example for GetByID\<newline>'',
    tabs 1, S ''e.GET("/users", userController.ListUsers)       // Example for List\<newline>'',
    tabs 1, S ''e.PUT("/users/:id", userController.UpdateUser)\<newline>'',
    tabs 1, S ''e.DELETE("/users/:id", userController.DeleteUser)\<newline>'',
    S ''\<newline>'',
    tabs 1, S ''e.Logger.Fatal(e.Start(":1323"))\<newline>'',
    S ''}\<newline>'',
    S ''\<newline>'',
    S ''func hello(c echo.Context) error {\<newline>'',
    tabs 1, S ''return c.String(http.StatusOK, "Hello, World!")\<newline>'',
    S ''}\<newline>'',
    S ''```\<newline>'']\<close>

definition app_response :: "gostring \<Rightarrow> gostring" where
  "app_response appName = concat [
    app_response_1 appName,
    app_response_2 appName,
    app_response_3 appName]"

definition ProduceAppBoilerplateHandler :: "CallToolRequest \<Rightarrow> CallToolResult" where
  \<open>ProduceAppBoilerplateHandler request =
     (case RequireString request (S ''app_name'') of
        Inl err \<Rightarrow> NewToolResultError (S ''Error getting 'app_name': '' @ arg_Error err)
      | Inr appName \<Rightarrow>
          (let response = app_response appName in NewToolResultText response))\<close>

definition GetProduceAppBoilerplateTool :: "Tool \<times> (CallToolRequest \<Rightarrow> CallToolResult)" where
  \<open>GetProduceAppBoilerplateTool =
     (NewTool (S ''produce_app_boilerplate'')
        (S ''Instructs the LLM to output an example scaffold a new Echo web application.'')
        [WithString (S ''app_name'') True
           (S ''The name of the application.'')],
      ProduceAppBoilerplateHandler)\<close>

section \<open>A library instance for evaluation\<close>

text \<open>
  To evaluate the model on concrete requests the tables of \<open>golib\<close> must be given.
  \<open>sample_lib\<close> knows three runes above ASCII: U+00E9 and U+00C9 (small and capital e
  with acute accent), which are letters and each other's case forms, and U+00A0
  (no-break space), which is a space. Its error messages name the kind of error.
\<close>

definition sample_lib :: golib where
  "sample_lib =
     \<lparr>To_TitleCase = (\<lambda>r. if r = 0xE9 then 0xC9 else r),
      To_LowerCase = (\<lambda>r. if r = 0xC9 then 0xE9 else r),
      IsLetter = (\<lambda>r. r = 0xE9 \<or> r = 0xC9),
      IsDigit = (\<lambda>r. False),
      IsSpace = (\<lambda>r. r = 0xA0),
      json_Error = (\<lambda>e. case e of SyntaxError \<Rightarrow> S ''syntax error''
                              | UnmarshalTypeError \<Rightarrow> S ''type error'')\<rparr>"


section \<open>Texts with inserted parameters\<close>

text \<open>
  The answers of the handlers are fixed texts into which the parameters are written.
  \<open>weave s0 [(p1, s1), ..., (pn, sn)]\<close> is the text \<open>s0 p1 s1 ... pn sn\<close>: the fixed
  texts \<open>s0, ..., sn\<close> with the parameters \<open>p1, ..., pn\<close> between them.
\<close>

fun weave :: "'a list \<Rightarrow> ('a list \<times> 'a list) list \<Rightarrow> 'a list" where
  "weave s0 [] = s0"
| "weave s0 ((p, s) # ps) = s0 @ p @ weave s ps"

text \<open>
  \<open>no_overlap K w s\<close>: no end of the word \<open>w\<close> is a beginning of a text that starts
  with \<open>s\<close>. It is decided on the first \<open>K\<close> elements of \<open>s\<close>: they do not occur in
  \<open>w\<close>, which excludes the ends of \<open>w\<close> of that length or more, and no shorter end of
  \<open>w\<close> is a beginning of \<open>s\<close>.
\<close>

definition no_overlap :: "nat \<Rightarrow> 'a list \<Rightarrow> 'a list \<Rightarrow> bool" where
  "no_overlap K w s \<longleftrightarrow>
     s \<noteq> [] \<and> \<not> sublist (take K s) w \<and>
     list_all (\<lambda>n. \<not> prefix (drop (length w - n) w) s) [1..<min K (length s)]"

text \<open>
  The fixed texts of the answer of \<open>fix_app\<close> to a request with an error message, in
  their order: \<open>fix_intro\<close>, the nine pieces of \<open>fix_pointers\<close> between the places where
  the application name is written, the last of them continued by the beginning of
  \<open>fix_regarding\<close>, and the end of \<open>fix_regarding\<close>. They are given as characters;
  \<open>fix_output_weave\<close> below shows that they are the texts of the handler.
\<close>

definition fix_texts :: "string list" where
  \<open>fix_texts =
    [''Here are some pointers to address common issues in your Echo web application:\<newline>'' @
          ''\<newline>'',
         ''1.  **Go Module Paths**: Ensure your Go module is correctly initialized and that internal imports use the module name.\<newline>'' @
          ''    If your module is named `'',
         ''`, then imports for internal packages should look like:\<newline>'' @
          ''    ```go\<newline>'' @
          ''    import (\<newline>'' @
          ''        "'',
         ''/internal/models"\<newline>'' @
          ''        "'',
         ''/internal/repository"\<newline>'' @
          ''        "'',
         ''/internal/service"\<newline>'' @
          ''        "'',
         ''/internal/controllers"\<newline>'' @
          ''    )\<newline>'' @
          ''    ```\<newline>'' @
          ''    Make sure to replace `'',
         ''` with your actual module name.\<newline>'' @
          ''\<newline>'' @
          ''2.  **Missing Dependencies**: If you see errors like "no required module provides package...", run `go mod tidy` in your application's root directory ('' @
          ''`cd '',
         '' && go mod tidy`'' @
          '') to fetch missing dependencies.\<newline>'' @
          ''\<newline>'' @
          ''3.  **Database Initialization**: Ensure your `main.go` (in `cmd/web/`) correctly initializes the GORM database connection and auto-migrates all your models. For example:\<newline>'' @
          ''    ```go\<newline>'' @
          ''    import (\<newline>'' @
          ''        "gorm.io/driver/sqlite"\<newline>'' @
          ''        "gorm.io/gorm"\<newline>'' @
          ''        "'',
         ''/internal/models"\<newline>'' @
          ''    )\<newline>'' @
          ''\<newline>'' @
          ''    func main() {\<newline>'' @
          ''        db, err := gorm.Open(sqlite.Open("gorm.db"), &gorm.Config{})\<newline>'' @
          ''        if err != nil {\<newline>'' @
          ''            // handle error\<newline>'' @
          ''        }\<newline>'' @
          ''        db.AutoMigrate(&models.Product{}, &models.Customer{}, &models.ProductCustomer{}) // Add all your models\<newline>'' @
          ''    }\<newline>'' @
          ''    ```\<newline>'' @
          ''\<newline>'' @
          ''4.  **Repository, Service, and Controller Initialization**: Verify that you are creating instances of your repositories, services, and controllers, and injecting dependencies correctly (repositories into services, services into controllers).\<newline>'' @
          ''\<newline>'' @
          ''5.  **Route Registration**: Ensure all your controller methods have corresponding routes registered in your `main.go` (in `cmd/web/`). For example:\<newline>'' @
          ''    ```go\<newline>'' @
          ''    e.POST("/products", productController.CreateProduct)\<newline>'' @
          ''    e.GET("/products/:id", productController.GetProductByID)\<newline>'' @
          ''    // ... and so on for all CRUD operations and models\<newline>'' @
          ''    ```\<newline>'' @
          ''\<newline>'' @
          ''\<newline>'' @
          ''Regarding your specific error: "'',
         ''"\<newline>'']\<close>
text \<open>
  The import-path hint has one opening square bracket, a character that none of the
  fixed texts has. \<open>fix_std_hint_head\<close> is the hint before it, \<open>fix_std_hint_tail\<close> the
  hint after it.
\<close>

definition fix_std_hint_head :: string where
  \<open>fix_std_hint_head =
    ''This error typically means Go cannot find your internal packages. Double-check your import paths to ensure they use your module name (e.g., `''\<close>

definition fix_std_hint_tail :: string where
  \<open>fix_std_hint_tail = ''appname]/internal/models`) and run `go mod tidy`.\<newline>''\<close>

section \<open>Properties of the library functions\<close>


lemma strings_Index_ge: "- 1 \<le> strings_Index s sub"
  by (induction s) (auto simp: Let_def)

text \<open>\<open>strings.Contains\<close> decides whether \<open>sub\<close> occurs in \<open>s\<close> as a contiguous block.\<close>

lemma strings_Contains_iff: "strings_Contains s sub \<longleftrightarrow> sublist sub s"
proof (induction s)
  case Nil
  then show ?case by (simp add: strings_Contains_def)
next
  case (Cons c s)
  show ?case
  proof (cases "prefix sub (c # s)")
    case True
    then show ?thesis by (auto simp: strings_Contains_def sublist_Cons_right)
  next
    case False
    then have "strings_Contains (c # s) sub \<longleftrightarrow> strings_Contains s sub"
      using strings_Index_ge [of s sub] by (auto simp: strings_Contains_def Let_def)
    then show ?thesis using Cons False by (simp add: sublist_Cons_right)
  qed
qed




text \<open>A text that ends differently from \<open>h\<close> does not have \<open>h\<close> as its end.\<close>

lemma not_suffix_last2:
  assumes "h = h' @ [c, d]" and "t = t' @ [a, b]" and "a \<noteq> c \<or> b \<noteq> d"
  shows "\<not> suffix h t"
proof
  assume "suffix h t"
  then obtain u where "t = u @ h" by (auto simp: suffix_def)
  then have "t' @ [a, b] = (u @ h') @ [c, d]" using assms(1,2) by simp
  then have "[a, b] = [c, d]" by simp
  then show False using assms(3) by simp
qed

lemma fix_std_hint_end: "\<exists>h'. fix_std_hint = h' @ [0x2E, 0x0A]"
proof -
  have "fix_std_hint = butlast (butlast fix_std_hint) @ [0x2E, 0x0A]"
    by (simp add: fix_std_hint_def S_def)
  then show ?thesis by blast
qed

lemma fix_pointers_end: "\<exists>t'. fix_pointers appName = t' @ [0x60, 0x0A]"
proof -
  have "S ''    ```\<newline>'' = S ''    ``'' @ [0x60, 0x0A]" by (simp add: S_def)
  then have "fix_pointers appName =
      (butlast (butlast (fix_pointers appName))) @ [0x60, 0x0A]"
    unfolding fix_pointers_def by (simp add: butlast_append)
  then show ?thesis by blast
qed

lemma fix_regarding_end: "\<exists>t'. fix_regarding errorMessage = t' @ [0x22, 0x0A]"
proof -
  have "S ''\"\<newline>'' = [0x22, 0x0A]" by (simp add: S_def)
  then have "fix_regarding errorMessage =
      (S ''\<newline>'' @ S ''\<newline>'' @ S ''Regarding your specific error: \"'' @ errorMessage) @ [0x22, 0x0A]"
    unfolding fix_regarding_def by simp
  then show ?thesis by blast
qed

section \<open>The branches of the model handler\<close>

lemma model_handler_no_app:
  assumes "GetString request (S ''app_name'') [] = []"
  shows "ProduceModelBoilerplateHandler L request = NewToolResultError (S ''App name is required'')"
  using assms by (simp add: ProduceModelBoilerplateHandler_def)

lemma model_handler_no_model:
  assumes "GetString request (S ''app_name'') [] \<noteq> []"
    and "RequireString request (S ''model_name'') = Inl err"
  shows "ProduceModelBoilerplateHandler L request =
     NewToolResultError (S ''Error getting 'model_name': '' @ arg_Error err)"
  using assms by (simp add: ProduceModelBoilerplateHandler_def)

lemma model_handler_bad_fields:
  assumes "GetString request (S ''app_name'') [] \<noteq> []"
    and "RequireString request (S ''model_name'') = Inr modelName"
    and "RequireString request (S ''fields'') = Inr fieldsJSON"
    and "json_Unmarshal fieldsJSON = Inl err"
  shows "ProduceModelBoilerplateHandler L request =
     NewToolResultError (S ''Invalid 'fields' JSON format: '' @ json_Error L err)"
  using assms by (simp add: ProduceModelBoilerplateHandler_def)

lemma model_handler_success:
  assumes "GetString request (S ''app_name'') [] = appName" and "appName \<noteq> []"
    and "RequireString request (S ''model_name'') = Inr modelName"
    and "RequireString request (S ''fields'') = Inr fieldsJSON"
    and "json_Unmarshal fieldsJSON = Inr fs"
  shows "ProduceModelBoilerplateHandler L request =
     NewToolResultText
       (model_response (strings_Title L modelName) (strings_ToLower L modelName)
          (model_content L modelName (range_fields L fs [])) appName)"
  using assms by (simp add: ProduceModelBoilerplateHandler_def Let_def)




text \<open>Requests are written as association lists when they are evaluated.\<close>

lemma arg_keys_distinct:
  "S ''app_name'' \<noteq> S ''model_name''" "S ''app_name'' \<noteq> S ''fields''"
  "S ''model_name'' \<noteq> S ''fields''" "S ''model_name'' \<noteq> S ''app_name''"
  "S ''fields'' \<noteq> S ''app_name''" "S ''fields'' \<noteq> S ''model_name''"
  "S ''error_message'' \<noteq> S ''app_name''" "S ''app_name'' \<noteq> S ''error_message''"
  by (simp_all add: S_def)

section \<open>Evaluation on sample requests\<close>


lemma sample_names:
  "strings_Title sample_lib (S ''user'') = S ''User''"
  "strings_ToLower sample_lib (S ''user'') = S ''user''"
  "S ''shop'' \<noteq> []"
  by (simp_all add: S_def strings_Title_def strings_ToLower_def sample_lib_def WriteMapped_def
      unicode_ToTitle_def isSeparator_def MaxASCII_def ValidRune_def)



section \<open>The handlers that need an application and a model name\<close>

lemma GetString_absent_or_empty:
  assumes "request key = None \<or> request key = Some (JString [])"
  shows "GetString request key [] = []"
  using assms by (auto simp: GetString_def)

lemma RequireString_absent:
  assumes "request key = None"
  shows "RequireString request key = Inl (ArgNotFound key)"
  using assms by (simp add: RequireString_def)

lemma model_name_not_found_text:
  "S ''Error getting 'model_name': '' @ arg_Error (ArgNotFound (S ''model_name''))
     = S ''Error getting 'model_name': required argument \"model_name\" not found''"
  by (simp add: S_def)

lemma guarded_handlers_no_app:
  assumes "GetString request (S ''app_name'') [] = []"
  shows "ProduceServiceBoilerplateHandler L request = NewToolResultError (S ''App name is required'')"
    and "ProduceApiControllerBoilerplateHandler L request =
         NewToolResultError (S ''App name is required'')"
    and "ProduceHtmlControllerBoilerplateHandler L request =
         NewToolResultError (S ''App name is required'')"
  using assms
  by (simp_all add: ProduceServiceBoilerplateHandler_def ProduceApiControllerBoilerplateHandler_def
      ProduceHtmlControllerBoilerplateHandler_def)

lemma guarded_handlers_no_model:
  assumes "GetString request (S ''app_name'') [] \<noteq> []"
    and "RequireString request (S ''model_name'') = Inl err"
  shows "ProduceServiceBoilerplateHandler L request =
         NewToolResultError (S ''Error getting 'model_name': '' @ arg_Error err)"
    and "ProduceApiControllerBoilerplateHandler L request =
         NewToolResultError (S ''Error getting 'model_name': '' @ arg_Error err)"
    and "ProduceHtmlControllerBoilerplateHandler L request =
         NewToolResultError (S ''Error getting 'model_name': '' @ arg_Error err)"
  using assms
  by (simp_all add: ProduceServiceBoilerplateHandler_def ProduceApiControllerBoilerplateHandler_def
      ProduceHtmlControllerBoilerplateHandler_def)

text \<open>A handler reads a request only through \<open>GetString\<close> and \<open>RequireString\<close>.\<close>

lemma GetString_agree:
  assumes "request key = request' key"
  shows "GetString request key d = GetString request' key d"
  using assms by (simp add: GetString_def)

lemma RequireString_agree:
  assumes "request key = request' key"
  shows "RequireString request key = RequireString request' key"
  using assms by (simp add: RequireString_def)

text \<open>What the four tools declare for \<open>app_name\<close>.\<close>

lemma app_name_declared_optional:
  "S ''app_name'' \<in> set (DeclaredParams (fst GetProduceModelBoilerplateTool)) \<and>
   S ''app_name'' \<notin> set (RequiredParams (fst GetProduceModelBoilerplateTool))"
  "S ''app_name'' \<in> set (DeclaredParams (fst GetProduceServiceBoilerplateTool)) \<and>
   S ''app_name'' \<notin> set (RequiredParams (fst GetProduceServiceBoilerplateTool))"
  "S ''app_name'' \<in> set (DeclaredParams (fst GetProduceApiControllerBoilerplateTool)) \<and>
   S ''app_name'' \<notin> set (RequiredParams (fst GetProduceApiControllerBoilerplateTool))"
  "S ''app_name'' \<in> set (DeclaredParams (fst GetProduceHtmlControllerBoilerplateTool)) \<and>
   S ''app_name'' \<notin> set (RequiredParams (fst GetProduceHtmlControllerBoilerplateTool))"
  by (simp_all add: GetProduceModelBoilerplateTool_def GetProduceServiceBoilerplateTool_def
      GetProduceApiControllerBoilerplateTool_def GetProduceHtmlControllerBoilerplateTool_def
      DeclaredParams_def RequiredParams_def NewTool_def WithString_def arg_keys_distinct)

lemma tool_handlers:
  "snd GetProduceModelBoilerplateTool = ProduceModelBoilerplateHandler"
  "snd GetProduceServiceBoilerplateTool = ProduceServiceBoilerplateHandler"
  "snd GetProduceApiControllerBoilerplateTool = ProduceApiControllerBoilerplateHandler"
  "snd GetProduceHtmlControllerBoilerplateTool = ProduceHtmlControllerBoilerplateHandler"
  by (simp_all add: GetProduceModelBoilerplateTool_def GetProduceServiceBoilerplateTool_def
      GetProduceApiControllerBoilerplateTool_def GetProduceHtmlControllerBoilerplateTool_def)

section \<open>Where a word can occur in a text with inserted parameters\<close>

text \<open>
  A word that contains a marker \<open>c\<close>, an element that no fixed text has, can occur in
  a text with inserted parameters only with \<open>c\<close> inside a parameter. If moreover no
  beginning of the word before \<open>c\<close> ends a fixed text and no end of the word after
  \<open>c\<close> begins one, the whole word lies inside that parameter.
\<close>

lemma weave_starts: "\<exists>R. weave s ps = s @ R"
  by (cases ps) auto

lemma marker_split:
  assumes "A @ c # B = xs @ ys"
  shows "(\<exists>us. A = xs @ us \<and> us @ c # B = ys) \<or> (\<exists>us. xs = A @ c # us \<and> B = us @ ys)"
proof -
  from assms obtain us where
    "(A = xs @ us \<and> us @ c # B = ys) \<or> (A @ us = xs \<and> c # B = us @ ys)"
    by (auto simp: append_eq_append_conv2)
  then show ?thesis
  proof
    assume "A = xs @ us \<and> us @ c # B = ys"
    then show ?thesis by blast
  next
    assume *: "A @ us = xs \<and> c # B = us @ ys"
    show ?thesis
    proof (cases us)
      case Nil
      with * have "A = xs @ [] \<and> [] @ c # B = ys" by simp
      then show ?thesis by blast
    next
      case (Cons u us')
      with * have "xs = A @ c # us' \<and> B = us' @ ys" by auto
      then show ?thesis by blast
    qed
  qed
qed

lemma marker_split_left:
  assumes "A @ c # B = xs @ ys" and "c \<notin> set xs"
  shows "\<exists>us. A = xs @ us \<and> us @ c # B = ys"
  using marker_split [OF assms(1)] assms(2) by auto

lemma marker_in_parameter:
  assumes "A @ c # B = weave s0 ps" and "c \<notin> set s0" and "\<forall>s \<in> set (map snd ps). c \<notin> set s"
  shows "\<exists>p a b sl sr L R. p \<in> set (map fst ps) \<and> sl \<in> set (s0 # map snd ps) \<and>
           sr \<in> set (map snd ps) \<and> p = a @ c # b \<and> A = L @ sl @ a \<and> B = b @ sr @ R"
  using assms
proof (induction ps arbitrary: s0 A)
  case Nil
  then have "c \<in> set s0" by (metis in_set_conv_decomp weave.simps(1))
  with Nil.prems(2) show ?case by simp
next
  case (Cons ps1 ps)
  obtain p s where ps1: "ps1 = (p, s)" by (cases ps1)
  from Cons.prems(1) have "A @ c # B = s0 @ (p @ weave s ps)" by (simp add: ps1)
  from marker_split_left [OF this Cons.prems(2)]
  obtain A' where A': "A = s0 @ A'" "A' @ c # B = p @ weave s ps" by blast
  have cs: "c \<notin> set s" using Cons.prems(3) by (simp add: ps1)
  have rest: "\<forall>s \<in> set (map snd ps). c \<notin> set s" using Cons.prems(3) by simp
  from marker_split [OF A'(2)] show ?case
  proof
    assume "\<exists>us. A' = p @ us \<and> us @ c # B = weave s ps"
    then obtain us where us: "A' = p @ us" "us @ c # B = weave s ps" by blast
    from Cons.IH [OF us(2) cs rest]
    obtain p' a b sl sr L R where *: "p' \<in> set (map fst ps)" "sl \<in> set (s # map snd ps)"
      "sr \<in> set (map snd ps)" "p' = a @ c # b" "us = L @ sl @ a" "B = b @ sr @ R" by blast
    have "p' \<in> set (map fst (ps1 # ps))" using *(1) by simp
    moreover have "sl \<in> set (s0 # map snd (ps1 # ps))" using *(2) by (simp add: ps1)
    moreover have "sr \<in> set (map snd (ps1 # ps))" using *(3) by simp
    moreover have "A = (s0 @ p @ L) @ sl @ a" using A'(1) us(1) *(5) by simp
    ultimately show ?case using *(4,6) by blast
  next
    assume "\<exists>us. p = A' @ c # us \<and> B = us @ weave s ps"
    then obtain us where us: "p = A' @ c # us" "B = us @ weave s ps" by blast
    obtain R where R: "weave s ps = s @ R" using weave_starts by blast
    have "p \<in> set (map fst (ps1 # ps))" by (simp add: ps1)
    moreover have "s0 \<in> set (s0 # map snd (ps1 # ps))" by simp
    moreover have "s \<in> set (map snd (ps1 # ps))" by (simp add: ps1)
    moreover have "A = [] @ s0 @ A'" using A'(1) by simp
    moreover have "B = us @ s @ R" using us(2) R by simp
    ultimately show ?case using us(1) by blast
  qed
qed

lemma no_overlap_prefix:
  assumes "no_overlap K w s" and "w @ v = b @ s @ R"
  shows "prefix w b"
proof (rule ccontr)
  assume n: "\<not> prefix w b"
  from assms(2) obtain us where
    "(w = b @ us \<and> us @ v = s @ R) \<or> (w @ us = b \<and> v = us @ s @ R)"
    by (auto simp: append_eq_append_conv2)
  with n obtain j where j: "w = b @ j" "j @ v = s @ R" by (auto simp: prefix_def)
  have jne: "j \<noteq> []" using n j(1) by auto
  define k where "k = min K (length s)"
  have nsub: "\<not> sublist (take K s) w"
    and short: "\<forall>n \<in> set [1..<k]. \<not> prefix (drop (length w - n) w) s"
    using assms(1) by (simp_all add: no_overlap_def k_def list_all_iff)
  have jd: "drop (length w - length j) w = j" using j(1) by simp
  show False
  proof (cases "length j < k")
    case True
    then have "length j \<le> length s" by (simp add: k_def)
    moreover have "prefix j (s @ R)" using j(2) by (metis prefixI)
    moreover have "prefix s (s @ R)" by simp
    ultimately have "prefix j s" by (metis prefix_length_prefix)
    moreover have "length j \<in> set [1..<k]" using True jne by (cases j) auto
    ultimately show False using short jd by metis
  next
    case False
    then have kj: "k \<le> length j" by simp
    have ks: "k \<le> length s" by (simp add: k_def)
    have "take K s = take k s" by (simp add: k_def min_def)
    also have "\<dots> = take k (s @ R)" using ks by simp
    also have "\<dots> = take k (j @ v)" using j(2) by simp
    also have "\<dots> = take k j" using kj by simp
    finally have "prefix (take K s) j" by (metis take_is_prefix)
    then have "sublist (take K s) j" by (rule prefix_imp_sublist)
    moreover have "sublist j w" unfolding j(1) by (rule sublist_append_leftI)
    ultimately have "sublist (take K s) w" by (rule sublist_order.order.trans)
    with nsub show False ..
  qed
qed

lemma no_overlap_suffix:
  assumes "no_overlap K (rev w) (rev s)" and "u @ w = L @ s @ a"
  shows "suffix w a"
proof -
  from assms(2) have "rev (u @ w) = rev (L @ s @ a)" by simp
  then have "rev w @ rev u = rev a @ rev s @ rev L" by simp
  from no_overlap_prefix [OF assms(1) this] show ?thesis
    by (simp add: suffix_to_prefix)
qed

lemma word_in_parameter:
  assumes "sublist (h1 @ c # h2) (weave s0 ps)"
    and "\<forall>s \<in> set (s0 # map snd ps).
           c \<notin> set s \<and> no_overlap K (rev h1) (rev s) \<and> no_overlap K h2 s"
  shows "\<exists>p \<in> set (map fst ps). sublist (h1 @ c # h2) p"
proof -
  from assms(1) obtain u v where "weave s0 ps = u @ (h1 @ c # h2) @ v"
    by (auto simp: sublist_def)
  then have occ: "(u @ h1) @ c # (h2 @ v) = weave s0 ps" by simp
  have c0: "c \<notin> set s0" and cs: "\<forall>s \<in> set (map snd ps). c \<notin> set s"
    using assms(2) by simp_all
  from marker_in_parameter [OF occ c0 cs]
  obtain p a b sl sr L R where *: "p \<in> set (map fst ps)" "sl \<in> set (s0 # map snd ps)"
    "sr \<in> set (map snd ps)" "p = a @ c # b" "u @ h1 = L @ sl @ a" "h2 @ v = b @ sr @ R"
    by blast
  have "no_overlap K (rev h1) (rev sl)" using assms(2) *(2) by blast
  from no_overlap_suffix [OF this *(5)] obtain a0 where a0: "a = a0 @ h1"
    by (auto simp: suffix_def)
  have "sr \<in> set (s0 # map snd ps)" using *(3) by simp
  with assms(2) have "no_overlap K h2 sr" by blast
  from no_overlap_prefix [OF this *(6)] obtain b0 where b0: "b = h2 @ b0"
    by (auto simp: prefix_def)
  have "p = a0 @ (h1 @ c # h2) @ b0" using *(4) a0 b0 by simp
  then have "sublist (h1 @ c # h2) p" by (metis sublist_appendI)
  with *(1) show ?thesis by blast
qed


section \<open>Where the import-path hint can occur in the answer of \<open>fix_app\<close>\<close>

text \<open>Strings are compared as characters: \<open>S\<close> maps different characters to different runes.\<close>

lemma prefix_S: "prefix (S xs) (S ys) \<longleftrightarrow> prefix xs ys"
proof (induction xs arbitrary: ys)
  case Nil
  show ?case by (simp add: S_def)
next
  case (Cons x xs)
  then show ?case by (cases ys) (auto simp: S_def)
qed

lemma sublist_S: "sublist (S xs) (S ys) \<longleftrightarrow> sublist xs ys"
proof
  assume "sublist (S xs) (S ys)"
  then obtain xs' where xs': "sublist xs' ys" "S xs = map of_char xs'"
    unfolding S_def by (metis sublist_map_rightE)
  have "inj (of_char :: char \<Rightarrow> nat)" by (rule inj_of_char)
  with xs'(2) have "xs = xs'" unfolding S_def by (metis inj_map_eq_map)
  with xs'(1) show "sublist xs ys" by simp
next
  assume "sublist xs ys"
  then show "sublist (S xs) (S ys)" unfolding S_def by (rule map_mono_sublist)
qed

lemma S_append: "S xs @ S ys = S (xs @ ys)" "S xs @ S ys @ r = S (xs @ ys) @ r"
  by (simp_all add: S_def)

lemma rev_S: "rev (S xs) = S (rev xs)"
  by (simp add: S_def rev_map)

lemma no_overlap_S: "no_overlap K (S w) (S s) \<longleftrightarrow> no_overlap K w s"
proof -
  have "take K (S s) = S (take K s)" by (simp add: S_def take_map)
  moreover have "drop (length (S w) - n) (S w) = S (drop (length w - n) w)" for n
    by (simp add: S_def drop_map)
  moreover have "S s \<noteq> [] \<longleftrightarrow> s \<noteq> []" "length (S s) = length s" by (simp_all add: S_def)
  ultimately show ?thesis
    by (simp add: no_overlap_def sublist_S prefix_S)
qed

lemma bracket_S: "91 \<in> set (S s) \<longleftrightarrow> CHR ''['' \<in> set s"
proof -
  have "(91 :: nat) = of_char CHR ''[''" by simp
  then show ?thesis unfolding S_def by (auto simp del: of_char_Char)
qed

lemma fix_std_hint_split: "fix_std_hint = S fix_std_hint_head @ 91 # S fix_std_hint_tail"
  by (simp add: fix_std_hint_def fix_std_hint_head_def fix_std_hint_tail_def S_def)

lemma hint_in_parameter:
  assumes "sublist fix_std_hint (weave (S t0) (zip ps (map S ts)))"
    and "length ps = length ts"
    and "\<forall>s \<in> set (t0 # ts). CHR ''['' \<notin> set s \<and>
           no_overlap 20 (rev fix_std_hint_head) (rev s) \<and> no_overlap 20 fix_std_hint_tail s"
  shows "\<exists>p \<in> set ps. sublist fix_std_hint p"
proof -
  let ?pairs = "zip ps (map S ts)"
  have statics: "map snd ?pairs = map S ts" and params: "map fst ?pairs = ps"
    using assms(2) by simp_all
  have "\<forall>s \<in> set (S t0 # map snd ?pairs). 91 \<notin> set s \<and>
          no_overlap 20 (rev (S fix_std_hint_head)) (rev s) \<and> no_overlap 20 (S fix_std_hint_tail) s"
    unfolding statics using assms(3) by (simp add: bracket_S rev_S no_overlap_S)
  moreover have "sublist (S fix_std_hint_head @ 91 # S fix_std_hint_tail) (weave (S t0) ?pairs)"
    using assms(1) by (simp only: fix_std_hint_split)
  ultimately have "\<exists>p \<in> set (map fst ?pairs).
      sublist (S fix_std_hint_head @ 91 # S fix_std_hint_tail) p"
    by (rule word_in_parameter [rotated])
  then show ?thesis
    unfolding params by (simp only: fix_std_hint_split)
qed

lemma fix_output_weave:
  "fix_intro @ q @ fix_pointers appName @ fix_regarding errorMessage =
     weave (S (hd fix_texts))
       (zip [q, appName, appName, appName, appName, appName, appName, appName, appName,
             errorMessage] (map S (tl fix_texts)))"
  by (simp add: fix_texts_def fix_intro_def fix_pointers_def fix_regarding_def S_append)

lemma fix_texts_no_overlap:
  "\<forall>s \<in> set (hd fix_texts # tl fix_texts). CHR ''['' \<notin> set s \<and>
     no_overlap 20 (rev fix_std_hint_head) (rev s) \<and> no_overlap 20 fix_std_hint_tail s"
  by (simp add: fix_texts_def fix_std_hint_head_def fix_std_hint_tail_def no_overlap_def
      sublist_code(3) rev_conv_fold)

lemma fix_for_application_weave:
  "fix_for_application appName =
     weave (S (''For application '' @ [CHR 0x27]))
       (zip [appName] (map S [[CHR 0x27] @ '':\<newline>'']))"
  by (simp add: fix_for_application_def S_def)

lemma fix_for_application_no_overlap:
  "\<forall>s \<in> set ((''For application '' @ [CHR 0x27]) # [[CHR 0x27] @ '':\<newline>'']).
     CHR ''['' \<notin> set s \<and>
     no_overlap 20 (rev fix_std_hint_head) (rev s) \<and> no_overlap 20 fix_std_hint_tail s"
  by (simp add: fix_std_hint_head_def fix_std_hint_tail_def no_overlap_def
      sublist_code(3) rev_conv_fold)

text \<open>
  The answer without the appended hint contains the hint only inside a parameter.
  \<open>q\<close> stands for what the handler writes for a non-empty application name before the
  checklist.
\<close>

lemma hint_in_echo:
  assumes "sublist fix_std_hint (fix_intro @ q @ fix_pointers appName @ fix_regarding errorMessage)"
  shows "sublist fix_std_hint q \<or> sublist fix_std_hint appName \<or>
         sublist fix_std_hint errorMessage"
proof -
  have "length [q, appName, appName, appName, appName, appName, appName, appName, appName,
      errorMessage] = length (tl fix_texts)"
    by (simp add: fix_texts_def)
  from hint_in_parameter [OF assms [unfolded fix_output_weave] this fix_texts_no_overlap]
  show ?thesis by auto
qed

lemma hint_in_for_application:
  assumes "sublist fix_std_hint (fix_for_application appName)"
  shows "sublist fix_std_hint appName"
proof -
  have "length [appName] = length [[CHR 0x27] @ '':\<newline>'']" by simp
  from hint_in_parameter [OF assms [unfolded fix_for_application_weave] this
      fix_for_application_no_overlap]
  show ?thesis by simp
qed

lemma fix_std_hint_not_Nil: "\<not> sublist fix_std_hint []"
  by (simp add: fix_std_hint_split)

lemma sublist_middle:
  assumes "sublist w x"
  shows "sublist w (l @ x @ r)"
  using assms sublist_appendI sublist_order.order.trans by blast

section \<open>The text of the answer of \<open>fix_app\<close>\<close>

text \<open>The text that \<open>FixAppHandler\<close> has written when it returns.\<close>

lemma FixAppHandler_text:
  "Text (FixAppHandler request) =
     fix_intro @
     (if GetString request (S ''app_name'') [] \<noteq> []
      then fix_for_application (GetString request (S ''app_name'') []) else []) @
     fix_pointers (GetString request (S ''app_name'') []) @
     (if GetString request (S ''error_message'') [] \<noteq> []
      then fix_regarding (GetString request (S ''error_message'') []) @
        (if strings_Contains (GetString request (S ''error_message'') []) (S ''is not in std'')
         then fix_std_hint else [])
      else [])"
  by (simp add: FixAppHandler_def Let_def NewToolResultText_def)

text \<open>
  The hint is the last thing the handler writes. Without it the answer ends with the
  closing fence of the checklist or with the quoted error message, and neither ends as
  the hint does.
\<close>

lemma fix_app_hint_appended_iff:
  "suffix fix_std_hint (Text (FixAppHandler request)) \<longleftrightarrow>
     sublist (S ''is not in std'') (GetString request (S ''error_message'') [])"
proof -
  define appName where "appName = GetString request (S ''app_name'') []"
  define errorMessage where "errorMessage = GetString request (S ''error_message'') []"
  define head where
    "head = (if appName \<noteq> [] then fix_intro @ fix_for_application appName else fix_intro)"
  obtain h' where h: "fix_std_hint = h' @ [0x2E, 0x0A]"
    using fix_std_hint_end by blast
  have sub: "S ''is not in std'' \<noteq> []" by (simp add: S_def)
  show ?thesis
  proof (cases "errorMessage = []")
    case True
    obtain t' where "fix_pointers appName = t' @ [0x60, 0x0A]"
      using fix_pointers_end by blast
    then have "Text (FixAppHandler request) = (head @ t') @ [0x60, 0x0A]"
      using True
      by (simp add: FixAppHandler_def NewToolResultText_def Let_def head_def
          appName_def [symmetric] errorMessage_def [symmetric])
    then have "\<not> suffix fix_std_hint (Text (FixAppHandler request))"
      using h by (intro not_suffix_last2 [where a = "0x60" and c = "0x2E"]) auto
    moreover have "\<not> sublist (S ''is not in std'') errorMessage"
      using True sub by simp
    ultimately show ?thesis by (simp add: errorMessage_def)
  next
    case False
    show ?thesis
    proof (cases "strings_Contains errorMessage (S ''is not in std'')")
      case True
      then have "Text (FixAppHandler request) =
          (head @ fix_pointers appName @ fix_regarding errorMessage) @ fix_std_hint"
        using False
        by (simp add: FixAppHandler_def NewToolResultText_def Let_def head_def
            appName_def [symmetric] errorMessage_def [symmetric])
      then have "suffix fix_std_hint (Text (FixAppHandler request))"
        by (metis suffixI)
      then show ?thesis
        using True by (simp add: strings_Contains_iff errorMessage_def)
    next
      case nc: False
      obtain t' where "fix_regarding errorMessage = t' @ [0x22, 0x0A]"
        using fix_regarding_end by blast
      then have "Text (FixAppHandler request) = (head @ fix_pointers appName @ t') @ [0x22, 0x0A]"
        using False nc
        by (simp add: FixAppHandler_def NewToolResultText_def Let_def head_def
            appName_def [symmetric] errorMessage_def [symmetric])
      then have "\<not> suffix fix_std_hint (Text (FixAppHandler request))"
        using h by (intro not_suffix_last2 [where a = "0x22" and c = "0x2E"]) auto
      then show ?thesis
        using nc by (simp add: strings_Contains_iff errorMessage_def)
    qed
  qed
qed

section \<open>What a handler reads of a request\<close>

text \<open>
  A handler reads its request only through \<open>GetString\<close> and \<open>RequireString\<close> at the
  keys its tool declares: two requests that agree there get the same result, text and
  error flag alike, whatever else they contain.
\<close>

lemma handlers_read_declared_parameters_only:
  "(request (S ''app_name'') = request' (S ''app_name'') \<and>
    request (S ''error_message'') = request' (S ''error_message'')
      \<longrightarrow> FixAppHandler request = FixAppHandler request') \<and>
   (request (S ''app_name'') = request' (S ''app_name'')
      \<longrightarrow> ProduceAppBoilerplateHandler request = ProduceAppBoilerplateHandler request') \<and>
   (request (S ''app_name'') = request' (S ''app_name'') \<and>
    request (S ''model_name'') = request' (S ''model_name'') \<and>
    request (S ''fields'') = request' (S ''fields'')
      \<longrightarrow> ProduceModelBoilerplateHandler L request = ProduceModelBoilerplateHandler L request') \<and>
   (request (S ''app_name'') = request' (S ''app_name'') \<and>
    request (S ''model_name'') = request' (S ''model_name'')
      \<longrightarrow> ProduceServiceBoilerplateHandler L request = ProduceServiceBoilerplateHandler L request' \<and>
          ProduceApiControllerBoilerplateHandler L request =
            ProduceApiControllerBoilerplateHandler L request' \<and>
          ProduceHtmlControllerBoilerplateHandler L request =
            ProduceHtmlControllerBoilerplateHandler L request')"
proof (intro conjI impI)
  assume a: "request (S ''app_name'') = request' (S ''app_name'') \<and>
    request (S ''error_message'') = request' (S ''error_message'')"
  note app = GetString_agree [where request = request and request' = request'
      and key = "S ''app_name''" and d = "[]", OF a [THEN conjunct1]]
  note msg = GetString_agree [where request = request and request' = request'
      and key = "S ''error_message''" and d = "[]", OF a [THEN conjunct2]]
  show "FixAppHandler request = FixAppHandler request'"
    unfolding FixAppHandler_def app msg by (rule refl)
next
  assume a: "request (S ''app_name'') = request' (S ''app_name'')"
  note app = RequireString_agree [where request = request and request' = request'
      and key = "S ''app_name''", OF a]
  show "ProduceAppBoilerplateHandler request = ProduceAppBoilerplateHandler request'"
    unfolding ProduceAppBoilerplateHandler_def app by (rule refl)
next
  assume a: "request (S ''app_name'') = request' (S ''app_name'') \<and>
    request (S ''model_name'') = request' (S ''model_name'') \<and>
    request (S ''fields'') = request' (S ''fields'')"
  note app = GetString_agree [where request = request and request' = request'
      and key = "S ''app_name''" and d = "[]", OF a [THEN conjunct1]]
  note model = RequireString_agree [where request = request and request' = request'
      and key = "S ''model_name''", OF a [THEN conjunct2, THEN conjunct1]]
  note fields = RequireString_agree [where request = request and request' = request'
      and key = "S ''fields''", OF a [THEN conjunct2, THEN conjunct2]]
  show "ProduceModelBoilerplateHandler L request = ProduceModelBoilerplateHandler L request'"
    unfolding ProduceModelBoilerplateHandler_def app model fields by (rule refl)
next
  assume a: "request (S ''app_name'') = request' (S ''app_name'') \<and>
    request (S ''model_name'') = request' (S ''model_name'')"
  note app = GetString_agree [where request = request and request' = request'
      and key = "S ''app_name''" and d = "[]", OF a [THEN conjunct1]]
  note model = RequireString_agree [where request = request and request' = request'
      and key = "S ''model_name''", OF a [THEN conjunct2]]
  show "ProduceServiceBoilerplateHandler L request = ProduceServiceBoilerplateHandler L request'"
    unfolding ProduceServiceBoilerplateHandler_def app model by (rule refl)
  show "ProduceApiControllerBoilerplateHandler L request =
      ProduceApiControllerBoilerplateHandler L request'"
    unfolding ProduceApiControllerBoilerplateHandler_def app model by (rule refl)
  show "ProduceHtmlControllerBoilerplateHandler L request =
      ProduceHtmlControllerBoilerplateHandler L request'"
    unfolding ProduceHtmlControllerBoilerplateHandler_def app model by (rule refl)
qed

text \<open>
  Two requests with the same four arguments, given in another order and one of them
  with a further argument.
\<close>

lemma handlers_read_declared_parameters_only_example:
  "FixAppHandler
     (map_of [(S ''app_name'', JString (S ''shop'')), (S ''model_name'', JString (S ''user'')),
        (S ''fields'', JString (S ''[]'')), (S ''error_message'', JString (S ''is not in std''))])
   = FixAppHandler
     (map_of [(S ''trace'', JNumber (S ''1'')), (S ''error_message'', JString (S ''is not in std'')),
        (S ''fields'', JString (S ''[]'')), (S ''model_name'', JString (S ''user'')),
        (S ''app_name'', JString (S ''shop''))]) \<and>
   ProduceModelBoilerplateHandler sample_lib
     (map_of [(S ''app_name'', JString (S ''shop'')), (S ''model_name'', JString (S ''user'')),
        (S ''fields'', JString (S ''[]'')), (S ''error_message'', JString (S ''is not in std''))])
   = ProduceModelBoilerplateHandler sample_lib
     (map_of [(S ''trace'', JNumber (S ''1'')), (S ''error_message'', JString (S ''is not in std'')),
        (S ''fields'', JString (S ''[]'')), (S ''model_name'', JString (S ''user'')),
        (S ''app_name'', JString (S ''shop''))])"
proof -
  let ?r1 = "map_of [(S ''app_name'', JString (S ''shop'')), (S ''model_name'', JString (S ''user'')),
        (S ''fields'', JString (S ''[]'')), (S ''error_message'', JString (S ''is not in std''))]"
  let ?r2 = "map_of [(S ''trace'', JNumber (S ''1'')), (S ''error_message'', JString (S ''is not in std'')),
        (S ''fields'', JString (S ''[]'')), (S ''model_name'', JString (S ''user'')),
        (S ''app_name'', JString (S ''shop''))]"
  have app: "?r1 (S ''app_name'') = ?r2 (S ''app_name'')"
    by (simp add: S_def)
  have model: "?r1 (S ''model_name'') = ?r2 (S ''model_name'')"
    by (simp add: S_def)
  have fields: "?r1 (S ''fields'') = ?r2 (S ''fields'')"
    by (simp add: S_def)
  have msg: "?r1 (S ''error_message'') = ?r2 (S ''error_message'')"
    by (simp add: S_def)
  note th = handlers_read_declared_parameters_only [where request = "?r1" and request' = "?r2"
      and L = sample_lib]
  have fix_app: "FixAppHandler ?r1 = FixAppHandler ?r2"
    using app msg by (intro th [THEN conjunct1, THEN mp] conjI)
  have produce: "ProduceModelBoilerplateHandler sample_lib ?r1 =
      ProduceModelBoilerplateHandler sample_lib ?r2"
    using app model fields
    by (intro th [THEN conjunct2, THEN conjunct2, THEN conjunct1, THEN mp] conjI)
  show ?thesis
    using fix_app produce by (intro conjI)
qed

section \<open>The claims\<close>







text \<open>
  C4, as stated, fails: with \<open>app_name\<close>, \<open>model_name\<close> and \<open>fields\<close> all present as
  strings, the handler still returns an error result when \<open>app_name\<close> is the empty
  string, although the \<open>fields\<close> argument \<open>[]\<close> decodes.
\<close>

theorem model_handler_empty_app_name_counterexample:
  "map_of [(S ''app_name'', JString []), (S ''model_name'', JString (S ''user'')),
      (S ''fields'', JString (S ''[]''))] (S ''app_name'') = Some (JString []) \<and>
   map_of [(S ''app_name'', JString []), (S ''model_name'', JString (S ''user'')),
      (S ''fields'', JString (S ''[]''))] (S ''model_name'') = Some (JString (S ''user'')) \<and>
   map_of [(S ''app_name'', JString []), (S ''model_name'', JString (S ''user'')),
      (S ''fields'', JString (S ''[]''))] (S ''fields'') = Some (JString (S ''[]'')) \<and>
   json_Unmarshal (S ''[]'') = Inr [] \<and>
   ProduceModelBoilerplateHandler sample_lib
     (map_of [(S ''app_name'', JString []), (S ''model_name'', JString (S ''user'')),
        (S ''fields'', JString (S ''[]''))])
     = NewToolResultError (S ''App name is required'') \<and>
   \<not> (IsError (ProduceModelBoilerplateHandler sample_lib
          (map_of [(S ''app_name'', JString []), (S ''model_name'', JString (S ''user'')),
             (S ''fields'', JString (S ''[]''))]))
        \<longleftrightarrow> isl (json_Unmarshal (S ''[]'')))"
proof -
  let ?request = "map_of [(S ''app_name'', JString []), (S ''model_name'', JString (S ''user'')),
      (S ''fields'', JString (S ''[]''))]"
  have a1: "?request (S ''app_name'') = Some (JString [])"
    by simp
  have a2: "?request (S ''model_name'') = Some (JString (S ''user''))"
    by (simp add: arg_keys_distinct)
  have a3: "?request (S ''fields'') = Some (JString (S ''[]''))"
    by (simp add: arg_keys_distinct)
  have dec: "json_Unmarshal (S ''[]'') = Inr []" by code_simp
  have res: "ProduceModelBoilerplateHandler sample_lib ?request
     = NewToolResultError (S ''App name is required'')"
    using a1 by (intro model_handler_no_app GetString_absent_or_empty) simp
  have neg: "\<not> (IsError (ProduceModelBoilerplateHandler sample_lib ?request)
        \<longleftrightarrow> isl (json_Unmarshal (S ''[]'')))"
    unfolding res dec by (simp add: NewToolResultError_def)
  show ?thesis
    using a1 a2 a3 dec res neg by (intro conjI)
qed

text \<open>
  C4, amended. When \<open>app_name\<close> is a non-empty string and \<open>model_name\<close> and \<open>fields\<close> are
  strings, the handler returns an error result exactly if \<open>json.Unmarshal\<close> of the
  \<open>fields\<close> string into \<open>[]map[string]string\<close> fails; the error result is the text
  \<open>Invalid 'fields' JSON format:\<close> followed by the decoder's message. When the string
  decodes, whatever the descriptors contain, the result is the text result with the
  scaffold. The handler is a total function: it returns a result for every request.
\<close>

theorem model_handler_error_iff:
  assumes "request (S ''app_name'') = Some (JString appName)" and "appName \<noteq> []"
    and "request (S ''model_name'') = Some (JString modelName)"
    and "request (S ''fields'') = Some (JString fieldsJSON)"
  shows "(IsError (ProduceModelBoilerplateHandler L request) \<longleftrightarrow> isl (json_Unmarshal fieldsJSON)) \<and>
    (\<forall>err. json_Unmarshal fieldsJSON = Inl err \<longrightarrow>
       ProduceModelBoilerplateHandler L request =
         NewToolResultError (S ''Invalid 'fields' JSON format: '' @ json_Error L err)) \<and>
    (\<forall>fs. json_Unmarshal fieldsJSON = Inr fs \<longrightarrow>
       ProduceModelBoilerplateHandler L request =
         NewToolResultText
           (model_response (strings_Title L modelName) (strings_ToLower L modelName)
              (model_content L modelName (range_fields L fs [])) appName))"
proof -
  have app: "GetString request (S ''app_name'') [] = appName"
    using assms(1) by (simp add: GetString_def)
  have model: "RequireString request (S ''model_name'') = Inr modelName"
    using assms(3) by (simp add: RequireString_def)
  have fields: "RequireString request (S ''fields'') = Inr fieldsJSON"
    using assms(4) by (simp add: RequireString_def)
  have bad: "ProduceModelBoilerplateHandler L request =
         NewToolResultError (S ''Invalid 'fields' JSON format: '' @ json_Error L err)"
    if "json_Unmarshal fieldsJSON = Inl err" for err
    using model_handler_bad_fields [OF _ model fields that] app assms(2) by simp
  have good: "ProduceModelBoilerplateHandler L request =
         NewToolResultText
           (model_response (strings_Title L modelName) (strings_ToLower L modelName)
              (model_content L modelName (range_fields L fs [])) appName)"
    if "json_Unmarshal fieldsJSON = Inr fs" for fs
    using model_handler_success [OF app assms(2) model fields that] .
  have "IsError (ProduceModelBoilerplateHandler L request) \<longleftrightarrow> isl (json_Unmarshal fieldsJSON)"
  proof (cases "json_Unmarshal fieldsJSON")
    case (Inl err)
    then show ?thesis using bad [OF Inl] by (simp add: NewToolResultError_def)
  next
    case (Inr fs)
    then show ?thesis using good [OF Inr] by (simp add: NewToolResultText_def)
  qed
  then show ?thesis using bad good by (intro conjI allI impI)
qed

text \<open>
  \<open>not json\<close> is refused with an error result; a descriptor with an empty name and an
  empty type is accepted.
\<close>

theorem model_handler_error_iff_witness:
  "ProduceModelBoilerplateHandler sample_lib
     (map_of [(S ''app_name'', JString (S ''shop'')), (S ''model_name'', JString (S ''user'')),
        (S ''fields'', JString (S ''not json''))])
     = NewToolResultError (S ''Invalid 'fields' JSON format: '' @ S ''syntax error'') \<and>
   IsError (ProduceModelBoilerplateHandler sample_lib
     (map_of [(S ''app_name'', JString (S ''shop'')), (S ''model_name'', JString (S ''user'')),
        (S ''fields'', JString (S ''[{\"name\":\"\",\"type\":\"\"}]''))])) = False"
proof -
  have bad: "json_Unmarshal (S ''not json'') = Inl SyntaxError" by code_simp
  have good: "json_Unmarshal (S ''[{\"name\":\"\",\"type\":\"\"}]'')
      = Inr [[(S ''name'', []), (S ''type'', [])]]" by code_simp
  have args:
    "map_of [(S ''app_name'', JString a), (S ''model_name'', JString m), (S ''fields'', JString f)]
       (S ''app_name'') = Some (JString a)"
    "map_of [(S ''app_name'', JString a), (S ''model_name'', JString m), (S ''fields'', JString f)]
       (S ''model_name'') = Some (JString m)"
    "map_of [(S ''app_name'', JString a), (S ''model_name'', JString m), (S ''fields'', JString f)]
       (S ''fields'') = Some (JString f)" for a m f
    by (simp_all add: arg_keys_distinct)
  note a1 = args [of "S ''shop''" "S ''user''" "S ''not json''"]
  note a2 = args [of "S ''shop''" "S ''user''" "S ''[{\"name\":\"\",\"type\":\"\"}]''"]
  note t1 = model_handler_error_iff [OF a1(1) sample_names(3) a1(2) a1(3), where L = sample_lib]
  note t2 = model_handler_error_iff [OF a2(1) sample_names(3) a2(2) a2(3), where L = sample_lib]
  have msg: "json_Error sample_lib SyntaxError = S ''syntax error''"
    by (simp add: sample_lib_def)
  have "ProduceModelBoilerplateHandler sample_lib
     (map_of [(S ''app_name'', JString (S ''shop'')), (S ''model_name'', JString (S ''user'')),
        (S ''fields'', JString (S ''not json''))])
     = NewToolResultError (S ''Invalid 'fields' JSON format: '' @ S ''syntax error'')"
    using t1 [THEN conjunct2, THEN conjunct1, rule_format, OF bad] by (simp only: msg)
  moreover have "IsError (ProduceModelBoilerplateHandler sample_lib
     (map_of [(S ''app_name'', JString (S ''shop'')), (S ''model_name'', JString (S ''user'')),
        (S ''fields'', JString (S ''[{\"name\":\"\",\"type\":\"\"}]''))])) = False"
    using t2 [THEN conjunct1] by (simp only: good) simp
  ultimately show ?thesis by (intro conjI)
qed

text \<open>
  C5, as stated, fails: a request that omits \<open>model_name\<close> and \<open>app_name\<close> is answered
  with \<open>App name is required\<close>, a text that does not name the parameter \<open>model_name\<close>.
\<close>

theorem missing_model_name_counterexample:
  "map_of [(S ''fields'', JString (S ''[]''))] (S ''model_name'') = None \<and>
   ProduceModelBoilerplateHandler sample_lib (map_of [(S ''fields'', JString (S ''[]''))])
     = NewToolResultError (S ''App name is required'') \<and>
   ProduceApiControllerBoilerplateHandler sample_lib (map_of [(S ''fields'', JString (S ''[]''))])
     = NewToolResultError (S ''App name is required'') \<and>
   \<not> sublist (S ''model_name'')
       (Text (ProduceModelBoilerplateHandler sample_lib (map_of [(S ''fields'', JString (S ''[]''))])))"
proof -
  let ?request = "map_of [(S ''fields'', JString (S ''[]''))]"
  have m: "?request (S ''model_name'') = None"
    by (simp add: arg_keys_distinct)
  have a: "GetString ?request (S ''app_name'') [] = []"
    by (simp add: GetString_def arg_keys_distinct)
  have r1: "ProduceModelBoilerplateHandler sample_lib ?request
      = NewToolResultError (S ''App name is required'')"
    using a by (rule model_handler_no_app)
  have r2: "ProduceApiControllerBoilerplateHandler sample_lib ?request
      = NewToolResultError (S ''App name is required'')"
    using a by (rule guarded_handlers_no_app)
  have "\<not> strings_Contains (S ''App name is required'') (S ''model_name'')"
    by code_simp
  then have n: "\<not> sublist (S ''model_name'') (Text (ProduceModelBoilerplateHandler sample_lib ?request))"
    unfolding r1 by (simp add: strings_Contains_iff NewToolResultError_def)
  show ?thesis
    using m r1 r2 n by (intro conjI)
qed

text \<open>
  C5, amended. A request that omits \<open>model_name\<close> is answered with an error result by
  each of the four handlers that need the model name. When \<open>app_name\<close> is a non-empty
  string the text is \<open>Error getting 'model_name': required argument "model_name" not found\<close>,
  which names the missing parameter; otherwise it is \<open>App name is required\<close>.
\<close>

theorem missing_model_name_error:
  assumes "request (S ''model_name'') = None"
  shows "(\<forall>handler \<in> {ProduceModelBoilerplateHandler, ProduceServiceBoilerplateHandler,
            ProduceApiControllerBoilerplateHandler, ProduceHtmlControllerBoilerplateHandler}.
          handler L request =
            NewToolResultError
              (if GetString request (S ''app_name'') [] = [] then S ''App name is required''
               else S ''Error getting 'model_name': required argument \"model_name\" not found''))"
proof (cases "GetString request (S ''app_name'') [] = []")
  case True
  note model = model_handler_no_app [where L = L, OF True]
  note others = guarded_handlers_no_app [where L = L, OF True]
  show ?thesis
    using True model others by simp
next
  case False
  note nf = RequireString_absent [where request = request and key = "S ''model_name''", OF assms]
  note model = model_handler_no_model [where L = L, OF False nf, unfolded model_name_not_found_text]
  note others = guarded_handlers_no_model [where L = L, OF False nf, unfolded model_name_not_found_text]
  show ?thesis
    using False model others by simp
qed

text \<open>With the application name \<open>shop\<close> and nothing else the text names \<open>model_name\<close>.\<close>

theorem missing_model_name_error_witness:
  "ProduceModelBoilerplateHandler sample_lib (map_of [(S ''app_name'', JString (S ''shop''))])
     = NewToolResultError (S ''Error getting 'model_name': required argument \"model_name\" not found'') \<and>
   ProduceHtmlControllerBoilerplateHandler sample_lib (map_of [(S ''app_name'', JString (S ''shop''))])
     = NewToolResultError (S ''Error getting 'model_name': required argument \"model_name\" not found'')"
proof -
  let ?request = "map_of [(S ''app_name'', JString (S ''shop''))]"
  let ?handlers = "{ProduceModelBoilerplateHandler, ProduceServiceBoilerplateHandler,
            ProduceApiControllerBoilerplateHandler, ProduceHtmlControllerBoilerplateHandler}"
  have m: "?request (S ''model_name'') = None"
    by (simp add: arg_keys_distinct)
  have a: "GetString ?request (S ''app_name'') [] = S ''shop''"
    by (simp add: GetString_def)
  have ne: "(S ''shop'' = []) = False"
    using sample_names(3) by simp
  have mem: "ProduceModelBoilerplateHandler \<in> ?handlers" "ProduceHtmlControllerBoilerplateHandler \<in> ?handlers"
    by simp_all
  note th = missing_model_name_error [where request = "?request" and L = sample_lib, OF m, THEN bspec]
  have "ProduceModelBoilerplateHandler sample_lib ?request
     = NewToolResultError (S ''Error getting 'model_name': required argument \"model_name\" not found'')"
    using th [OF mem(1)] by (simp only: a ne if_False)
  moreover have "ProduceHtmlControllerBoilerplateHandler sample_lib ?request
     = NewToolResultError (S ''Error getting 'model_name': required argument \"model_name\" not found'')"
    using th [OF mem(2)] by (simp only: a ne if_False)
  ultimately show ?thesis by (intro conjI)
qed

text \<open>
  C6, as stated, fails. The handler writes the error message into its answer, so a
  message that is itself the text of the hint brings the hint into the output although
  it does not contain \<open>is not in std\<close>.
\<close>

theorem fix_app_hint_echoed_counterexample:
  "sublist fix_std_hint
     (Text (FixAppHandler (map_of [(S ''error_message'', JString fix_std_hint)]))) \<and>
   \<not> sublist (S ''is not in std'')
     (GetString (map_of [(S ''error_message'', JString fix_std_hint)]) (S ''error_message'') [])"
proof -
  let ?request = "map_of [(S ''error_message'', JString fix_std_hint)]"
  have e: "GetString ?request (S ''error_message'') [] = fix_std_hint"
    by (simp add: GetString_def)
  have a: "GetString ?request (S ''app_name'') [] = []"
    by (simp add: GetString_def arg_keys_distinct)
  have ne: "fix_std_hint \<noteq> []"
    by (simp add: fix_std_hint_split)
  have "\<not> sublist ''is not in std'' (fix_std_hint_head @ CHR ''['' # fix_std_hint_tail)"
    by (simp add: fix_std_hint_head_def fix_std_hint_tail_def sublist_code(3))
  then have "\<not> sublist (S ''is not in std'') (S (fix_std_hint_head @ CHR ''['' # fix_std_hint_tail))"
    unfolding sublist_S .
  moreover have "S (fix_std_hint_head @ CHR ''['' # fix_std_hint_tail) = fix_std_hint"
    by (simp add: fix_std_hint_split S_def)
  ultimately have no: "\<not> sublist (S ''is not in std'') fix_std_hint"
    by simp
  then have nc: "\<not> strings_Contains fix_std_hint (S ''is not in std'')"
    by (simp add: strings_Contains_iff)
  have "Text (FixAppHandler ?request) = (fix_intro @ fix_pointers []) @ fix_regarding fix_std_hint"
    unfolding FixAppHandler_text e a using ne nc by simp
  moreover have "fix_regarding fix_std_hint =
      (S ''\<newline>'' @ S ''\<newline>'' @ S ''Regarding your specific error: \"'') @
      fix_std_hint @ S ''\"\<newline>''"
    by (simp add: fix_regarding_def)
  then have "sublist fix_std_hint (fix_regarding fix_std_hint)"
    by (simp only: sublist_appendI)
  ultimately have yes: "sublist fix_std_hint (Text (FixAppHandler ?request))"
    using sublist_middle [of fix_std_hint "fix_regarding fix_std_hint" "fix_intro @ fix_pointers []" "[]"]
    by simp
  show ?thesis
    using yes no unfolding e by (intro conjI)
qed

text \<open>
  C6, amended. The output of \<open>fix_app\<close> contains the import-path hint exactly if the
  error message contains \<open>is not in std\<close> or one of the two parameters, which the handler
  writes into its answer, itself contains the text of the hint. The output ends with the
  hint, that is, the handler has appended it, exactly if the error message contains
  \<open>is not in std\<close>. An absent, non-string or empty \<open>error_message\<close> is the empty string,
  which contains neither.
\<close>

theorem fix_app_hint_iff:
  "(sublist fix_std_hint (Text (FixAppHandler request)) \<longleftrightarrow>
      sublist (S ''is not in std'') (GetString request (S ''error_message'') []) \<or>
      sublist fix_std_hint (GetString request (S ''app_name'') []) \<or>
      sublist fix_std_hint (GetString request (S ''error_message'') [])) \<and>
   (suffix fix_std_hint (Text (FixAppHandler request)) \<longleftrightarrow>
      sublist (S ''is not in std'') (GetString request (S ''error_message'') []))"
proof (intro conjI)
  define appName where "appName = GetString request (S ''app_name'') []"
  define errorMessage where "errorMessage = GetString request (S ''error_message'') []"
  define q where "q = (if appName \<noteq> [] then fix_for_application appName else [])"
  define hint where
    "hint = (if strings_Contains errorMessage (S ''is not in std'') then fix_std_hint else [])"
  define r where "r = (if errorMessage \<noteq> [] then fix_regarding errorMessage @ hint else [])"
  have out: "Text (FixAppHandler request) = fix_intro @ q @ fix_pointers appName @ r"
    unfolding FixAppHandler_text q_def r_def hint_def appName_def errorMessage_def by (rule refl)
  have in_q: "sublist fix_std_hint appName" if "sublist fix_std_hint q"
  proof (cases "appName = []")
    case True
    with that show ?thesis by (simp add: q_def)
  next
    case False
    with that have "sublist fix_std_hint (fix_for_application appName)" by (simp add: q_def)
    then show ?thesis by (rule hint_in_for_application)
  qed
  have "sublist fix_std_hint (fix_intro @ q @ fix_pointers appName @ r) \<longleftrightarrow>
      sublist (S ''is not in std'') errorMessage \<or> sublist fix_std_hint appName \<or>
      sublist fix_std_hint errorMessage"
  proof
    assume occ: "sublist fix_std_hint (fix_intro @ q @ fix_pointers appName @ r)"
    show "sublist (S ''is not in std'') errorMessage \<or> sublist fix_std_hint appName \<or>
      sublist fix_std_hint errorMessage"
    proof (cases "strings_Contains errorMessage (S ''is not in std'')")
      case True
      then show ?thesis by (simp add: strings_Contains_iff)
    next
      case False
      then have h: "hint = []" by (simp add: hint_def)
      have "sublist fix_std_hint
          (fix_intro @ q @ fix_pointers appName @ fix_regarding errorMessage)"
      proof (cases "errorMessage = []")
        case True
        then have "r = []" by (simp add: r_def)
        with occ have "sublist fix_std_hint (fix_intro @ q @ fix_pointers appName)" by simp
        from sublist_middle [OF this, of "[]" "fix_regarding errorMessage"]
        show ?thesis by simp
      next
        case False
        then have "r = fix_regarding errorMessage" by (simp add: r_def h)
        with occ show ?thesis by simp
      qed
      from hint_in_echo [OF this] in_q show ?thesis by blast
    qed
  next
    assume "sublist (S ''is not in std'') errorMessage \<or> sublist fix_std_hint appName \<or>
      sublist fix_std_hint errorMessage"
    then consider (contains) "sublist (S ''is not in std'') errorMessage"
      | (name) "sublist fix_std_hint appName" | (message) "sublist fix_std_hint errorMessage"
      by blast
    then show "sublist fix_std_hint (fix_intro @ q @ fix_pointers appName @ r)"
    proof cases
      case contains
      then have c: "strings_Contains errorMessage (S ''is not in std'')"
        by (simp add: strings_Contains_iff)
      have "S ''is not in std'' \<noteq> []" by (simp add: S_def)
      with contains have "errorMessage \<noteq> []" by auto
      with c have "r = fix_regarding errorMessage @ fix_std_hint" by (simp add: r_def hint_def)
      then have "fix_intro @ q @ fix_pointers appName @ r =
          (fix_intro @ q @ fix_pointers appName @ fix_regarding errorMessage) @ fix_std_hint"
        by simp
      then show ?thesis by (simp only: sublist_append_leftI)
    next
      case name
      then have "appName \<noteq> []" using fix_std_hint_not_Nil by auto
      then have "q = (S ''For application '' @ [39]) @ appName @ ([39] @ S '':\<newline>'')"
        by (simp add: q_def fix_for_application_def)
      with name have "sublist fix_std_hint q" by (simp only: sublist_middle)
      from sublist_middle [OF this, of fix_intro "fix_pointers appName @ r"]
      show ?thesis .
    next
      case message
      then have "errorMessage \<noteq> []" using fix_std_hint_not_Nil by auto
      then have "r = (S ''\<newline>'' @ S ''\<newline>'' @ S ''Regarding your specific error: \"'') @
          errorMessage @ (S ''\"\<newline>'' @ hint)"
        by (simp add: r_def fix_regarding_def)
      with message have "sublist fix_std_hint r" by (simp only: sublist_middle)
      from sublist_middle [OF this, of "fix_intro @ q @ fix_pointers appName" "[]"]
      show ?thesis by simp
    qed
  qed
  then show "sublist fix_std_hint (Text (FixAppHandler request)) \<longleftrightarrow>
      sublist (S ''is not in std'') (GetString request (S ''error_message'') []) \<or>
      sublist fix_std_hint (GetString request (S ''app_name'') []) \<or>
      sublist fix_std_hint (GetString request (S ''error_message'') [])"
    unfolding out appName_def errorMessage_def .
next
  show "suffix fix_std_hint (Text (FixAppHandler request)) \<longleftrightarrow>
      sublist (S ''is not in std'') (GetString request (S ''error_message'') [])"
    by (rule fix_app_hint_appended_iff)
qed

text \<open>
  With the message of the Go tool chain the hint is in the output, at its end; with
  another message it is nowhere in the output.
\<close>

theorem fix_app_hint_iff_witness:
  "sublist fix_std_hint
     (Text (FixAppHandler (map_of
        [(S ''app_name'', JString (S ''shop'')),
         (S ''error_message'', JString (S ''package shop/internal/models is not in std''))]))) \<and>
   suffix fix_std_hint
     (Text (FixAppHandler (map_of
        [(S ''app_name'', JString (S ''shop'')),
         (S ''error_message'', JString (S ''package shop/internal/models is not in std''))]))) \<and>
   \<not> sublist fix_std_hint
     (Text (FixAppHandler (map_of
        [(S ''app_name'', JString (S ''shop'')),
         (S ''error_message'', JString (S ''undefined: models''))])))"
proof -
  let ?yes = "map_of [(S ''app_name'', JString (S ''shop'')),
         (S ''error_message'', JString (S ''package shop/internal/models is not in std''))]"
  let ?no = "map_of [(S ''app_name'', JString (S ''shop'')),
         (S ''error_message'', JString (S ''undefined: models''))]"
  have key: "S ''error_message'' \<noteq> S ''app_name''" by (simp add: S_def)
  have args: "GetString ?yes (S ''app_name'') [] = S ''shop''"
    "GetString ?yes (S ''error_message'') [] = S ''package shop/internal/models is not in std''"
    "GetString ?no (S ''app_name'') [] = S ''shop''"
    "GetString ?no (S ''error_message'') [] = S ''undefined: models''"
    using key by (simp_all add: GetString_def)
  have hint: "fix_std_hint = S (fix_std_hint_head @ CHR ''['' # fix_std_hint_tail)"
    by (simp add: fix_std_hint_split S_def)
  have yes: "sublist (S ''is not in std'') (S ''package shop/internal/models is not in std'')"
    unfolding sublist_S by (simp add: sublist_code(3))
  have no: "\<not> sublist (S ''is not in std'') (S ''undefined: models'')"
    "\<not> sublist fix_std_hint (S ''shop'')"
    "\<not> sublist fix_std_hint (S ''undefined: models'')"
    unfolding hint sublist_S
    by (simp_all add: fix_std_hint_head_def fix_std_hint_tail_def sublist_code(3))
  note th_yes = fix_app_hint_iff [of ?yes, unfolded args]
  note th_no = fix_app_hint_iff [of ?no, unfolded args]
  have "sublist fix_std_hint (Text (FixAppHandler ?yes))"
    using th_yes [THEN conjunct1] yes by blast
  moreover have "suffix fix_std_hint (Text (FixAppHandler ?yes))"
    using th_yes [THEN conjunct2] yes by blast
  moreover have "\<not> sublist fix_std_hint (Text (FixAppHandler ?no))"
    using th_no [THEN conjunct1] no by blast
  ultimately show ?thesis by (intro conjI)
qed

text \<open>
  C7 has no theorem. It says that every handler is a pure function of its parameters
  and has no side effects. Here a handler is a function from the request to its result,
  as every definition of this theory is a function: that equal requests get equal results
  holds of any such definition, and a side effect (output, a write to a package
  variable, a read of the clock) has no counterpart in the embedding that a theorem
  could exclude. What can be stated is less than the claim and is shown above as
  \<open>handlers_read_declared_parameters_only\<close>: the result depends on the request only
  through the parameters the tool declares.
\<close>




text \<open>
  C9. The tools \<open>produce_model_boilerplate\<close>, \<open>produce_service_boilerplate\<close>,
  \<open>produce_api_controller_boilerplate\<close> and \<open>produce_html_controller_boilerplate\<close> declare
  \<open>app_name\<close> without marking it required, and their handlers answer every request in
  which \<open>app_name\<close> is absent or the empty string with the error result
  \<open>App name is required\<close>. (\<open>produce_app_boilerplate\<close> marks \<open>app_name\<close> as required.)
\<close>

theorem app_name_effectively_required:
  assumes "request (S ''app_name'') = None \<or> request (S ''app_name'') = Some (JString [])"
  shows "(\<forall>(tool, handler) \<in> {GetProduceModelBoilerplateTool, GetProduceServiceBoilerplateTool,
             GetProduceApiControllerBoilerplateTool, GetProduceHtmlControllerBoilerplateTool}.
           S ''app_name'' \<in> set (DeclaredParams tool) \<and>
           S ''app_name'' \<notin> set (RequiredParams tool) \<and>
           handler L request = NewToolResultError (S ''App name is required'')) \<and>
         S ''app_name'' \<in> set (RequiredParams (fst GetProduceAppBoilerplateTool))"
proof (intro conjI ballI)
  note no_app = GetString_absent_or_empty [where request = request and key = "S ''app_name''",
      OF assms]
  note model = model_handler_no_app [where L = L, OF no_app]
  note others = guarded_handlers_no_app [where L = L, OF no_app]
  fix t
  assume "t \<in> {GetProduceModelBoilerplateTool, GetProduceServiceBoilerplateTool,
             GetProduceApiControllerBoilerplateTool, GetProduceHtmlControllerBoilerplateTool}"
  then consider "t = GetProduceModelBoilerplateTool" | "t = GetProduceServiceBoilerplateTool"
    | "t = GetProduceApiControllerBoilerplateTool" | "t = GetProduceHtmlControllerBoilerplateTool"
    by blast
  then show "case t of (tool, handler) \<Rightarrow>
           S ''app_name'' \<in> set (DeclaredParams tool) \<and>
           S ''app_name'' \<notin> set (RequiredParams tool) \<and>
           handler L request = NewToolResultError (S ''App name is required'')"
  proof cases
    case 1
    show ?thesis
      unfolding 1 split_beta tool_handlers
      using app_name_declared_optional(1) model by simp
  next
    case 2
    show ?thesis
      unfolding 2 split_beta tool_handlers
      using app_name_declared_optional(2) others(1) by simp
  next
    case 3
    show ?thesis
      unfolding 3 split_beta tool_handlers
      using app_name_declared_optional(3) others(2) by simp
  next
    case 4
    show ?thesis
      unfolding 4 split_beta tool_handlers
      using app_name_declared_optional(4) others(3) by simp
  qed
next
  show "S ''app_name'' \<in> set (RequiredParams (fst GetProduceAppBoilerplateTool))"
    by (simp add: GetProduceAppBoilerplateTool_def RequiredParams_def NewTool_def WithString_def)
qed

text \<open>A request with the empty application name, sent to the service tool.\<close>

theorem app_name_effectively_required_witness:
  "snd GetProduceServiceBoilerplateTool sample_lib
     (map_of [(S ''app_name'', JString []), (S ''model_name'', JString (S ''user''))])
     = NewToolResultError (S ''App name is required'') \<and>
   S ''app_name'' \<notin> set (RequiredParams (fst GetProduceServiceBoilerplateTool))"
proof -
  let ?request = "map_of [(S ''app_name'', JString []), (S ''model_name'', JString (S ''user''))]"
  have a: "?request (S ''app_name'') = None \<or> ?request (S ''app_name'') = Some (JString [])"
    by simp
  have mem: "GetProduceServiceBoilerplateTool \<in>
      {GetProduceModelBoilerplateTool, GetProduceServiceBoilerplateTool,
       GetProduceApiControllerBoilerplateTool, GetProduceHtmlControllerBoilerplateTool}"
    by simp
  note th = app_name_effectively_required [where request = "?request" and L = sample_lib,
      OF a, THEN conjunct1, THEN bspec, OF mem, unfolded split_beta]
  show ?thesis
    using th [THEN conjunct2, THEN conjunct2] th [THEN conjunct2, THEN conjunct1]
    by (intro conjI)
qed

text \<open>
  C10. \<open>FixAppHandler\<close> never returns an error result: whatever the request, the result
  is a text result. When \<open>app_name\<close> and \<open>error_message\<close> are both absent or empty the
  text is the introduction and the checklist with the empty application name put into it.
\<close>

theorem fix_app_never_error:
  "IsError (FixAppHandler request) = False \<and>
   ((request (S ''app_name'') = None \<or> request (S ''app_name'') = Some (JString [])) \<and>
    (request (S ''error_message'') = None \<or> request (S ''error_message'') = Some (JString []))
    \<longrightarrow> FixAppHandler request = NewToolResultText (fix_intro @ fix_pointers []))"
  by (auto simp: FixAppHandler_def NewToolResultText_def GetString_def Let_def)

theorem fix_app_never_error_witness:
  "IsError (FixAppHandler (map_of [])) = False \<and>
   FixAppHandler (map_of []) = NewToolResultText (fix_intro @ fix_pointers []) \<and>
   IsError (FixAppHandler (map_of [(S ''app_name'', JNumber (S ''7''))])) = False"
  using fix_app_never_error [of "map_of []"]
    fix_app_never_error [of "map_of [(S ''app_name'', JNumber (S ''7''))]"]
  by (simp add: NewToolResultText_def)

end
